theory Spec2Isabelle
  imports
    Main
    "HOL-Library.List_Lexorder"
    "HOL-Library.Product_Lexorder"
    "HOL-Library.Sublist"
begin

section \<open>Strings as Python uses them\<close>

text \<open>
  Strings are \<^typ>\<open>string\<close> (lists of 8-bit characters), so the model covers ASCII
  text: Python's \<^verbatim>\<open>\d\<close>, \<^verbatim>\<open>str.lower\<close> and \<^verbatim>\<open>str.strip\<close> are taken on
  their ASCII range.
\<close>

definition is_digit :: "char \<Rightarrow> bool" where
  "is_digit c = (c \<in> set ''0123456789'')"

text \<open>\<^verbatim>\<open>re.findall(r"\d+", s)\<close>: the maximal runs of digits, left to right.
  The first argument is the run being read.\<close>

fun findall_digits :: "string \<Rightarrow> string \<Rightarrow> string list" where
  "findall_digits cur [] = (if cur = [] then [] else [cur])"
| "findall_digits cur (c # cs) =
     (if is_digit c then findall_digits (cur @ [c]) cs
      else (if cur = [] then [] else [cur]) @ findall_digits [] cs)"

definition digit_val :: "char \<Rightarrow> int" where
  "digit_val c = int (of_char c) - 48"

text \<open>\<^verbatim>\<open>int(p)\<close> on a run of digits; Python's integers are unbounded.\<close>

definition py_int :: "string \<Rightarrow> int" where
  "py_int s = foldl (\<lambda>n c. 10 * n + digit_val c) 0 s"

text \<open>\<^verbatim>\<open>[int(p) for p in re.findall(r"\d+", s)]\<close>\<close>

definition v_parts :: "string \<Rightarrow> int list" where
  "v_parts s = map py_int (findall_digits [] s)"

definition lower_char :: "char \<Rightarrow> char" where
  "lower_char c =
     (case map_of (zip ''ABCDEFGHIJKLMNOPQRSTUVWXYZ'' ''abcdefghijklmnopqrstuvwxyz'') c of
        None \<Rightarrow> c
      | Some l \<Rightarrow> l)"

definition lower :: "string \<Rightarrow> string" where
  "lower s = map lower_char s"

text \<open>\<^verbatim>\<open>q in s\<close> on strings: \<open>q\<close> occurs in \<open>s\<close> as a contiguous piece.\<close>

fun str_in :: "string \<Rightarrow> string \<Rightarrow> bool" where
  "str_in q [] = (q = [])"
| "str_in q (c # cs) = (prefix q (c # cs) \<or> str_in q cs)"

definition is_space :: "char \<Rightarrow> bool" where
  "is_space c = (of_char c \<in> {9::nat, 10, 11, 12, 13, 28, 29, 30, 31, 32})"

definition strip :: "string \<Rightarrow> string" where
  "strip s = rev (dropWhile is_space (rev (dropWhile is_space s)))"

text \<open>\<^verbatim>\<open>" ".join(xs)\<close>\<close>

fun join_sp :: "string list \<Rightarrow> string" where
  "join_sp [] = []"
| "join_sp [x] = x"
| "join_sp (x # y # ys) = x @ '' '' @ join_sp (y # ys)"

text \<open>The character of a decimal digit \<open>n < 10\<close>.\<close>

definition digit_char :: "nat \<Rightarrow> char" where
  "digit_char n = ''0123456789'' ! n"

text \<open>\<^verbatim>\<open>str(idx)\<close> for a row number.\<close>

fun str_nat :: "nat \<Rightarrow> string" where
  "str_nat n = (if n < 10 then [digit_char n] else str_nat (n div 10) @ [digit_char (n mod 10)])"

declare str_nat.simps [simp del]

text \<open>\<^verbatim>\<open>d.get(k, default)\<close>, the key's value being \<open>None\<close> when the key is absent.\<close>

definition get_or :: "'a option \<Rightarrow> 'a \<Rightarrow> 'a" where
  "get_or x d = (case x of None \<Rightarrow> d | Some y \<Rightarrow> y)"

text \<open>\<^verbatim>\<open>str(d.get(k))\<close>: an absent key prints as \<^verbatim>\<open>None\<close>.\<close>

definition py_str :: "string option \<Rightarrow> string" where
  "py_str x = (case x of None \<Rightarrow> ''None'' | Some y \<Rightarrow> y)"

section \<open>The data of the three sources\<close>

text \<open>
  The records the sources hand to the picker are dictionaries read from JSON. A field is
  \<open>None\<close> when the dictionary has no such key.
\<close>

record rss_entry =
  rss_version :: "string option"
  rss_type :: "string option"
  rss_date :: "string option"
  rss_electron :: "string option"
  rss_title :: "string option"

record docker_entry =
  dk_version :: "string option"
  dk_tag :: "string option"

text \<open>\<^verbatim>\<open>raw_data\<close> as \<^verbatim>\<open>fetch_all_data\<close> builds it, with its three keys.\<close>

record raw_data =
  rd_rss :: "rss_entry list"
  rd_docker :: "docker_entry list"
  rd_electron :: "string \<rightharpoonup> string"

datatype py_error = KeyError | TypeError | RowDoesNotExist

datatype screen = LoadingScreen | ConfirmScreen string

text \<open>The seven cells of a table row, as plain text, in column order.\<close>

record table_row =
  c_id :: string
  c_version :: string
  c_type :: string
  c_released :: string
  c_status :: string
  c_electron :: string
  c_chromium :: string

text \<open>
  The state of \<^verbatim>\<open>ObsiVerPicker\<close>: its attributes, and of its widgets the rows and the
  cursor of the \<^verbatim>\<open>DataTable\<close>, the visibility of the search box, the stack of
  screens pushed over the table and the notices shown. \<open>raw = None\<close> is the empty
  dictionary the attribute starts with.
\<close>

record picker =
  raw :: "raw_data option"
  search_query :: string
  show_mobile :: bool
  show_early_access :: bool
  found_only :: bool
  sort_by_priority :: bool
  table :: "table_row list"
  cursor_row :: nat
  search_visible :: bool
  screen_stack :: "screen list"
  notices :: "string list"

text \<open>A filtered item: \<^verbatim>\<open>(rss, has_d, stat, el_v, cr_v)\<close>.\<close>

type_synonym item = "rss_entry \<times> bool \<times> string \<times> string \<times> string"

section \<open>\<^verbatim>\<open>cli.py\<close>: building the table\<close>

text \<open>\<^verbatim>\<open>{v["version"]: v for v in docker if "version" in v}\<close>: a later entry replaces an
  earlier one of the same version.\<close>

definition docker_map :: "docker_entry list \<Rightarrow> (string \<rightharpoonup> docker_entry)" where
  "docker_map ds =
     fold (\<lambda>d m. case dk_version d of None \<Rightarrow> m | Some v \<Rightarrow> m(v \<mapsto> d)) ds Map.empty"

definition is_early :: "rss_entry \<Rightarrow> bool" where
  "is_early rss =
     (\<exists>x \<in> set [''(Early access)'', ''(Insider)'']. str_in x (get_or (rss_title rss) ''''))"

definition has_docker :: "(string \<rightharpoonup> docker_entry) \<Rightarrow> string \<Rightarrow> string \<Rightarrow> bool" where
  "has_docker dm v t = (v \<in> dom dm \<and> t = ''Desktop'')"

definition status_of :: "bool \<Rightarrow> string \<Rightarrow> string" where
  "status_of has_d t = (if has_d then ''Found'' else if t = ''Desktop'' then ''Missing'' else ''N/A'')"

definition searchable_text :: "rss_entry \<Rightarrow> string \<Rightarrow> string \<Rightarrow> string \<Rightarrow> string \<Rightarrow> string \<Rightarrow> string" where
  "searchable_text rss v t stat el_v cr_v =
     lower (v @ '' '' @ t @ '' '' @ stat @ '' '' @ py_str (rss_date rss) @ '' '' @ el_v @ '' '' @ cr_v)"

definition dedup_key :: "string \<Rightarrow> string \<Rightarrow> string" where
  "dedup_key v t = v @ ''||'' @ t"

text \<open>The item a changelog record gives, before any filtering (lines 133 to 139).\<close>

definition item_of :: "(string \<rightharpoonup> docker_entry) \<Rightarrow> (string \<rightharpoonup> string) \<Rightarrow> rss_entry \<Rightarrow> item" where
  "item_of dm em rss =
     (let v = get_or (rss_version rss) ''0.0.0'';
          t = get_or (rss_type rss) ''Desktop'';
          el_v = get_or (rss_electron rss) ''---'';
          cr_v = get_or (em el_v) ''---'';
          has_d = has_docker dm v t;
          stat = status_of has_d t
      in (rss, has_d, stat, el_v, cr_v))"

text \<open>The first \<^verbatim>\<open>continue\<close>: the three filter flags.\<close>

definition flag_hidden :: "picker \<Rightarrow> (string \<rightharpoonup> docker_entry) \<Rightarrow> rss_entry \<Rightarrow> bool" where
  "flag_hidden st dm rss =
     (let v = get_or (rss_version rss) ''0.0.0'';
          t = get_or (rss_type rss) ''Desktop''
      in (\<not> show_mobile st \<and> t = ''Mobile'')
         \<or> (\<not> show_early_access st \<and> is_early rss)
         \<or> (found_only st \<and> \<not> has_docker dm v t))"

text \<open>The second \<^verbatim>\<open>continue\<close>: the search query.\<close>

definition query_hidden :: "picker \<Rightarrow> (string \<rightharpoonup> docker_entry) \<Rightarrow> (string \<rightharpoonup> string) \<Rightarrow> rss_entry \<Rightarrow> bool" where
  "query_hidden st dm em rss =
     (case item_of dm em rss of (r, has_d, stat, el_v, cr_v) \<Rightarrow>
        search_query st \<noteq> [] \<and>
        \<not> str_in (lower (search_query st))
            (searchable_text rss (get_or (rss_version rss) ''0.0.0'')
               (get_or (rss_type rss) ''Desktop'') stat el_v cr_v))"

definition rss_key :: "rss_entry \<Rightarrow> string" where
  "rss_key rss = dedup_key (get_or (rss_version rss) ''0.0.0'') (get_or (rss_type rss) ''Desktop'')"

text \<open>The loop of \<^verbatim>\<open>update_table\<close> over the changelog records, with the set \<^verbatim>\<open>seen\<close>.\<close>

fun filter_loop ::
  "picker \<Rightarrow> (string \<rightharpoonup> docker_entry) \<Rightarrow> (string \<rightharpoonup> string) \<Rightarrow> string set \<Rightarrow> rss_entry list \<Rightarrow> item list"
where
  "filter_loop st dm em seen [] = []"
| "filter_loop st dm em seen (rss # rest) =
     (if flag_hidden st dm rss then filter_loop st dm em seen rest
      else if query_hidden st dm em rss then filter_loop st dm em seen rest
      else if rss_key rss \<in> seen then filter_loop st dm em seen rest
      else item_of dm em rss # filter_loop st dm em (insert (rss_key rss) seen) rest)"

definition filtered :: "picker \<Rightarrow> raw_data \<Rightarrow> item list" where
  "filtered st rd = filter_loop st (docker_map (rd_docker rd)) (rd_electron rd) {} (rd_rss rd)"

text \<open>\<^verbatim>\<open>[-x for x in v_parts]\<close> of a version string.\<close>

definition version_key :: "string \<Rightarrow> int list" where
  "version_key s = map uminus (v_parts s)"

definition item_version :: "item \<Rightarrow> string" where
  "item_version it = get_or (rss_version (fst it)) ''0.0.0''"

definition prio :: "item \<Rightarrow> nat" where
  "prio it = (if fst (snd it) then 0 else if rss_type (fst it) = Some ''Mobile'' then 1 else 2)"

text \<open>
  \<^verbatim>\<open>sort_key\<close> returns a pair when \<^verbatim>\<open>sort_by_priority\<close> is set and a list otherwise;
  Python orders pairs and lists lexicographically, a proper prefix before its
  extensions, which is the order of the two library instances used here.
  \<^verbatim>\<open>sorted\<close> is stable, as insertion by \<^const>\<open>sort_key\<close> is.
\<close>

definition key_prio :: "item \<Rightarrow> nat \<times> int list" where
  "key_prio it = (prio it, version_key (item_version it))"

definition key_version :: "item \<Rightarrow> int list" where
  "key_version it = version_key (item_version it)"

definition sort_items :: "picker \<Rightarrow> item list \<Rightarrow> item list" where
  "sort_items st its = (if sort_by_priority st then sort_key key_prio its else sort_key key_version its)"

definition format_ver :: "string \<Rightarrow> string" where
  "format_ver v = (if \<exists>c \<in> set v. is_digit c then ''v'' @ v else v)"

text \<open>\<^verbatim>\<open>table.add_row\<close>: \<^verbatim>\<open>rss.get("date")[:10]\<close> raises \<^verbatim>\<open>TypeError\<close> on a record
  without a date.\<close>

definition render_row :: "nat \<Rightarrow> item \<Rightarrow> py_error + table_row" where
  "render_row idx it =
     (case it of (rss, has_d, stat, el_v, cr_v) \<Rightarrow>
        (case rss_date rss of
           None \<Rightarrow> Inl TypeError
         | Some d \<Rightarrow>
             Inr \<lparr>c_id = str_nat idx,
                  c_version = py_str (rss_version rss),
                  c_type = py_str (rss_type rss),
                  c_released = take 10 d,
                  c_status = stat,
                  c_electron = format_ver el_v,
                  c_chromium = format_ver cr_v\<rparr>))"

fun add_rows :: "nat \<Rightarrow> item list \<Rightarrow> py_error + table_row list" where
  "add_rows idx [] = Inr []"
| "add_rows idx (it # its) =
     (case render_row idx it of
        Inl e \<Rightarrow> Inl e
      | Inr r \<Rightarrow> (case add_rows (Suc idx) its of Inl e \<Rightarrow> Inl e | Inr rs \<Rightarrow> Inr (r # rs)))"

text \<open>The rows shown, sorted: what \<^verbatim>\<open>update_table\<close> enumerates.\<close>

definition visible :: "picker \<Rightarrow> raw_data \<Rightarrow> item list" where
  "visible st rd = sort_items st (filtered st rd)"

text \<open>\<^verbatim>\<open>table.clear\<close> empties the table and puts the cursor on row 0.\<close>

definition update_table :: "picker \<Rightarrow> py_error + picker" where
  "update_table st =
     (case raw st of
        None \<Rightarrow> Inr st
      | Some rd \<Rightarrow>
          (case add_rows 0 (visible st rd) of
             Inl e \<Rightarrow> Inl e
           | Inr rows \<Rightarrow> Inr (st\<lparr>table := rows, cursor_row := 0\<rparr>)))"

text \<open>A record passes both \<^verbatim>\<open>continue\<close> tests that come before the test of \<^verbatim>\<open>seen\<close>.\<close>

definition admitted :: "picker \<Rightarrow> (string \<rightharpoonup> docker_entry) \<Rightarrow> (string \<rightharpoonup> string) \<Rightarrow> rss_entry \<Rightarrow> bool" where
  "admitted st dm em rss = (\<not> flag_hidden st dm rss \<and> \<not> query_hidden st dm em rss)"

text \<open>The first record of each key, the keys of \<open>seen\<close> left out: what the test of
  \<^verbatim>\<open>seen\<close> keeps of a list of records.\<close>

fun first_per_key :: "string set \<Rightarrow> rss_entry list \<Rightarrow> rss_entry list" where
  "first_per_key seen [] = []"
| "first_per_key seen (r # rs) =
     (if rss_key r \<in> seen then first_per_key seen rs
      else r # first_per_key (insert (rss_key r) seen) rs)"

definition item_type :: "item \<Rightarrow> string" where
  "item_type it = get_or (rss_type (fst it)) ''Desktop''"

section \<open>\<^verbatim>\<open>cli.py\<close>: the actions\<close>

definition action_toggle_mobile :: "picker \<Rightarrow> py_error + picker" where
  "action_toggle_mobile st = update_table (st\<lparr>show_mobile := \<not> show_mobile st\<rparr>)"

definition action_toggle_early :: "picker \<Rightarrow> py_error + picker" where
  "action_toggle_early st = update_table (st\<lparr>show_early_access := \<not> show_early_access st\<rparr>)"

definition action_toggle_found :: "picker \<Rightarrow> py_error + picker" where
  "action_toggle_found st = update_table (st\<lparr>found_only := \<not> found_only st\<rparr>)"

definition action_toggle_sort :: "picker \<Rightarrow> py_error + picker" where
  "action_toggle_sort st = update_table (st\<lparr>sort_by_priority := \<not> sort_by_priority st\<rparr>)"

definition on_input_changed :: "string \<Rightarrow> picker \<Rightarrow> py_error + picker" where
  "on_input_changed txt st = update_table (st\<lparr>search_query := txt\<rparr>)"




text \<open>\<^verbatim>\<open>" ".join(str(x).lower() for x in t.get_row_at(idx))\<close>\<close>

definition row_text :: "table_row \<Rightarrow> string" where
  "row_text r =
     join_sp (map lower
       [c_id r, c_version r, c_type r, c_released r, c_status r, c_electron r, c_chromium r])"

text \<open>\<^verbatim>\<open>(c + (i * d)) % count\<close>, Python's \<^verbatim>\<open>%\<close> taking the sign of the divisor.\<close>

definition jump_idx :: "nat \<Rightarrow> int \<Rightarrow> nat \<Rightarrow> nat \<Rightarrow> nat" where
  "jump_idx c d count i = nat ((int c + int i * d) mod int count)"

definition row_matches :: "picker \<Rightarrow> nat \<Rightarrow> bool" where
  "row_matches st idx = str_in (lower (search_query st)) (row_text (table st ! idx))"

text \<open>\<^verbatim>\<open>jump_to_match\<close>: the loop over \<^verbatim>\<open>range(1, count)\<close> stops at the first row
  that matches and moves the cursor there.\<close>

definition jump_to_match :: "picker \<Rightarrow> int \<Rightarrow> picker" where
  "jump_to_match st d =
     (if search_query st = [] then st
      else
        let c = cursor_row st; count = length (table st)
        in case find (\<lambda>i. row_matches st (jump_idx c d count i)) [1..<count] of
             None \<Rightarrow> st
           | Some i \<Rightarrow> st\<lparr>cursor_row := jump_idx c d count i\<rparr>)"

definition action_next_match :: "picker \<Rightarrow> picker" where
  "action_next_match st = jump_to_match st 1"

definition action_prev_match :: "picker \<Rightarrow> picker" where
  "action_prev_match st = jump_to_match st (- 1)"

section \<open>\<^verbatim>\<open>sources/electron.py\<close>\<close>

text \<open>\<^verbatim>\<open>map_version\<close>; \<open>fetched\<close> is what \<^verbatim>\<open>get_data()\<close> returns when no mapping is
  passed.\<close>

definition map_version :: "(string \<rightharpoonup> string) \<Rightarrow> string \<Rightarrow> (string \<rightharpoonup> string) option \<Rightarrow> string" where
  "map_version fetched electron_version mapping_data =
     (let m = (case mapping_data of None \<Rightarrow> fetched | Some md \<Rightarrow> md)
      in get_or (m electron_version) ''Unknown'')"

section \<open>\<^verbatim>\<open>sources/rss.py\<close>: sorting and filling the Electron versions\<close>

text \<open>The dictionary \<^verbatim>\<open>get_data\<close> builds for a feed entry; \<open>fv_electron\<close> is
  \<open>None\<close> where the entry's text names no Electron version.\<close>

record feed_version =
  fv_version :: string
  fv_type :: string
  fv_date :: string
  fv_electron :: "string option"
  fv_title :: string

text \<open>The loop over the sorted records, \<open>last_electron\<close> first; \<^verbatim>\<open>if v["electron"]\<close>
  is false for \<open>None\<close> and for the empty string.\<close>

fun fill_electron :: "string \<Rightarrow> feed_version list \<Rightarrow> feed_version list" where
  "fill_electron last_electron [] = []"
| "fill_electron last_electron (v # vs) =
     (case fv_electron v of
        None \<Rightarrow> v\<lparr>fv_electron := Some last_electron\<rparr> # fill_electron last_electron vs
      | Some e \<Rightarrow>
          if e \<noteq> [] then v # fill_electron e vs
          else v\<lparr>fv_electron := Some last_electron\<rparr> # fill_electron last_electron vs)"

text \<open>Lines 57 to 67: sort (\<^verbatim>\<open>list.sort\<close> is stable), fill, reverse.\<close>

definition sort_versions :: "feed_version list \<Rightarrow> feed_version list" where
  "sort_versions versions = sort_key (\<lambda>x. v_parts (fv_version x)) versions"

definition finish_versions :: "feed_version list \<Rightarrow> feed_version list" where
  "finish_versions versions = rev (fill_electron ''13.0.0'' (sort_versions versions))"

text \<open>The Electron versions a list of records names, in order.\<close>

definition named_electrons :: "feed_version list \<Rightarrow> string list" where
  "named_electrons vs =
     concat (map (\<lambda>v. case fv_electron v of None \<Rightarrow> [] | Some e \<Rightarrow> if e \<noteq> [] then [e] else []) vs)"

section \<open>The cache files\<close>

text \<open>
  Each source ends a successful fetch with
  \<^verbatim>\<open>self.CACHE_FILE.write_text(json.dumps(..., indent=2))\<close>. \<^verbatim>\<open>Path.write_text\<close> opens
  the file itself for writing, which empties it, and writes the text into it. The file
  system is a map from paths to contents; the states an interruption of the call can
  leave are the file emptied and then holding a longer and longer part of the text.
  The text \<^verbatim>\<open>json.dumps\<close> gives is a parameter.
\<close>

type_synonym files = "string \<rightharpoonup> string"

definition write_text_states :: "string \<Rightarrow> string \<Rightarrow> files \<Rightarrow> files list" where
  "write_text_states path txt fs = map (\<lambda>k. fs(path \<mapsto> take k txt)) [0..<Suc (length txt)]"

definition write_text :: "string \<Rightarrow> string \<Rightarrow> files \<Rightarrow> files" where
  "write_text path txt fs = fs(path \<mapsto> txt)"

definition rss_cache_file :: string where
  "rss_cache_file = ''.obsidian_cache/rss_versions.json''"

definition docker_cache_file :: string where
  "docker_cache_file = ''.obsidian_cache/docker_versions.json''"

definition electron_cache_file :: string where
  "electron_cache_file = ''.obsidian_cache/electron_versions.json''"

text \<open>The states of the file system while each source saves its snapshot; the Docker
  source saves only a list that is not empty.\<close>

definition rss_save_states :: "('a list \<Rightarrow> string) \<Rightarrow> 'a list \<Rightarrow> files \<Rightarrow> files list" where
  "rss_save_states dumps versions fs = write_text_states rss_cache_file (dumps versions) fs"

definition docker_save_states :: "('a list \<Rightarrow> string) \<Rightarrow> 'a list \<Rightarrow> files \<Rightarrow> files list" where
  "docker_save_states dumps versions fs =
     (if versions \<noteq> [] then write_text_states docker_cache_file (dumps versions) fs else [fs])"

definition electron_save_states :: "('a \<Rightarrow> string) \<Rightarrow> 'a \<Rightarrow> files \<Rightarrow> files list" where
  "electron_save_states dumps data fs = write_text_states electron_cache_file (dumps data) fs"

section \<open>Python's order on lists, written out\<close>

text \<open>\<^verbatim>\<open>xs < ys\<close> on lists of integers: the first place where the lists differ
  decides, and a list that ends first is the smaller.\<close>

fun py_list_lt :: "int list \<Rightarrow> int list \<Rightarrow> bool" where
  "py_list_lt [] [] = False"
| "py_list_lt [] (y # ys) = True"
| "py_list_lt (x # xs) [] = False"
| "py_list_lt (x # xs) (y # ys) = (if x = y then py_list_lt xs ys else x < y)"

section \<open>The version order of the two sort modes\<close>

lemma py_list_lt_less: "py_list_lt xs ys = (xs < ys)"
  by (induction xs ys rule: py_list_lt.induct) auto

lemma neg_less_iff:
  "(map uminus xs < map uminus ys) \<longleftrightarrow>
     (\<exists>u x y v w. xs = u @ x # v \<and> ys = u @ y # w \<and> (y::int) < x) \<or> (\<exists>y w. ys = xs @ y # w)"
proof (induction xs arbitrary: ys)
  case Nil
  then show ?case by (cases ys) auto
next
  case (Cons a xs)
  show ?case
  proof (cases ys)
    case Nil
    then show ?thesis by simp
  next
    case (Cons b zs)
    show ?thesis
    proof (cases "a = b")
      case True
      have "(map uminus (a # xs) < map uminus ys) = (map uminus xs < map uminus zs)"
        using Cons True by simp
      also have "\<dots> = ((\<exists>u x y v w. xs = u @ x # v \<and> zs = u @ y # w \<and> y < x) \<or> (\<exists>y w. zs = xs @ y # w))"
        by (rule Cons.IH)
      also have "\<dots> = ((\<exists>u x y v w. a # xs = u @ x # v \<and> ys = u @ y # w \<and> y < x) \<or> (\<exists>y w. ys = (a # xs) @ y # w))"
        (is "(?A \<or> ?B) = (?C \<or> ?D)")
      proof -
        have "?A = ?C"
        proof
          assume ?A
          then obtain u x y v w where "xs = u @ x # v" "zs = u @ y # w" "y < x" by blast
          then have "a # xs = (a # u) @ x # v \<and> ys = (a # u) @ y # w \<and> y < x"
            using Cons True by simp
          then show ?C by blast
        next
          assume ?C
          then obtain u x y v w where h: "a # xs = u @ x # v" "ys = u @ y # w" "y < x" by blast
          show ?A
          proof (cases u)
            case Nil
            then show ?thesis using h Cons True by simp
          next
            case (Cons c u')
            then have "xs = u' @ x # v \<and> zs = u' @ y # w" using h \<open>ys = b # zs\<close> by simp
            then show ?thesis using h(3) by blast
          qed
        qed
        moreover have "?B = ?D" using Cons True by simp
        ultimately show ?thesis by simp
      qed
      finally show ?thesis .
    next
      case False
      have l: "(map uminus (a # xs) < map uminus ys) = (b < a)"
        using Cons False by auto
      have r1: "(\<exists>u x y v w. a # xs = u @ x # v \<and> ys = u @ y # w \<and> y < x) = (b < a)"
      proof
        assume "\<exists>u x y v w. a # xs = u @ x # v \<and> ys = u @ y # w \<and> y < x"
        then obtain u x y v w where h: "a # xs = u @ x # v" "ys = u @ y # w" "y < x" by blast
        show "b < a"
        proof (cases u)
          case Nil
          then show ?thesis using h Cons by simp
        next
          case (Cons c u')
          then show ?thesis using h \<open>ys = b # zs\<close> False by simp
        qed
      next
        assume "b < a"
        then have "a # xs = [] @ a # xs \<and> ys = [] @ b # zs \<and> b < a" using Cons by simp
        then show "\<exists>u x y v w. a # xs = u @ x # v \<and> ys = u @ y # w \<and> y < x" by blast
      qed
      have r2: "\<not> (\<exists>y w. ys = (a # xs) @ y # w)" using Cons False by simp
      show ?thesis using l r1 r2 by simp
    qed
  qed
qed

lemmas version_eval = v_parts_def py_int_def digit_val_def is_digit_def version_key_def

text \<open>
  Claim C1, as the code has it. The key of a version string is the list of its numeric
  components, each negated, and keys are compared as Python compares lists: at the
  first component where two versions differ the larger number sorts first, so
  \<^verbatim>\<open>10.0.0\<close> sorts above \<^verbatim>\<open>9.10.0\<close> and that above \<^verbatim>\<open>9.9.9\<close>. Nothing pads the
  shorter list: a version whose components are a proper start of another's sorts
  strictly above it, so \<^verbatim>\<open>1.2\<close> sorts above \<^verbatim>\<open>1.2.0\<close>, and two keys are equal only
  when the component lists are the same. Both sort modes use this order: the
  version-only mode directly, the priority mode among items of one priority.
\<close>

theorem version_order_componentwise:
  "(version_key a < version_key b \<longleftrightarrow>
      (\<exists>u x y v w. v_parts a = u @ x # v \<and> v_parts b = u @ y # w \<and> y < x)
      \<or> (\<exists>y w. v_parts b = v_parts a @ y # w))
   \<and> (version_key a = version_key b \<longleftrightarrow> v_parts a = v_parts b)
   \<and> (key_version i < key_version j \<longleftrightarrow>
        version_key (item_version i) < version_key (item_version j))
   \<and> (prio i = prio j \<longrightarrow>
        (key_prio i < key_prio j \<longleftrightarrow>
           version_key (item_version i) < version_key (item_version j)))
   \<and> version_key ''10.0.0'' < version_key ''9.10.0''
   \<and> version_key ''9.10.0'' < version_key ''9.9.9''
   \<and> version_key ''1.2'' < version_key ''1.2.0''"
proof -
  have 1: "version_key a < version_key b \<longleftrightarrow>
      (\<exists>u x y v w. v_parts a = u @ x # v \<and> v_parts b = u @ y # w \<and> y < x)
      \<or> (\<exists>y w. v_parts b = v_parts a @ y # w)"
    unfolding version_key_def by (rule neg_less_iff)
  have inj: "inj (uminus :: int \<Rightarrow> int)" by (simp add: inj_on_def)
  have 2: "version_key a = version_key b \<longleftrightarrow> v_parts a = v_parts b"
    unfolding version_key_def using inj by (simp add: inj_map_eq_map)
  have 3: "key_version i < key_version j \<longleftrightarrow>
        version_key (item_version i) < version_key (item_version j)"
    by (simp add: key_version_def)
  have 4: "prio i = prio j \<longrightarrow>
        (key_prio i < key_prio j \<longleftrightarrow>
           version_key (item_version i) < version_key (item_version j))"
    by (simp add: key_prio_def less_prod_def)
  have 5: "version_key ''10.0.0'' < version_key ''9.10.0''" by (simp add: version_eval)
  have 6: "version_key ''9.10.0'' < version_key ''9.9.9''" by (simp add: version_eval)
  have 7: "version_key ''1.2'' < version_key ''1.2.0''" by (simp add: version_eval)
  show ?thesis using 1 2 3 4 5 6 7 by blast
qed

theorem version_order_componentwise_witness:
  "prio (\<lparr>rss_version = Some ''1.2'', rss_type = Some ''Desktop'', rss_date = Some ''2024-01-01'',
           rss_electron = Some ''25.0.0'', rss_title = Some ''Obsidian 1.2 Desktop''\<rparr>,
         False, ''Missing'', ''25.0.0'', ''---'')
   = prio (\<lparr>rss_version = Some ''1.2.5'', rss_type = Some ''Desktop'', rss_date = Some ''2024-02-01'',
           rss_electron = Some ''25.0.0'', rss_title = Some ''Obsidian 1.2.5 Desktop''\<rparr>,
         False, ''Missing'', ''25.0.0'', ''---'')
   \<and> key_prio (\<lparr>rss_version = Some ''1.2'', rss_type = Some ''Desktop'', rss_date = Some ''2024-01-01'',
           rss_electron = Some ''25.0.0'', rss_title = Some ''Obsidian 1.2 Desktop''\<rparr>,
         False, ''Missing'', ''25.0.0'', ''---'')
     < key_prio (\<lparr>rss_version = Some ''1.2.5'', rss_type = Some ''Desktop'', rss_date = Some ''2024-02-01'',
           rss_electron = Some ''25.0.0'', rss_title = Some ''Obsidian 1.2.5 Desktop''\<rparr>,
         False, ''Missing'', ''25.0.0'', ''---'')
   \<and> version_key ''1.2'' < version_key ''1.2.5''
   \<and> version_key ''9.10.0'' < version_key ''9.9.9''"
  using version_order_componentwise
    [of "''1.2''" "''1.2.5''"
        "(\<lparr>rss_version = Some ''1.2'', rss_type = Some ''Desktop'', rss_date = Some ''2024-01-01'',
           rss_electron = Some ''25.0.0'', rss_title = Some ''Obsidian 1.2 Desktop''\<rparr>,
         False, ''Missing'', ''25.0.0'', ''---'')"
        "(\<lparr>rss_version = Some ''1.2.5'', rss_type = Some ''Desktop'', rss_date = Some ''2024-02-01'',
           rss_electron = Some ''25.0.0'', rss_title = Some ''Obsidian 1.2.5 Desktop''\<rparr>,
         False, ''Missing'', ''25.0.0'', ''---'')"]
  by (simp add: prio_def item_version_def get_or_def version_eval)

text \<open>The zero padding the specification describes would make \<^verbatim>\<open>1.2\<close> and
  \<^verbatim>\<open>1.2.0\<close> equal; the keys differ, and the sort puts \<^verbatim>\<open>1.2\<close> first, even above
  \<^verbatim>\<open>1.2.1\<close>.\<close>

theorem version_padding_counterexample:
  "version_key ''1.2'' \<noteq> version_key ''1.2.0''
   \<and> sort_key version_key [''1.2.0'', ''1.2'', ''1.2.1''] = [''1.2'', ''1.2.1'', ''1.2.0'']"
  by (simp add: version_eval)

section \<open>Facts about the loop of \<^verbatim>\<open>update_table\<close>\<close>

lemma dom_fold_docker:
  "dom (fold (\<lambda>d m. case dk_version d of None \<Rightarrow> m | Some v \<Rightarrow> m(v \<mapsto> d)) ds m0)
     = dom m0 \<union> {v. \<exists>d \<in> set ds. dk_version d = Some v}"
proof (induction ds arbitrary: m0)
  case Nil
  then show ?case by simp
next
  case (Cons d ds)
  let ?f = "\<lambda>d m. case dk_version d of None \<Rightarrow> m | Some v \<Rightarrow> m(v \<mapsto> d)"
  show ?case
  proof (cases "dk_version d")
    case None
    have "dom (fold ?f (d # ds) m0) = dom (fold ?f ds m0)" using None by simp
    also have "\<dots> = dom m0 \<union> {v. \<exists>d \<in> set ds. dk_version d = Some v}" by (rule Cons.IH)
    also have "\<dots> = dom m0 \<union> {v. \<exists>d' \<in> set (d # ds). dk_version d' = Some v}"
      using None by auto
    finally show ?thesis .
  next
    case (Some v)
    have "dom (fold ?f (d # ds) m0) = dom (fold ?f ds (m0(v \<mapsto> d)))" using Some by simp
    also have "\<dots> = dom (m0(v \<mapsto> d)) \<union> {v. \<exists>d \<in> set ds. dk_version d = Some v}"
      by (rule Cons.IH)
    also have "\<dots> = insert v (dom m0 \<union> {v. \<exists>d \<in> set ds. dk_version d = Some v})"
      by simp
    also have "\<dots> = dom m0 \<union> {v. \<exists>d' \<in> set (d # ds). dk_version d' = Some v}"
      using Some by auto
    finally show ?thesis .
  qed
qed

lemma docker_map_dom: "v \<in> dom (docker_map ds) \<longleftrightarrow> (\<exists>d \<in> set ds. dk_version d = Some v)"
  by (simp add: docker_map_def dom_fold_docker)

lemma fst_item_of: "fst (item_of dm em rss) = rss"
  by (simp add: item_of_def Let_def)

lemma filter_loop_eq:
  "filter_loop st dm em seen rs
     = map (item_of dm em) (first_per_key seen (filter (admitted st dm em) rs))"
  by (induction rs arbitrary: seen) (auto simp: admitted_def)

lemma first_per_key_subset: "set (first_per_key seen rs) \<subseteq> set rs"
  by (induction rs arbitrary: seen) auto





lemma set_sort_items: "set (sort_items st its) = set its"
  by (simp add: sort_items_def)

lemma set_visible: "set (visible st rd) = set (filtered st rd)"
  by (simp add: visible_def set_sort_items)

lemma filtered_eq:
  "filtered st rd =
     map (item_of (docker_map (rd_docker rd)) (rd_electron rd))
       (first_per_key {} (filter (admitted st (docker_map (rd_docker rd)) (rd_electron rd)) (rd_rss rd)))"
  by (simp add: filtered_def filter_loop_eq)

lemma visible_item_of:
  assumes "it \<in> set (visible st rd)"
  shows "\<exists>rss \<in> set (rd_rss rd).
           it = item_of (docker_map (rd_docker rd)) (rd_electron rd) rss
           \<and> admitted st (docker_map (rd_docker rd)) (rd_electron rd) rss"
proof -
  let ?dm = "docker_map (rd_docker rd)" and ?em = "rd_electron rd"
  from assms obtain r where
    r: "r \<in> set (first_per_key {} (filter (admitted st ?dm ?em) (rd_rss rd)))" "it = item_of ?dm ?em r"
    by (auto simp: set_visible filtered_eq)
  then have "r \<in> set (filter (admitted st ?dm ?em) (rd_rss rd))"
    using first_per_key_subset by blast
  then show ?thesis using r by auto
qed

lemmas table_eval =
  item_of_def Let_def get_or_def has_docker_def status_of_def docker_map_def render_row_def
  py_str_def format_ver_def is_digit_def digit_char_def visible_def filtered_def
  sort_items_def flag_hidden_def query_hidden_def is_early_def searchable_text_def lower_def
  lower_char_def rss_key_def dedup_key_def key_prio_def key_version_def prio_def
  item_version_def update_table_def

lemmas filter_eval =
  admitted_def flag_hidden_def query_hidden_def is_early_def has_docker_def docker_map_def
  get_or_def Let_def item_of_def status_of_def searchable_text_def lower_def lower_char_def
  py_str_def rss_key_def dedup_key_def

lemmas visible_eval =
  visible_def filtered_def sort_items_def key_prio_def key_version_def prio_def
  item_version_def item_type_def version_key_def v_parts_def py_int_def digit_val_def is_digit_def

lemmas submit_eval = strip_def is_space_def str_nat.simps

section \<open>The Docker status of a row\<close>

text \<open>
  Claim C2. For the item a changelog record gives, with \<open>ds\<close> the registry tag
  records: the status is \<^verbatim>\<open>Found\<close> exactly when the platform is \<^verbatim>\<open>Desktop\<close> and some tag
  record has the record's version; it is \<^verbatim>\<open>N/A\<close> for every \<^verbatim>\<open>Mobile\<close> record,
  whatever the tags; it is \<^verbatim>\<open>Missing\<close> for a \<^verbatim>\<open>Desktop\<close> record whose version no tag
  record has, in particular when the registry gave no record at all. The status cell
  of the row shows this status, and every row of the table is the item of a changelog
  record.
\<close>

theorem availability_status:
  "(item_of (docker_map ds) em rss = (r, has_d, stat, el_v, cr_v) \<longrightarrow>
      (stat = ''Found'' \<longleftrightarrow>
         get_or (rss_type rss) ''Desktop'' = ''Desktop''
         \<and> (\<exists>d \<in> set ds. dk_version d = Some (get_or (rss_version rss) ''0.0.0'')))
      \<and> (get_or (rss_type rss) ''Desktop'' = ''Mobile'' \<longrightarrow> stat = ''N/A'')
      \<and> (get_or (rss_type rss) ''Desktop'' = ''Desktop''
           \<and> \<not> (\<exists>d \<in> set ds. dk_version d = Some (get_or (rss_version rss) ''0.0.0''))
         \<longrightarrow> stat = ''Missing'')
      \<and> (get_or (rss_type rss) ''Desktop'' = ''Desktop'' \<and> ds = [] \<longrightarrow> stat = ''Missing'')
      \<and> (\<forall>idx row. render_row idx (r, has_d, stat, el_v, cr_v) = Inr row \<longrightarrow> c_status row = stat))
   \<and> (it \<in> set (visible st rd) \<longrightarrow>
        (\<exists>rss' \<in> set (rd_rss rd). it = item_of (docker_map (rd_docker rd)) (rd_electron rd) rss'))"
proof -
  have A: "item_of (docker_map ds) em rss = (r, has_d, stat, el_v, cr_v) \<longrightarrow>
      (stat = ''Found'' \<longleftrightarrow>
         get_or (rss_type rss) ''Desktop'' = ''Desktop''
         \<and> (\<exists>d \<in> set ds. dk_version d = Some (get_or (rss_version rss) ''0.0.0'')))
      \<and> (get_or (rss_type rss) ''Desktop'' = ''Mobile'' \<longrightarrow> stat = ''N/A'')
      \<and> (get_or (rss_type rss) ''Desktop'' = ''Desktop''
           \<and> \<not> (\<exists>d \<in> set ds. dk_version d = Some (get_or (rss_version rss) ''0.0.0''))
         \<longrightarrow> stat = ''Missing'')
      \<and> (get_or (rss_type rss) ''Desktop'' = ''Desktop'' \<and> ds = [] \<longrightarrow> stat = ''Missing'')"
    by (auto simp: item_of_def Let_def has_docker_def status_of_def docker_map_dom)
  have B: "\<forall>idx row. render_row idx (r, has_d, stat, el_v, cr_v) = Inr row \<longrightarrow> c_status row = stat"
    by (auto simp: render_row_def split: option.splits)
  have C: "it \<in> set (visible st rd) \<longrightarrow>
        (\<exists>rss' \<in> set (rd_rss rd). it = item_of (docker_map (rd_docker rd)) (rd_electron rd) rss')"
    using visible_item_of by blast
  show ?thesis using A B C by blast
qed

theorem availability_status_witness:
  "item_of (docker_map [(\<lparr>dk_version = Some ''1.4.16'', dk_tag = Some ''1.4.16''\<rparr>)]) Map.empty (\<lparr>rss_version = Some ''1.4.16'', rss_type = Some ''Desktop'', rss_date = Some ''2023-10-26T10:00:00Z'',
        rss_electron = Some ''25.8.1'', rss_title = Some ''Obsidian 1.4.16 Desktop (Public)''\<rparr>) = (\<lparr>rss_version = Some ''1.4.16'', rss_type = Some ''Desktop'', rss_date = Some ''2023-10-26T10:00:00Z'',
        rss_electron = Some ''25.8.1'', rss_title = Some ''Obsidian 1.4.16 Desktop (Public)''\<rparr>, True, ''Found'', ''25.8.1'', ''---'')
   \<and> get_or (rss_type (\<lparr>rss_version = Some ''1.4.16'', rss_type = Some ''Desktop'', rss_date = Some ''2023-10-26T10:00:00Z'',
        rss_electron = Some ''25.8.1'', rss_title = Some ''Obsidian 1.4.16 Desktop (Public)''\<rparr>)) ''Desktop'' = ''Desktop''
   \<and> (\<exists>d \<in> set [(\<lparr>dk_version = Some ''1.4.16'', dk_tag = Some ''1.4.16''\<rparr>)]. dk_version d = Some (get_or (rss_version (\<lparr>rss_version = Some ''1.4.16'', rss_type = Some ''Desktop'', rss_date = Some ''2023-10-26T10:00:00Z'',
        rss_electron = Some ''25.8.1'', rss_title = Some ''Obsidian 1.4.16 Desktop (Public)''\<rparr>)) ''0.0.0''))
   \<and> item_of (docker_map []) Map.empty (\<lparr>rss_version = Some ''1.5.3'', rss_type = Some ''Desktop'', rss_date = Some ''2024-01-12T10:00:00Z'',
        rss_electron = Some ''25.8.1'', rss_title = Some ''Obsidian 1.5.3 Desktop (Public)''\<rparr>) = (\<lparr>rss_version = Some ''1.5.3'', rss_type = Some ''Desktop'', rss_date = Some ''2024-01-12T10:00:00Z'',
        rss_electron = Some ''25.8.1'', rss_title = Some ''Obsidian 1.5.3 Desktop (Public)''\<rparr>, False, ''Missing'', ''25.8.1'', ''---'')
   \<and> get_or (rss_type (\<lparr>rss_version = Some ''1.5.3'', rss_type = Some ''Desktop'', rss_date = Some ''2024-01-12T10:00:00Z'',
        rss_electron = Some ''25.8.1'', rss_title = Some ''Obsidian 1.5.3 Desktop (Public)''\<rparr>)) ''Desktop'' = ''Desktop''
   \<and> item_of (docker_map [(\<lparr>dk_version = Some ''1.4.16'', dk_tag = Some ''1.4.16''\<rparr>)]) Map.empty (\<lparr>rss_version = Some ''1.4.16'', rss_type = Some ''Mobile'', rss_date = Some ''2023-10-27T10:00:00Z'',
        rss_electron = Some ''25.8.1'', rss_title = Some ''Obsidian 1.4.16 Mobile (Public)''\<rparr>) = (\<lparr>rss_version = Some ''1.4.16'', rss_type = Some ''Mobile'', rss_date = Some ''2023-10-27T10:00:00Z'',
        rss_electron = Some ''25.8.1'', rss_title = Some ''Obsidian 1.4.16 Mobile (Public)''\<rparr>, False, ''N/A'', ''25.8.1'', ''---'')
   \<and> get_or (rss_type (\<lparr>rss_version = Some ''1.4.16'', rss_type = Some ''Mobile'', rss_date = Some ''2023-10-27T10:00:00Z'',
        rss_electron = Some ''25.8.1'', rss_title = Some ''Obsidian 1.4.16 Mobile (Public)''\<rparr>)) ''Desktop'' = ''Mobile''
   \<and> (\<exists>d \<in> set [(\<lparr>dk_version = Some ''1.4.16'', dk_tag = Some ''1.4.16''\<rparr>)]. dk_version d = Some (get_or (rss_version (\<lparr>rss_version = Some ''1.4.16'', rss_type = Some ''Mobile'', rss_date = Some ''2023-10-27T10:00:00Z'',
        rss_electron = Some ''25.8.1'', rss_title = Some ''Obsidian 1.4.16 Mobile (Public)''\<rparr>)) ''0.0.0''))
   \<and> (\<lparr>rss_version = Some ''1.4.16'', rss_type = Some ''Desktop'', rss_date = Some ''2023-10-26T10:00:00Z'',
        rss_electron = Some ''25.8.1'', rss_title = Some ''Obsidian 1.4.16 Desktop (Public)''\<rparr>, True, ''Found'', ''25.8.1'', ''---'') \<in> set (visible (\<lparr>raw = Some \<lparr>rd_rss = [\<lparr>rss_version = Some ''1.5.3'', rss_type = Some ''Desktop'', rss_date = Some ''2024-01-12T10:00:00Z'',
        rss_electron = Some ''25.8.1'', rss_title = Some ''Obsidian 1.5.3 Desktop (Public)''\<rparr>, \<lparr>rss_version = Some ''1.4.16'', rss_type = Some ''Desktop'', rss_date = Some ''2023-10-26T10:00:00Z'',
        rss_electron = Some ''25.8.1'', rss_title = Some ''Obsidian 1.4.16 Desktop (Public)''\<rparr>],
        rd_docker = [\<lparr>dk_version = Some ''1.4.16'', dk_tag = Some ''1.4.16''\<rparr>], rd_electron = Map.empty\<rparr>, search_query = '''', show_mobile = True,
        show_early_access = True, found_only = False, sort_by_priority = True, table = [],
        cursor_row = 0, search_visible = False, screen_stack = [], notices = []\<rparr>) (\<lparr>rd_rss = [\<lparr>rss_version = Some ''1.5.3'', rss_type = Some ''Desktop'', rss_date = Some ''2024-01-12T10:00:00Z'',
        rss_electron = Some ''25.8.1'', rss_title = Some ''Obsidian 1.5.3 Desktop (Public)''\<rparr>, \<lparr>rss_version = Some ''1.4.16'', rss_type = Some ''Desktop'', rss_date = Some ''2023-10-26T10:00:00Z'',
        rss_electron = Some ''25.8.1'', rss_title = Some ''Obsidian 1.4.16 Desktop (Public)''\<rparr>],
        rd_docker = [\<lparr>dk_version = Some ''1.4.16'', dk_tag = Some ''1.4.16''\<rparr>], rd_electron = Map.empty\<rparr>))
   \<and> (\<exists>rss' \<in> set (rd_rss (\<lparr>rd_rss = [\<lparr>rss_version = Some ''1.5.3'', rss_type = Some ''Desktop'', rss_date = Some ''2024-01-12T10:00:00Z'',
        rss_electron = Some ''25.8.1'', rss_title = Some ''Obsidian 1.5.3 Desktop (Public)''\<rparr>, \<lparr>rss_version = Some ''1.4.16'', rss_type = Some ''Desktop'', rss_date = Some ''2023-10-26T10:00:00Z'',
        rss_electron = Some ''25.8.1'', rss_title = Some ''Obsidian 1.4.16 Desktop (Public)''\<rparr>],
        rd_docker = [\<lparr>dk_version = Some ''1.4.16'', dk_tag = Some ''1.4.16''\<rparr>], rd_electron = Map.empty\<rparr>)).
         (\<lparr>rss_version = Some ''1.4.16'', rss_type = Some ''Desktop'', rss_date = Some ''2023-10-26T10:00:00Z'',
        rss_electron = Some ''25.8.1'', rss_title = Some ''Obsidian 1.4.16 Desktop (Public)''\<rparr>, True, ''Found'', ''25.8.1'', ''---'') = item_of (docker_map (rd_docker (\<lparr>rd_rss = [\<lparr>rss_version = Some ''1.5.3'', rss_type = Some ''Desktop'', rss_date = Some ''2024-01-12T10:00:00Z'',
        rss_electron = Some ''25.8.1'', rss_title = Some ''Obsidian 1.5.3 Desktop (Public)''\<rparr>, \<lparr>rss_version = Some ''1.4.16'', rss_type = Some ''Desktop'', rss_date = Some ''2023-10-26T10:00:00Z'',
        rss_electron = Some ''25.8.1'', rss_title = Some ''Obsidian 1.4.16 Desktop (Public)''\<rparr>],
        rd_docker = [\<lparr>dk_version = Some ''1.4.16'', dk_tag = Some ''1.4.16''\<rparr>], rd_electron = Map.empty\<rparr>))) (rd_electron (\<lparr>rd_rss = [\<lparr>rss_version = Some ''1.5.3'', rss_type = Some ''Desktop'', rss_date = Some ''2024-01-12T10:00:00Z'',
        rss_electron = Some ''25.8.1'', rss_title = Some ''Obsidian 1.5.3 Desktop (Public)''\<rparr>, \<lparr>rss_version = Some ''1.4.16'', rss_type = Some ''Desktop'', rss_date = Some ''2023-10-26T10:00:00Z'',
        rss_electron = Some ''25.8.1'', rss_title = Some ''Obsidian 1.4.16 Desktop (Public)''\<rparr>],
        rd_docker = [\<lparr>dk_version = Some ''1.4.16'', dk_tag = Some ''1.4.16''\<rparr>], rd_electron = Map.empty\<rparr>)) rss')"
proof -
  have c: "item_of (docker_map [(\<lparr>dk_version = Some ''1.4.16'', dk_tag = Some ''1.4.16''\<rparr>)]) Map.empty (\<lparr>rss_version = Some ''1.4.16'', rss_type = Some ''Desktop'', rss_date = Some ''2023-10-26T10:00:00Z'',
        rss_electron = Some ''25.8.1'', rss_title = Some ''Obsidian 1.4.16 Desktop (Public)''\<rparr>) = (\<lparr>rss_version = Some ''1.4.16'', rss_type = Some ''Desktop'', rss_date = Some ''2023-10-26T10:00:00Z'',
        rss_electron = Some ''25.8.1'', rss_title = Some ''Obsidian 1.4.16 Desktop (Public)''\<rparr>, True, ''Found'', ''25.8.1'', ''---'')
      \<and> get_or (rss_type (\<lparr>rss_version = Some ''1.4.16'', rss_type = Some ''Desktop'', rss_date = Some ''2023-10-26T10:00:00Z'',
        rss_electron = Some ''25.8.1'', rss_title = Some ''Obsidian 1.4.16 Desktop (Public)''\<rparr>)) ''Desktop'' = ''Desktop''
      \<and> item_of (docker_map []) Map.empty (\<lparr>rss_version = Some ''1.5.3'', rss_type = Some ''Desktop'', rss_date = Some ''2024-01-12T10:00:00Z'',
        rss_electron = Some ''25.8.1'', rss_title = Some ''Obsidian 1.5.3 Desktop (Public)''\<rparr>) = (\<lparr>rss_version = Some ''1.5.3'', rss_type = Some ''Desktop'', rss_date = Some ''2024-01-12T10:00:00Z'',
        rss_electron = Some ''25.8.1'', rss_title = Some ''Obsidian 1.5.3 Desktop (Public)''\<rparr>, False, ''Missing'', ''25.8.1'', ''---'')
      \<and> get_or (rss_type (\<lparr>rss_version = Some ''1.5.3'', rss_type = Some ''Desktop'', rss_date = Some ''2024-01-12T10:00:00Z'',
        rss_electron = Some ''25.8.1'', rss_title = Some ''Obsidian 1.5.3 Desktop (Public)''\<rparr>)) ''Desktop'' = ''Desktop''
      \<and> item_of (docker_map [(\<lparr>dk_version = Some ''1.4.16'', dk_tag = Some ''1.4.16''\<rparr>)]) Map.empty (\<lparr>rss_version = Some ''1.4.16'', rss_type = Some ''Mobile'', rss_date = Some ''2023-10-27T10:00:00Z'',
        rss_electron = Some ''25.8.1'', rss_title = Some ''Obsidian 1.4.16 Mobile (Public)''\<rparr>) = (\<lparr>rss_version = Some ''1.4.16'', rss_type = Some ''Mobile'', rss_date = Some ''2023-10-27T10:00:00Z'',
        rss_electron = Some ''25.8.1'', rss_title = Some ''Obsidian 1.4.16 Mobile (Public)''\<rparr>, False, ''N/A'', ''25.8.1'', ''---'')
      \<and> get_or (rss_type (\<lparr>rss_version = Some ''1.4.16'', rss_type = Some ''Mobile'', rss_date = Some ''2023-10-27T10:00:00Z'',
        rss_electron = Some ''25.8.1'', rss_title = Some ''Obsidian 1.4.16 Mobile (Public)''\<rparr>)) ''Desktop'' = ''Mobile''
      \<and> (\<exists>d \<in> set [(\<lparr>dk_version = Some ''1.4.16'', dk_tag = Some ''1.4.16''\<rparr>)]. dk_version d = Some (get_or (rss_version (\<lparr>rss_version = Some ''1.4.16'', rss_type = Some ''Mobile'', rss_date = Some ''2023-10-27T10:00:00Z'',
        rss_electron = Some ''25.8.1'', rss_title = Some ''Obsidian 1.4.16 Mobile (Public)''\<rparr>)) ''0.0.0''))"
    by (simp add: item_of_def Let_def get_or_def has_docker_def status_of_def docker_map_def)
  have v: "(\<lparr>rss_version = Some ''1.4.16'', rss_type = Some ''Desktop'', rss_date = Some ''2023-10-26T10:00:00Z'',
        rss_electron = Some ''25.8.1'', rss_title = Some ''Obsidian 1.4.16 Desktop (Public)''\<rparr>, True, ''Found'', ''25.8.1'', ''---'') \<in> set (visible (\<lparr>raw = Some \<lparr>rd_rss = [\<lparr>rss_version = Some ''1.5.3'', rss_type = Some ''Desktop'', rss_date = Some ''2024-01-12T10:00:00Z'',
        rss_electron = Some ''25.8.1'', rss_title = Some ''Obsidian 1.5.3 Desktop (Public)''\<rparr>, \<lparr>rss_version = Some ''1.4.16'', rss_type = Some ''Desktop'', rss_date = Some ''2023-10-26T10:00:00Z'',
        rss_electron = Some ''25.8.1'', rss_title = Some ''Obsidian 1.4.16 Desktop (Public)''\<rparr>],
        rd_docker = [\<lparr>dk_version = Some ''1.4.16'', dk_tag = Some ''1.4.16''\<rparr>], rd_electron = Map.empty\<rparr>, search_query = '''', show_mobile = True,
        show_early_access = True, found_only = False, sort_by_priority = True, table = [],
        cursor_row = 0, search_visible = False, screen_stack = [], notices = []\<rparr>) (\<lparr>rd_rss = [\<lparr>rss_version = Some ''1.5.3'', rss_type = Some ''Desktop'', rss_date = Some ''2024-01-12T10:00:00Z'',
        rss_electron = Some ''25.8.1'', rss_title = Some ''Obsidian 1.5.3 Desktop (Public)''\<rparr>, \<lparr>rss_version = Some ''1.4.16'', rss_type = Some ''Desktop'', rss_date = Some ''2023-10-26T10:00:00Z'',
        rss_electron = Some ''25.8.1'', rss_title = Some ''Obsidian 1.4.16 Desktop (Public)''\<rparr>],
        rd_docker = [\<lparr>dk_version = Some ''1.4.16'', dk_tag = Some ''1.4.16''\<rparr>], rd_electron = Map.empty\<rparr>))"
    by (simp add: filter_eval visible_eval)
  show ?thesis
    using c v
      availability_status [of "[(\<lparr>dk_version = Some ''1.4.16'', dk_tag = Some ''1.4.16''\<rparr>)]" Map.empty "(\<lparr>rss_version = Some ''1.4.16'', rss_type = Some ''Desktop'', rss_date = Some ''2023-10-26T10:00:00Z'',
        rss_electron = Some ''25.8.1'', rss_title = Some ''Obsidian 1.4.16 Desktop (Public)''\<rparr>)" "(\<lparr>rss_version = Some ''1.4.16'', rss_type = Some ''Desktop'', rss_date = Some ''2023-10-26T10:00:00Z'',
        rss_electron = Some ''25.8.1'', rss_title = Some ''Obsidian 1.4.16 Desktop (Public)''\<rparr>)" True "''Found''" "''25.8.1''" "''---''"
        "(\<lparr>rss_version = Some ''1.4.16'', rss_type = Some ''Desktop'', rss_date = Some ''2023-10-26T10:00:00Z'',
        rss_electron = Some ''25.8.1'', rss_title = Some ''Obsidian 1.4.16 Desktop (Public)''\<rparr>, True, ''Found'', ''25.8.1'', ''---'')" "(\<lparr>raw = Some \<lparr>rd_rss = [\<lparr>rss_version = Some ''1.5.3'', rss_type = Some ''Desktop'', rss_date = Some ''2024-01-12T10:00:00Z'',
        rss_electron = Some ''25.8.1'', rss_title = Some ''Obsidian 1.5.3 Desktop (Public)''\<rparr>, \<lparr>rss_version = Some ''1.4.16'', rss_type = Some ''Desktop'', rss_date = Some ''2023-10-26T10:00:00Z'',
        rss_electron = Some ''25.8.1'', rss_title = Some ''Obsidian 1.4.16 Desktop (Public)''\<rparr>],
        rd_docker = [\<lparr>dk_version = Some ''1.4.16'', dk_tag = Some ''1.4.16''\<rparr>], rd_electron = Map.empty\<rparr>, search_query = '''', show_mobile = True,
        show_early_access = True, found_only = False, sort_by_priority = True, table = [],
        cursor_row = 0, search_visible = False, screen_stack = [], notices = []\<rparr>)" "(\<lparr>rd_rss = [\<lparr>rss_version = Some ''1.5.3'', rss_type = Some ''Desktop'', rss_date = Some ''2024-01-12T10:00:00Z'',
        rss_electron = Some ''25.8.1'', rss_title = Some ''Obsidian 1.5.3 Desktop (Public)''\<rparr>, \<lparr>rss_version = Some ''1.4.16'', rss_type = Some ''Desktop'', rss_date = Some ''2023-10-26T10:00:00Z'',
        rss_electron = Some ''25.8.1'', rss_title = Some ''Obsidian 1.4.16 Desktop (Public)''\<rparr>],
        rd_docker = [\<lparr>dk_version = Some ''1.4.16'', dk_tag = Some ''1.4.16''\<rparr>], rd_electron = Map.empty\<rparr>)"]
      availability_status [of "[]" Map.empty "(\<lparr>rss_version = Some ''1.5.3'', rss_type = Some ''Desktop'', rss_date = Some ''2024-01-12T10:00:00Z'',
        rss_electron = Some ''25.8.1'', rss_title = Some ''Obsidian 1.5.3 Desktop (Public)''\<rparr>)" "(\<lparr>rss_version = Some ''1.5.3'', rss_type = Some ''Desktop'', rss_date = Some ''2024-01-12T10:00:00Z'',
        rss_electron = Some ''25.8.1'', rss_title = Some ''Obsidian 1.5.3 Desktop (Public)''\<rparr>)" False "''Missing''" "''25.8.1''" "''---''"]
      availability_status [of "[(\<lparr>dk_version = Some ''1.4.16'', dk_tag = Some ''1.4.16''\<rparr>)]" Map.empty "(\<lparr>rss_version = Some ''1.4.16'', rss_type = Some ''Mobile'', rss_date = Some ''2023-10-27T10:00:00Z'',
        rss_electron = Some ''25.8.1'', rss_title = Some ''Obsidian 1.4.16 Mobile (Public)''\<rparr>)" "(\<lparr>rss_version = Some ''1.4.16'', rss_type = Some ''Mobile'', rss_date = Some ''2023-10-27T10:00:00Z'',
        rss_electron = Some ''25.8.1'', rss_title = Some ''Obsidian 1.4.16 Mobile (Public)''\<rparr>)" False "''N/A''" "''25.8.1''" "''---''"]
    by blast
qed

section \<open>The Chromium version of a row\<close>

text \<open>
  Claim C5, as the code has it. For a row whose Electron version is not a key of the
  Electron-to-Chromium map (an empty map included), \<^verbatim>\<open>update_table\<close> takes
  \<^verbatim>\<open>electron_map.get(el_v, "---")\<close>: the Chromium version of the row and the cell
  that shows it are \<^verbatim>\<open>---\<close>. The string \<^verbatim>\<open>Unknown\<close> is what the helper
  \<^verbatim>\<open>ElectronSource.map_version\<close> returns for such a version; the table does not call
  it.
\<close>

theorem chromium_placeholder:
  assumes "em el_v = None" and "item_of dm em rss = (r, has_d, stat, el_v, cr_v)"
  shows "el_v = get_or (rss_electron rss) ''---''
     \<and> cr_v = ''---''
     \<and> (\<forall>idx row. render_row idx (item_of dm em rss) = Inr row \<longrightarrow> c_chromium row = ''---'')
     \<and> map_version fetched el_v (Some em) = ''Unknown''
     \<and> map_version em el_v None = ''Unknown''"
proof -
  have e: "el_v = get_or (rss_electron rss) ''---''"
    using assms(2) by (auto simp: item_of_def Let_def)
  have "cr_v = get_or (em (get_or (rss_electron rss) ''---'')) ''---''"
    using assms(2) by (auto simp: item_of_def Let_def)
  then have c: "cr_v = ''---''"
    using assms(1) e by (simp add: get_or_def)
  have fv: "format_ver ''---'' = ''---''"
    by (simp add: format_ver_def is_digit_def)
  have row: "\<forall>idx row. render_row idx (item_of dm em rss) = Inr row \<longrightarrow> c_chromium row = ''---''"
  proof (intro allI impI)
    fix idx row
    assume "render_row idx (item_of dm em rss) = Inr row"
    then have "render_row idx (r, has_d, stat, el_v, ''---'') = Inr row"
      using assms(2) c by simp
    then show "c_chromium row = ''---''"
      by (auto simp: render_row_def fv split: option.splits)
  qed
  have m: "map_version fetched el_v (Some em) = ''Unknown''" "map_version em el_v None = ''Unknown''"
    using assms(1) by (simp_all add: map_version_def get_or_def)
  show ?thesis using e c row m by blast
qed

theorem chromium_placeholder_witness:
  "Map.empty ''25.8.1'' = (None :: string option)
   \<and> item_of Map.empty Map.empty
      \<lparr>rss_version = Some ''1.5.3'', rss_type = Some ''Desktop'', rss_date = Some ''2024-01-01'',
       rss_electron = Some ''25.8.1'', rss_title = Some ''Obsidian 1.5.3 Desktop (Public)''\<rparr>
    = (\<lparr>rss_version = Some ''1.5.3'', rss_type = Some ''Desktop'', rss_date = Some ''2024-01-01'',
       rss_electron = Some ''25.8.1'', rss_title = Some ''Obsidian 1.5.3 Desktop (Public)''\<rparr>,
       False, ''Missing'', ''25.8.1'', ''---'')
   \<and> map_version Map.empty ''25.8.1'' (Some Map.empty) = ''Unknown''"
  using chromium_placeholder
    [of Map.empty "''25.8.1''" Map.empty
        "\<lparr>rss_version = Some ''1.5.3'', rss_type = Some ''Desktop'', rss_date = Some ''2024-01-01'',
       rss_electron = Some ''25.8.1'', rss_title = Some ''Obsidian 1.5.3 Desktop (Public)''\<rparr>"
        "\<lparr>rss_version = Some ''1.5.3'', rss_type = Some ''Desktop'', rss_date = Some ''2024-01-01'',
       rss_electron = Some ''25.8.1'', rss_title = Some ''Obsidian 1.5.3 Desktop (Public)''\<rparr>"
        False "''Missing''" "''---''" Map.empty]
  by (simp add: item_of_def Let_def get_or_def has_docker_def status_of_def map_version_def)

text \<open>A table built from one record and an empty map shows \<^verbatim>\<open>---\<close> in the Chromium
  cell, not \<^verbatim>\<open>Unknown\<close>.\<close>

theorem chromium_unknown_counterexample:
  "update_table (\<lparr>raw = Some \<lparr>rd_rss = [\<lparr>rss_version = Some ''1.5.3'', rss_type = Some ''Desktop'', rss_date = Some ''2024-01-12T10:00:00Z'',
        rss_electron = Some ''25.8.1'', rss_title = Some ''Obsidian 1.5.3 Desktop (Public)''\<rparr>],
        rd_docker = [], rd_electron = Map.empty\<rparr>, search_query = '''', show_mobile = True,
        show_early_access = True, found_only = False, sort_by_priority = True, table = [],
        cursor_row = 0, search_visible = False, screen_stack = [], notices = []\<rparr>) = Inr (\<lparr>raw = Some \<lparr>rd_rss = [\<lparr>rss_version = Some ''1.5.3'', rss_type = Some ''Desktop'', rss_date = Some ''2024-01-12T10:00:00Z'',
        rss_electron = Some ''25.8.1'', rss_title = Some ''Obsidian 1.5.3 Desktop (Public)''\<rparr>],
        rd_docker = [], rd_electron = Map.empty\<rparr>, search_query = '''', show_mobile = True,
        show_early_access = True, found_only = False, sort_by_priority = True, table = [\<lparr>c_id = ''0'', c_version = ''1.5.3'', c_type = ''Desktop'', c_released = ''2024-01-12'',
        c_status = ''Missing'', c_electron = ''v25.8.1'', c_chromium = ''---''\<rparr>],
        cursor_row = 0, search_visible = False, screen_stack = [], notices = []\<rparr>)
   \<and> rd_electron (\<lparr>rd_rss = [\<lparr>rss_version = Some ''1.5.3'', rss_type = Some ''Desktop'', rss_date = Some ''2024-01-12T10:00:00Z'',
        rss_electron = Some ''25.8.1'', rss_title = Some ''Obsidian 1.5.3 Desktop (Public)''\<rparr>],
        rd_docker = [], rd_electron = Map.empty\<rparr>) ''25.8.1'' = None
   \<and> c_electron (table (\<lparr>raw = Some \<lparr>rd_rss = [\<lparr>rss_version = Some ''1.5.3'', rss_type = Some ''Desktop'', rss_date = Some ''2024-01-12T10:00:00Z'',
        rss_electron = Some ''25.8.1'', rss_title = Some ''Obsidian 1.5.3 Desktop (Public)''\<rparr>],
        rd_docker = [], rd_electron = Map.empty\<rparr>, search_query = '''', show_mobile = True,
        show_early_access = True, found_only = False, sort_by_priority = True, table = [\<lparr>c_id = ''0'', c_version = ''1.5.3'', c_type = ''Desktop'', c_released = ''2024-01-12'',
        c_status = ''Missing'', c_electron = ''v25.8.1'', c_chromium = ''---''\<rparr>],
        cursor_row = 0, search_visible = False, screen_stack = [], notices = []\<rparr>) ! 0) = ''v25.8.1''
   \<and> c_chromium (table (\<lparr>raw = Some \<lparr>rd_rss = [\<lparr>rss_version = Some ''1.5.3'', rss_type = Some ''Desktop'', rss_date = Some ''2024-01-12T10:00:00Z'',
        rss_electron = Some ''25.8.1'', rss_title = Some ''Obsidian 1.5.3 Desktop (Public)''\<rparr>],
        rd_docker = [], rd_electron = Map.empty\<rparr>, search_query = '''', show_mobile = True,
        show_early_access = True, found_only = False, sort_by_priority = True, table = [\<lparr>c_id = ''0'', c_version = ''1.5.3'', c_type = ''Desktop'', c_released = ''2024-01-12'',
        c_status = ''Missing'', c_electron = ''v25.8.1'', c_chromium = ''---''\<rparr>],
        cursor_row = 0, search_visible = False, screen_stack = [], notices = []\<rparr>) ! 0) = ''---''
   \<and> ''---'' \<noteq> ''Unknown''"
  by (simp add: table_eval filter_eval visible_eval submit_eval)

section \<open>Which record stands for a key\<close>


lemma first_per_key_keeps:
  "(\<forall>x \<in> set pre. rss_key x \<noteq> rss_key b) \<Longrightarrow> rss_key b \<notin> seen \<Longrightarrow>
     b \<in> set (first_per_key seen (pre @ b # post))"
  by (induction pre arbitrary: seen) auto









lemma later_record_admitted:
  assumes "rd_rss rd = pre @ b # post"
    and "admitted st (docker_map (rd_docker rd)) (rd_electron rd) b"
    and "\<forall>x \<in> set pre. admitted st (docker_map (rd_docker rd)) (rd_electron rd) x
           \<longrightarrow> rss_key x \<noteq> rss_key b"
  shows "item_of (docker_map (rd_docker rd)) (rd_electron rd) b \<in> set (visible st rd)"
proof -
  let ?dm = "docker_map (rd_docker rd)" and ?em = "rd_electron rd"
  let ?P = "admitted st ?dm ?em"
  have f: "filter ?P (rd_rss rd) = filter ?P pre @ b # filter ?P post"
    using assms(1,2) by simp
  have "\<forall>x \<in> set (filter ?P pre). rss_key x \<noteq> rss_key b" using assms(3) by simp
  then have "b \<in> set (first_per_key {} (filter ?P pre @ b # filter ?P post))"
    by (rule first_per_key_keeps) simp
  then show ?thesis using f by (auto simp: set_visible filtered_eq)
qed

lemma hidden_record_absent:
  assumes "\<not> admitted st (docker_map (rd_docker rd)) (rd_electron rd) a"
  shows "item_of (docker_map (rd_docker rd)) (rd_electron rd) a \<notin> set (visible st rd)"
proof
  assume "item_of (docker_map (rd_docker rd)) (rd_electron rd) a \<in> set (visible st rd)"
  then obtain r where "item_of (docker_map (rd_docker rd)) (rd_electron rd) a
        = item_of (docker_map (rd_docker rd)) (rd_electron rd) r"
      "admitted st (docker_map (rd_docker rd)) (rd_electron rd) r"
    using visible_item_of by blast
  then have "a = r" using fst_item_of by metis
  then show False using assms \<open>admitted st (docker_map (rd_docker rd)) (rd_electron rd) r\<close> by simp
qed




text \<open>
  Claim C10. The loop is the filter first and the choice of the first record of each
  key second, not the other way round. So when the first record of a key is hidden by
  a filter and a later record of the same key passes, with no record of that key
  passing before it, the later record is among the rows shown and the hidden one is
  not: the record that stands for a key changes with the flags.
\<close>

theorem dedup_after_filter:
  "filtered st rd =
     map (item_of (docker_map (rd_docker rd)) (rd_electron rd))
       (first_per_key {} (filter (admitted st (docker_map (rd_docker rd)) (rd_electron rd)) (rd_rss rd)))
   \<and> (rd_rss rd = pre @ a # mid @ b # post
        \<and> rss_key a = rss_key b
        \<and> \<not> admitted st (docker_map (rd_docker rd)) (rd_electron rd) a
        \<and> admitted st (docker_map (rd_docker rd)) (rd_electron rd) b
        \<and> (\<forall>x \<in> set (pre @ mid). admitted st (docker_map (rd_docker rd)) (rd_electron rd) x
               \<longrightarrow> rss_key x \<noteq> rss_key b)
      \<longrightarrow> item_of (docker_map (rd_docker rd)) (rd_electron rd) b \<in> set (visible st rd)
          \<and> item_of (docker_map (rd_docker rd)) (rd_electron rd) a \<notin> set (visible st rd))"
proof -
  let ?dm = "docker_map (rd_docker rd)" and ?em = "rd_electron rd"
  have 2: "item_of ?dm ?em b \<in> set (visible st rd) \<and> item_of ?dm ?em a \<notin> set (visible st rd)"
    if h: "rd_rss rd = pre @ a # mid @ b # post" "rss_key a = rss_key b"
      "\<not> admitted st ?dm ?em a" "admitted st ?dm ?em b"
      "\<forall>x \<in> set (pre @ mid). admitted st ?dm ?em x \<longrightarrow> rss_key x \<noteq> rss_key b"
  proof -
    have "rd_rss rd = (pre @ a # mid) @ b # post" using h(1) by simp
    moreover have "\<forall>x \<in> set (pre @ a # mid). admitted st ?dm ?em x \<longrightarrow> rss_key x \<noteq> rss_key b"
      using h(3,5) by auto
    ultimately have "item_of ?dm ?em b \<in> set (visible st rd)"
      using h(4) later_record_admitted by blast
    then show ?thesis using hidden_record_absent [OF h(3)] by simp
  qed
  show ?thesis using filtered_eq [of st rd] 2 by blast
qed

theorem dedup_after_filter_witness:
  "rd_rss (\<lparr>rd_rss = [\<lparr>rss_version = Some ''1.5.3'', rss_type = Some ''Desktop'', rss_date = Some ''2024-01-05T10:00:00Z'',
        rss_electron = Some ''25.8.1'', rss_title = Some ''Obsidian 1.5.3 Desktop (Early access)''\<rparr>, \<lparr>rss_version = Some ''1.5.3'', rss_type = Some ''Desktop'', rss_date = Some ''2024-01-12T10:00:00Z'',
        rss_electron = Some ''25.8.1'', rss_title = Some ''Obsidian 1.5.3 Desktop (Public)''\<rparr>],
        rd_docker = [], rd_electron = Map.empty\<rparr>) = [] @ (\<lparr>rss_version = Some ''1.5.3'', rss_type = Some ''Desktop'', rss_date = Some ''2024-01-05T10:00:00Z'',
        rss_electron = Some ''25.8.1'', rss_title = Some ''Obsidian 1.5.3 Desktop (Early access)''\<rparr>) # [] @ (\<lparr>rss_version = Some ''1.5.3'', rss_type = Some ''Desktop'', rss_date = Some ''2024-01-12T10:00:00Z'',
        rss_electron = Some ''25.8.1'', rss_title = Some ''Obsidian 1.5.3 Desktop (Public)''\<rparr>) # []
   \<and> rss_key (\<lparr>rss_version = Some ''1.5.3'', rss_type = Some ''Desktop'', rss_date = Some ''2024-01-05T10:00:00Z'',
        rss_electron = Some ''25.8.1'', rss_title = Some ''Obsidian 1.5.3 Desktop (Early access)''\<rparr>) = rss_key (\<lparr>rss_version = Some ''1.5.3'', rss_type = Some ''Desktop'', rss_date = Some ''2024-01-12T10:00:00Z'',
        rss_electron = Some ''25.8.1'', rss_title = Some ''Obsidian 1.5.3 Desktop (Public)''\<rparr>)
   \<and> \<not> admitted (\<lparr>raw = Some \<lparr>rd_rss = [\<lparr>rss_version = Some ''1.5.3'', rss_type = Some ''Desktop'', rss_date = Some ''2024-01-05T10:00:00Z'',
        rss_electron = Some ''25.8.1'', rss_title = Some ''Obsidian 1.5.3 Desktop (Early access)''\<rparr>, \<lparr>rss_version = Some ''1.5.3'', rss_type = Some ''Desktop'', rss_date = Some ''2024-01-12T10:00:00Z'',
        rss_electron = Some ''25.8.1'', rss_title = Some ''Obsidian 1.5.3 Desktop (Public)''\<rparr>],
        rd_docker = [], rd_electron = Map.empty\<rparr>, search_query = '''', show_mobile = True,
        show_early_access = False, found_only = False, sort_by_priority = True, table = [],
        cursor_row = 0, search_visible = False, screen_stack = [], notices = []\<rparr>) (docker_map (rd_docker (\<lparr>rd_rss = [\<lparr>rss_version = Some ''1.5.3'', rss_type = Some ''Desktop'', rss_date = Some ''2024-01-05T10:00:00Z'',
        rss_electron = Some ''25.8.1'', rss_title = Some ''Obsidian 1.5.3 Desktop (Early access)''\<rparr>, \<lparr>rss_version = Some ''1.5.3'', rss_type = Some ''Desktop'', rss_date = Some ''2024-01-12T10:00:00Z'',
        rss_electron = Some ''25.8.1'', rss_title = Some ''Obsidian 1.5.3 Desktop (Public)''\<rparr>],
        rd_docker = [], rd_electron = Map.empty\<rparr>))) (rd_electron (\<lparr>rd_rss = [\<lparr>rss_version = Some ''1.5.3'', rss_type = Some ''Desktop'', rss_date = Some ''2024-01-05T10:00:00Z'',
        rss_electron = Some ''25.8.1'', rss_title = Some ''Obsidian 1.5.3 Desktop (Early access)''\<rparr>, \<lparr>rss_version = Some ''1.5.3'', rss_type = Some ''Desktop'', rss_date = Some ''2024-01-12T10:00:00Z'',
        rss_electron = Some ''25.8.1'', rss_title = Some ''Obsidian 1.5.3 Desktop (Public)''\<rparr>],
        rd_docker = [], rd_electron = Map.empty\<rparr>)) (\<lparr>rss_version = Some ''1.5.3'', rss_type = Some ''Desktop'', rss_date = Some ''2024-01-05T10:00:00Z'',
        rss_electron = Some ''25.8.1'', rss_title = Some ''Obsidian 1.5.3 Desktop (Early access)''\<rparr>)
   \<and> admitted (\<lparr>raw = Some \<lparr>rd_rss = [\<lparr>rss_version = Some ''1.5.3'', rss_type = Some ''Desktop'', rss_date = Some ''2024-01-05T10:00:00Z'',
        rss_electron = Some ''25.8.1'', rss_title = Some ''Obsidian 1.5.3 Desktop (Early access)''\<rparr>, \<lparr>rss_version = Some ''1.5.3'', rss_type = Some ''Desktop'', rss_date = Some ''2024-01-12T10:00:00Z'',
        rss_electron = Some ''25.8.1'', rss_title = Some ''Obsidian 1.5.3 Desktop (Public)''\<rparr>],
        rd_docker = [], rd_electron = Map.empty\<rparr>, search_query = '''', show_mobile = True,
        show_early_access = False, found_only = False, sort_by_priority = True, table = [],
        cursor_row = 0, search_visible = False, screen_stack = [], notices = []\<rparr>) (docker_map (rd_docker (\<lparr>rd_rss = [\<lparr>rss_version = Some ''1.5.3'', rss_type = Some ''Desktop'', rss_date = Some ''2024-01-05T10:00:00Z'',
        rss_electron = Some ''25.8.1'', rss_title = Some ''Obsidian 1.5.3 Desktop (Early access)''\<rparr>, \<lparr>rss_version = Some ''1.5.3'', rss_type = Some ''Desktop'', rss_date = Some ''2024-01-12T10:00:00Z'',
        rss_electron = Some ''25.8.1'', rss_title = Some ''Obsidian 1.5.3 Desktop (Public)''\<rparr>],
        rd_docker = [], rd_electron = Map.empty\<rparr>))) (rd_electron (\<lparr>rd_rss = [\<lparr>rss_version = Some ''1.5.3'', rss_type = Some ''Desktop'', rss_date = Some ''2024-01-05T10:00:00Z'',
        rss_electron = Some ''25.8.1'', rss_title = Some ''Obsidian 1.5.3 Desktop (Early access)''\<rparr>, \<lparr>rss_version = Some ''1.5.3'', rss_type = Some ''Desktop'', rss_date = Some ''2024-01-12T10:00:00Z'',
        rss_electron = Some ''25.8.1'', rss_title = Some ''Obsidian 1.5.3 Desktop (Public)''\<rparr>],
        rd_docker = [], rd_electron = Map.empty\<rparr>)) (\<lparr>rss_version = Some ''1.5.3'', rss_type = Some ''Desktop'', rss_date = Some ''2024-01-12T10:00:00Z'',
        rss_electron = Some ''25.8.1'', rss_title = Some ''Obsidian 1.5.3 Desktop (Public)''\<rparr>)
   \<and> item_of (docker_map (rd_docker (\<lparr>rd_rss = [\<lparr>rss_version = Some ''1.5.3'', rss_type = Some ''Desktop'', rss_date = Some ''2024-01-05T10:00:00Z'',
        rss_electron = Some ''25.8.1'', rss_title = Some ''Obsidian 1.5.3 Desktop (Early access)''\<rparr>, \<lparr>rss_version = Some ''1.5.3'', rss_type = Some ''Desktop'', rss_date = Some ''2024-01-12T10:00:00Z'',
        rss_electron = Some ''25.8.1'', rss_title = Some ''Obsidian 1.5.3 Desktop (Public)''\<rparr>],
        rd_docker = [], rd_electron = Map.empty\<rparr>))) (rd_electron (\<lparr>rd_rss = [\<lparr>rss_version = Some ''1.5.3'', rss_type = Some ''Desktop'', rss_date = Some ''2024-01-05T10:00:00Z'',
        rss_electron = Some ''25.8.1'', rss_title = Some ''Obsidian 1.5.3 Desktop (Early access)''\<rparr>, \<lparr>rss_version = Some ''1.5.3'', rss_type = Some ''Desktop'', rss_date = Some ''2024-01-12T10:00:00Z'',
        rss_electron = Some ''25.8.1'', rss_title = Some ''Obsidian 1.5.3 Desktop (Public)''\<rparr>],
        rd_docker = [], rd_electron = Map.empty\<rparr>)) (\<lparr>rss_version = Some ''1.5.3'', rss_type = Some ''Desktop'', rss_date = Some ''2024-01-12T10:00:00Z'',
        rss_electron = Some ''25.8.1'', rss_title = Some ''Obsidian 1.5.3 Desktop (Public)''\<rparr>) \<in> set (visible (\<lparr>raw = Some \<lparr>rd_rss = [\<lparr>rss_version = Some ''1.5.3'', rss_type = Some ''Desktop'', rss_date = Some ''2024-01-05T10:00:00Z'',
        rss_electron = Some ''25.8.1'', rss_title = Some ''Obsidian 1.5.3 Desktop (Early access)''\<rparr>, \<lparr>rss_version = Some ''1.5.3'', rss_type = Some ''Desktop'', rss_date = Some ''2024-01-12T10:00:00Z'',
        rss_electron = Some ''25.8.1'', rss_title = Some ''Obsidian 1.5.3 Desktop (Public)''\<rparr>],
        rd_docker = [], rd_electron = Map.empty\<rparr>, search_query = '''', show_mobile = True,
        show_early_access = False, found_only = False, sort_by_priority = True, table = [],
        cursor_row = 0, search_visible = False, screen_stack = [], notices = []\<rparr>) (\<lparr>rd_rss = [\<lparr>rss_version = Some ''1.5.3'', rss_type = Some ''Desktop'', rss_date = Some ''2024-01-05T10:00:00Z'',
        rss_electron = Some ''25.8.1'', rss_title = Some ''Obsidian 1.5.3 Desktop (Early access)''\<rparr>, \<lparr>rss_version = Some ''1.5.3'', rss_type = Some ''Desktop'', rss_date = Some ''2024-01-12T10:00:00Z'',
        rss_electron = Some ''25.8.1'', rss_title = Some ''Obsidian 1.5.3 Desktop (Public)''\<rparr>],
        rd_docker = [], rd_electron = Map.empty\<rparr>))
   \<and> item_of (docker_map (rd_docker (\<lparr>rd_rss = [\<lparr>rss_version = Some ''1.5.3'', rss_type = Some ''Desktop'', rss_date = Some ''2024-01-05T10:00:00Z'',
        rss_electron = Some ''25.8.1'', rss_title = Some ''Obsidian 1.5.3 Desktop (Early access)''\<rparr>, \<lparr>rss_version = Some ''1.5.3'', rss_type = Some ''Desktop'', rss_date = Some ''2024-01-12T10:00:00Z'',
        rss_electron = Some ''25.8.1'', rss_title = Some ''Obsidian 1.5.3 Desktop (Public)''\<rparr>],
        rd_docker = [], rd_electron = Map.empty\<rparr>))) (rd_electron (\<lparr>rd_rss = [\<lparr>rss_version = Some ''1.5.3'', rss_type = Some ''Desktop'', rss_date = Some ''2024-01-05T10:00:00Z'',
        rss_electron = Some ''25.8.1'', rss_title = Some ''Obsidian 1.5.3 Desktop (Early access)''\<rparr>, \<lparr>rss_version = Some ''1.5.3'', rss_type = Some ''Desktop'', rss_date = Some ''2024-01-12T10:00:00Z'',
        rss_electron = Some ''25.8.1'', rss_title = Some ''Obsidian 1.5.3 Desktop (Public)''\<rparr>],
        rd_docker = [], rd_electron = Map.empty\<rparr>)) (\<lparr>rss_version = Some ''1.5.3'', rss_type = Some ''Desktop'', rss_date = Some ''2024-01-05T10:00:00Z'',
        rss_electron = Some ''25.8.1'', rss_title = Some ''Obsidian 1.5.3 Desktop (Early access)''\<rparr>) \<notin> set (visible (\<lparr>raw = Some \<lparr>rd_rss = [\<lparr>rss_version = Some ''1.5.3'', rss_type = Some ''Desktop'', rss_date = Some ''2024-01-05T10:00:00Z'',
        rss_electron = Some ''25.8.1'', rss_title = Some ''Obsidian 1.5.3 Desktop (Early access)''\<rparr>, \<lparr>rss_version = Some ''1.5.3'', rss_type = Some ''Desktop'', rss_date = Some ''2024-01-12T10:00:00Z'',
        rss_electron = Some ''25.8.1'', rss_title = Some ''Obsidian 1.5.3 Desktop (Public)''\<rparr>],
        rd_docker = [], rd_electron = Map.empty\<rparr>, search_query = '''', show_mobile = True,
        show_early_access = False, found_only = False, sort_by_priority = True, table = [],
        cursor_row = 0, search_visible = False, screen_stack = [], notices = []\<rparr>) (\<lparr>rd_rss = [\<lparr>rss_version = Some ''1.5.3'', rss_type = Some ''Desktop'', rss_date = Some ''2024-01-05T10:00:00Z'',
        rss_electron = Some ''25.8.1'', rss_title = Some ''Obsidian 1.5.3 Desktop (Early access)''\<rparr>, \<lparr>rss_version = Some ''1.5.3'', rss_type = Some ''Desktop'', rss_date = Some ''2024-01-12T10:00:00Z'',
        rss_electron = Some ''25.8.1'', rss_title = Some ''Obsidian 1.5.3 Desktop (Public)''\<rparr>],
        rd_docker = [], rd_electron = Map.empty\<rparr>))
   \<and> map fst (visible (\<lparr>raw = Some \<lparr>rd_rss = [\<lparr>rss_version = Some ''1.5.3'', rss_type = Some ''Desktop'', rss_date = Some ''2024-01-05T10:00:00Z'',
        rss_electron = Some ''25.8.1'', rss_title = Some ''Obsidian 1.5.3 Desktop (Early access)''\<rparr>, \<lparr>rss_version = Some ''1.5.3'', rss_type = Some ''Desktop'', rss_date = Some ''2024-01-12T10:00:00Z'',
        rss_electron = Some ''25.8.1'', rss_title = Some ''Obsidian 1.5.3 Desktop (Public)''\<rparr>],
        rd_docker = [], rd_electron = Map.empty\<rparr>, search_query = '''', show_mobile = True,
        show_early_access = True, found_only = False, sort_by_priority = True, table = [],
        cursor_row = 0, search_visible = False, screen_stack = [], notices = []\<rparr>) (\<lparr>rd_rss = [\<lparr>rss_version = Some ''1.5.3'', rss_type = Some ''Desktop'', rss_date = Some ''2024-01-05T10:00:00Z'',
        rss_electron = Some ''25.8.1'', rss_title = Some ''Obsidian 1.5.3 Desktop (Early access)''\<rparr>, \<lparr>rss_version = Some ''1.5.3'', rss_type = Some ''Desktop'', rss_date = Some ''2024-01-12T10:00:00Z'',
        rss_electron = Some ''25.8.1'', rss_title = Some ''Obsidian 1.5.3 Desktop (Public)''\<rparr>],
        rd_docker = [], rd_electron = Map.empty\<rparr>)) = [(\<lparr>rss_version = Some ''1.5.3'', rss_type = Some ''Desktop'', rss_date = Some ''2024-01-05T10:00:00Z'',
        rss_electron = Some ''25.8.1'', rss_title = Some ''Obsidian 1.5.3 Desktop (Early access)''\<rparr>)]
   \<and> map fst (visible (\<lparr>raw = Some \<lparr>rd_rss = [\<lparr>rss_version = Some ''1.5.3'', rss_type = Some ''Desktop'', rss_date = Some ''2024-01-05T10:00:00Z'',
        rss_electron = Some ''25.8.1'', rss_title = Some ''Obsidian 1.5.3 Desktop (Early access)''\<rparr>, \<lparr>rss_version = Some ''1.5.3'', rss_type = Some ''Desktop'', rss_date = Some ''2024-01-12T10:00:00Z'',
        rss_electron = Some ''25.8.1'', rss_title = Some ''Obsidian 1.5.3 Desktop (Public)''\<rparr>],
        rd_docker = [], rd_electron = Map.empty\<rparr>, search_query = '''', show_mobile = True,
        show_early_access = False, found_only = False, sort_by_priority = True, table = [],
        cursor_row = 0, search_visible = False, screen_stack = [], notices = []\<rparr>) (\<lparr>rd_rss = [\<lparr>rss_version = Some ''1.5.3'', rss_type = Some ''Desktop'', rss_date = Some ''2024-01-05T10:00:00Z'',
        rss_electron = Some ''25.8.1'', rss_title = Some ''Obsidian 1.5.3 Desktop (Early access)''\<rparr>, \<lparr>rss_version = Some ''1.5.3'', rss_type = Some ''Desktop'', rss_date = Some ''2024-01-12T10:00:00Z'',
        rss_electron = Some ''25.8.1'', rss_title = Some ''Obsidian 1.5.3 Desktop (Public)''\<rparr>],
        rd_docker = [], rd_electron = Map.empty\<rparr>)) = [(\<lparr>rss_version = Some ''1.5.3'', rss_type = Some ''Desktop'', rss_date = Some ''2024-01-12T10:00:00Z'',
        rss_electron = Some ''25.8.1'', rss_title = Some ''Obsidian 1.5.3 Desktop (Public)''\<rparr>)]"
proof -
  have c: "rd_rss (\<lparr>rd_rss = [\<lparr>rss_version = Some ''1.5.3'', rss_type = Some ''Desktop'', rss_date = Some ''2024-01-05T10:00:00Z'',
        rss_electron = Some ''25.8.1'', rss_title = Some ''Obsidian 1.5.3 Desktop (Early access)''\<rparr>, \<lparr>rss_version = Some ''1.5.3'', rss_type = Some ''Desktop'', rss_date = Some ''2024-01-12T10:00:00Z'',
        rss_electron = Some ''25.8.1'', rss_title = Some ''Obsidian 1.5.3 Desktop (Public)''\<rparr>],
        rd_docker = [], rd_electron = Map.empty\<rparr>) = [] @ (\<lparr>rss_version = Some ''1.5.3'', rss_type = Some ''Desktop'', rss_date = Some ''2024-01-05T10:00:00Z'',
        rss_electron = Some ''25.8.1'', rss_title = Some ''Obsidian 1.5.3 Desktop (Early access)''\<rparr>) # [] @ (\<lparr>rss_version = Some ''1.5.3'', rss_type = Some ''Desktop'', rss_date = Some ''2024-01-12T10:00:00Z'',
        rss_electron = Some ''25.8.1'', rss_title = Some ''Obsidian 1.5.3 Desktop (Public)''\<rparr>) # []
      \<and> rss_key (\<lparr>rss_version = Some ''1.5.3'', rss_type = Some ''Desktop'', rss_date = Some ''2024-01-05T10:00:00Z'',
        rss_electron = Some ''25.8.1'', rss_title = Some ''Obsidian 1.5.3 Desktop (Early access)''\<rparr>) = rss_key (\<lparr>rss_version = Some ''1.5.3'', rss_type = Some ''Desktop'', rss_date = Some ''2024-01-12T10:00:00Z'',
        rss_electron = Some ''25.8.1'', rss_title = Some ''Obsidian 1.5.3 Desktop (Public)''\<rparr>)
      \<and> \<not> admitted (\<lparr>raw = Some \<lparr>rd_rss = [\<lparr>rss_version = Some ''1.5.3'', rss_type = Some ''Desktop'', rss_date = Some ''2024-01-05T10:00:00Z'',
        rss_electron = Some ''25.8.1'', rss_title = Some ''Obsidian 1.5.3 Desktop (Early access)''\<rparr>, \<lparr>rss_version = Some ''1.5.3'', rss_type = Some ''Desktop'', rss_date = Some ''2024-01-12T10:00:00Z'',
        rss_electron = Some ''25.8.1'', rss_title = Some ''Obsidian 1.5.3 Desktop (Public)''\<rparr>],
        rd_docker = [], rd_electron = Map.empty\<rparr>, search_query = '''', show_mobile = True,
        show_early_access = False, found_only = False, sort_by_priority = True, table = [],
        cursor_row = 0, search_visible = False, screen_stack = [], notices = []\<rparr>) (docker_map (rd_docker (\<lparr>rd_rss = [\<lparr>rss_version = Some ''1.5.3'', rss_type = Some ''Desktop'', rss_date = Some ''2024-01-05T10:00:00Z'',
        rss_electron = Some ''25.8.1'', rss_title = Some ''Obsidian 1.5.3 Desktop (Early access)''\<rparr>, \<lparr>rss_version = Some ''1.5.3'', rss_type = Some ''Desktop'', rss_date = Some ''2024-01-12T10:00:00Z'',
        rss_electron = Some ''25.8.1'', rss_title = Some ''Obsidian 1.5.3 Desktop (Public)''\<rparr>],
        rd_docker = [], rd_electron = Map.empty\<rparr>))) (rd_electron (\<lparr>rd_rss = [\<lparr>rss_version = Some ''1.5.3'', rss_type = Some ''Desktop'', rss_date = Some ''2024-01-05T10:00:00Z'',
        rss_electron = Some ''25.8.1'', rss_title = Some ''Obsidian 1.5.3 Desktop (Early access)''\<rparr>, \<lparr>rss_version = Some ''1.5.3'', rss_type = Some ''Desktop'', rss_date = Some ''2024-01-12T10:00:00Z'',
        rss_electron = Some ''25.8.1'', rss_title = Some ''Obsidian 1.5.3 Desktop (Public)''\<rparr>],
        rd_docker = [], rd_electron = Map.empty\<rparr>)) (\<lparr>rss_version = Some ''1.5.3'', rss_type = Some ''Desktop'', rss_date = Some ''2024-01-05T10:00:00Z'',
        rss_electron = Some ''25.8.1'', rss_title = Some ''Obsidian 1.5.3 Desktop (Early access)''\<rparr>)
      \<and> admitted (\<lparr>raw = Some \<lparr>rd_rss = [\<lparr>rss_version = Some ''1.5.3'', rss_type = Some ''Desktop'', rss_date = Some ''2024-01-05T10:00:00Z'',
        rss_electron = Some ''25.8.1'', rss_title = Some ''Obsidian 1.5.3 Desktop (Early access)''\<rparr>, \<lparr>rss_version = Some ''1.5.3'', rss_type = Some ''Desktop'', rss_date = Some ''2024-01-12T10:00:00Z'',
        rss_electron = Some ''25.8.1'', rss_title = Some ''Obsidian 1.5.3 Desktop (Public)''\<rparr>],
        rd_docker = [], rd_electron = Map.empty\<rparr>, search_query = '''', show_mobile = True,
        show_early_access = False, found_only = False, sort_by_priority = True, table = [],
        cursor_row = 0, search_visible = False, screen_stack = [], notices = []\<rparr>) (docker_map (rd_docker (\<lparr>rd_rss = [\<lparr>rss_version = Some ''1.5.3'', rss_type = Some ''Desktop'', rss_date = Some ''2024-01-05T10:00:00Z'',
        rss_electron = Some ''25.8.1'', rss_title = Some ''Obsidian 1.5.3 Desktop (Early access)''\<rparr>, \<lparr>rss_version = Some ''1.5.3'', rss_type = Some ''Desktop'', rss_date = Some ''2024-01-12T10:00:00Z'',
        rss_electron = Some ''25.8.1'', rss_title = Some ''Obsidian 1.5.3 Desktop (Public)''\<rparr>],
        rd_docker = [], rd_electron = Map.empty\<rparr>))) (rd_electron (\<lparr>rd_rss = [\<lparr>rss_version = Some ''1.5.3'', rss_type = Some ''Desktop'', rss_date = Some ''2024-01-05T10:00:00Z'',
        rss_electron = Some ''25.8.1'', rss_title = Some ''Obsidian 1.5.3 Desktop (Early access)''\<rparr>, \<lparr>rss_version = Some ''1.5.3'', rss_type = Some ''Desktop'', rss_date = Some ''2024-01-12T10:00:00Z'',
        rss_electron = Some ''25.8.1'', rss_title = Some ''Obsidian 1.5.3 Desktop (Public)''\<rparr>],
        rd_docker = [], rd_electron = Map.empty\<rparr>)) (\<lparr>rss_version = Some ''1.5.3'', rss_type = Some ''Desktop'', rss_date = Some ''2024-01-12T10:00:00Z'',
        rss_electron = Some ''25.8.1'', rss_title = Some ''Obsidian 1.5.3 Desktop (Public)''\<rparr>)"
    by (simp add: filter_eval)
  have d: "map fst (visible (\<lparr>raw = Some \<lparr>rd_rss = [\<lparr>rss_version = Some ''1.5.3'', rss_type = Some ''Desktop'', rss_date = Some ''2024-01-05T10:00:00Z'',
        rss_electron = Some ''25.8.1'', rss_title = Some ''Obsidian 1.5.3 Desktop (Early access)''\<rparr>, \<lparr>rss_version = Some ''1.5.3'', rss_type = Some ''Desktop'', rss_date = Some ''2024-01-12T10:00:00Z'',
        rss_electron = Some ''25.8.1'', rss_title = Some ''Obsidian 1.5.3 Desktop (Public)''\<rparr>],
        rd_docker = [], rd_electron = Map.empty\<rparr>, search_query = '''', show_mobile = True,
        show_early_access = True, found_only = False, sort_by_priority = True, table = [],
        cursor_row = 0, search_visible = False, screen_stack = [], notices = []\<rparr>) (\<lparr>rd_rss = [\<lparr>rss_version = Some ''1.5.3'', rss_type = Some ''Desktop'', rss_date = Some ''2024-01-05T10:00:00Z'',
        rss_electron = Some ''25.8.1'', rss_title = Some ''Obsidian 1.5.3 Desktop (Early access)''\<rparr>, \<lparr>rss_version = Some ''1.5.3'', rss_type = Some ''Desktop'', rss_date = Some ''2024-01-12T10:00:00Z'',
        rss_electron = Some ''25.8.1'', rss_title = Some ''Obsidian 1.5.3 Desktop (Public)''\<rparr>],
        rd_docker = [], rd_electron = Map.empty\<rparr>)) = [(\<lparr>rss_version = Some ''1.5.3'', rss_type = Some ''Desktop'', rss_date = Some ''2024-01-05T10:00:00Z'',
        rss_electron = Some ''25.8.1'', rss_title = Some ''Obsidian 1.5.3 Desktop (Early access)''\<rparr>)] \<and> map fst (visible (\<lparr>raw = Some \<lparr>rd_rss = [\<lparr>rss_version = Some ''1.5.3'', rss_type = Some ''Desktop'', rss_date = Some ''2024-01-05T10:00:00Z'',
        rss_electron = Some ''25.8.1'', rss_title = Some ''Obsidian 1.5.3 Desktop (Early access)''\<rparr>, \<lparr>rss_version = Some ''1.5.3'', rss_type = Some ''Desktop'', rss_date = Some ''2024-01-12T10:00:00Z'',
        rss_electron = Some ''25.8.1'', rss_title = Some ''Obsidian 1.5.3 Desktop (Public)''\<rparr>],
        rd_docker = [], rd_electron = Map.empty\<rparr>, search_query = '''', show_mobile = True,
        show_early_access = False, found_only = False, sort_by_priority = True, table = [],
        cursor_row = 0, search_visible = False, screen_stack = [], notices = []\<rparr>) (\<lparr>rd_rss = [\<lparr>rss_version = Some ''1.5.3'', rss_type = Some ''Desktop'', rss_date = Some ''2024-01-05T10:00:00Z'',
        rss_electron = Some ''25.8.1'', rss_title = Some ''Obsidian 1.5.3 Desktop (Early access)''\<rparr>, \<lparr>rss_version = Some ''1.5.3'', rss_type = Some ''Desktop'', rss_date = Some ''2024-01-12T10:00:00Z'',
        rss_electron = Some ''25.8.1'', rss_title = Some ''Obsidian 1.5.3 Desktop (Public)''\<rparr>],
        rd_docker = [], rd_electron = Map.empty\<rparr>)) = [(\<lparr>rss_version = Some ''1.5.3'', rss_type = Some ''Desktop'', rss_date = Some ''2024-01-12T10:00:00Z'',
        rss_electron = Some ''25.8.1'', rss_title = Some ''Obsidian 1.5.3 Desktop (Public)''\<rparr>)]"
    by (simp add: filter_eval visible_eval)
  have e: "\<forall>x \<in> set ([] @ []). admitted (\<lparr>raw = Some \<lparr>rd_rss = [\<lparr>rss_version = Some ''1.5.3'', rss_type = Some ''Desktop'', rss_date = Some ''2024-01-05T10:00:00Z'',
        rss_electron = Some ''25.8.1'', rss_title = Some ''Obsidian 1.5.3 Desktop (Early access)''\<rparr>, \<lparr>rss_version = Some ''1.5.3'', rss_type = Some ''Desktop'', rss_date = Some ''2024-01-12T10:00:00Z'',
        rss_electron = Some ''25.8.1'', rss_title = Some ''Obsidian 1.5.3 Desktop (Public)''\<rparr>],
        rd_docker = [], rd_electron = Map.empty\<rparr>, search_query = '''', show_mobile = True,
        show_early_access = False, found_only = False, sort_by_priority = True, table = [],
        cursor_row = 0, search_visible = False, screen_stack = [], notices = []\<rparr>) (docker_map (rd_docker (\<lparr>rd_rss = [\<lparr>rss_version = Some ''1.5.3'', rss_type = Some ''Desktop'', rss_date = Some ''2024-01-05T10:00:00Z'',
        rss_electron = Some ''25.8.1'', rss_title = Some ''Obsidian 1.5.3 Desktop (Early access)''\<rparr>, \<lparr>rss_version = Some ''1.5.3'', rss_type = Some ''Desktop'', rss_date = Some ''2024-01-12T10:00:00Z'',
        rss_electron = Some ''25.8.1'', rss_title = Some ''Obsidian 1.5.3 Desktop (Public)''\<rparr>],
        rd_docker = [], rd_electron = Map.empty\<rparr>))) (rd_electron (\<lparr>rd_rss = [\<lparr>rss_version = Some ''1.5.3'', rss_type = Some ''Desktop'', rss_date = Some ''2024-01-05T10:00:00Z'',
        rss_electron = Some ''25.8.1'', rss_title = Some ''Obsidian 1.5.3 Desktop (Early access)''\<rparr>, \<lparr>rss_version = Some ''1.5.3'', rss_type = Some ''Desktop'', rss_date = Some ''2024-01-12T10:00:00Z'',
        rss_electron = Some ''25.8.1'', rss_title = Some ''Obsidian 1.5.3 Desktop (Public)''\<rparr>],
        rd_docker = [], rd_electron = Map.empty\<rparr>)) x
               \<longrightarrow> rss_key x \<noteq> rss_key (\<lparr>rss_version = Some ''1.5.3'', rss_type = Some ''Desktop'', rss_date = Some ''2024-01-12T10:00:00Z'',
        rss_electron = Some ''25.8.1'', rss_title = Some ''Obsidian 1.5.3 Desktop (Public)''\<rparr>)"
    by simp
  show ?thesis
    using c d e dedup_after_filter [of "(\<lparr>raw = Some \<lparr>rd_rss = [\<lparr>rss_version = Some ''1.5.3'', rss_type = Some ''Desktop'', rss_date = Some ''2024-01-05T10:00:00Z'',
        rss_electron = Some ''25.8.1'', rss_title = Some ''Obsidian 1.5.3 Desktop (Early access)''\<rparr>, \<lparr>rss_version = Some ''1.5.3'', rss_type = Some ''Desktop'', rss_date = Some ''2024-01-12T10:00:00Z'',
        rss_electron = Some ''25.8.1'', rss_title = Some ''Obsidian 1.5.3 Desktop (Public)''\<rparr>],
        rd_docker = [], rd_electron = Map.empty\<rparr>, search_query = '''', show_mobile = True,
        show_early_access = False, found_only = False, sort_by_priority = True, table = [],
        cursor_row = 0, search_visible = False, screen_stack = [], notices = []\<rparr>)" "(\<lparr>rd_rss = [\<lparr>rss_version = Some ''1.5.3'', rss_type = Some ''Desktop'', rss_date = Some ''2024-01-05T10:00:00Z'',
        rss_electron = Some ''25.8.1'', rss_title = Some ''Obsidian 1.5.3 Desktop (Early access)''\<rparr>, \<lparr>rss_version = Some ''1.5.3'', rss_type = Some ''Desktop'', rss_date = Some ''2024-01-12T10:00:00Z'',
        rss_electron = Some ''25.8.1'', rss_title = Some ''Obsidian 1.5.3 Desktop (Public)''\<rparr>],
        rd_docker = [], rd_electron = Map.empty\<rparr>)" "[]" "(\<lparr>rss_version = Some ''1.5.3'', rss_type = Some ''Desktop'', rss_date = Some ''2024-01-05T10:00:00Z'',
        rss_electron = Some ''25.8.1'', rss_title = Some ''Obsidian 1.5.3 Desktop (Early access)''\<rparr>)" "[]" "(\<lparr>rss_version = Some ''1.5.3'', rss_type = Some ''Desktop'', rss_date = Some ''2024-01-12T10:00:00Z'',
        rss_electron = Some ''25.8.1'', rss_title = Some ''Obsidian 1.5.3 Desktop (Public)''\<rparr>)" "[]"]
    by blast
qed

section \<open>The changelog source: Electron versions filled in\<close>

lemma named_electrons_Cons:
  "named_electrons (v # vs) =
     (case fv_electron v of None \<Rightarrow> [] | Some e \<Rightarrow> if e \<noteq> [] then [e] else []) @ named_electrons vs"
  by (simp add: named_electrons_def)

lemma named_electrons_Nil: "named_electrons [] = []"
  by (simp add: named_electrons_def)

lemma fill_electron_nth:
  "fill_electron l ys =
     map (\<lambda>i. (ys ! i)\<lparr>fv_electron := Some (last (l # named_electrons (take (Suc i) ys)))\<rparr>)
       [0..<length ys]"
proof (induction ys arbitrary: l)
  case Nil
  then show ?case by simp
next
  case (Cons v vs)
  let ?g = "\<lambda>l ys i. (ys ! i)\<lparr>fv_electron := Some (last (l # named_electrons (take (Suc i) ys)))\<rparr>"
  have split: "map (?g l (v # vs)) [0..<length (v # vs)]
      = ?g l (v # vs) 0 # map (\<lambda>i. ?g l (v # vs) (Suc i)) [0..<length vs]"
    by (simp add: map_upt_Suc del: upt_Suc)
  show ?case
  proof (cases "\<exists>e. fv_electron v = Some e \<and> e \<noteq> []")
    case True
    then obtain e where e: "fv_electron v = Some e" "e \<noteq> []" by blast
    have hd: "?g l (v # vs) 0 = v"
      using e by (simp add: named_electrons_Cons named_electrons_Nil)
    have tl: "?g l (v # vs) (Suc i) = ?g e vs i" for i
      using e by (simp add: named_electrons_Cons)
    have "fill_electron l (v # vs) = v # fill_electron e vs" using e by simp
    also have "\<dots> = v # map (?g e vs) [0..<length vs]" using Cons.IH [of e] by simp
    also have "\<dots> = map (?g l (v # vs)) [0..<length (v # vs)]"
      unfolding split using hd tl by simp
    finally show ?thesis .
  next
    case False
    then have n: "(case fv_electron v of None \<Rightarrow> [] | Some e \<Rightarrow> if e \<noteq> [] then [e] else []) = []"
      by (auto split: option.splits)
    have hd: "?g l (v # vs) 0 = v\<lparr>fv_electron := Some l\<rparr>"
      using n by (simp add: named_electrons_Cons named_electrons_Nil)
    have tl: "?g l (v # vs) (Suc i) = ?g l vs i" for i
      using n by (simp add: named_electrons_Cons)
    have "fill_electron l (v # vs) = v\<lparr>fv_electron := Some l\<rparr> # fill_electron l vs"
      using False by (auto split: option.splits)
    also have "\<dots> = v\<lparr>fv_electron := Some l\<rparr> # map (?g l vs) [0..<length vs]"
      using Cons.IH [of l] by simp
    also have "\<dots> = map (?g l (v # vs)) [0..<length (v # vs)]"
      unfolding split using hd tl by simp
    finally show ?thesis .
  qed
qed

lemmas versions_eval =
  finish_versions_def sort_versions_def v_parts_def py_int_def digit_val_def is_digit_def

text \<open>
  Claim C3. The changelog source sorts its records ascending by the numeric components
  of the version (a sort that keeps the order of records of equal version), then gives
  each record, from the oldest on, the Electron version named last among the records up
  to and including it, or \<^verbatim>\<open>13.0.0\<close> when none is named yet: a record that names one
  keeps it, a record that names none gets the one seen most recently. The result is
  that list reversed, the newest first. For the records 1.0.0 with Electron 13.0.0,
  1.1.0 with none and 1.2.0 with Electron 20.0.0 the result is 1.2.0 with 20.0.0, then
  1.1.0 with 13.0.0, then 1.0.0 with 13.0.0.
\<close>

theorem backfill_newest_first:
  "finish_versions versions =
     rev (map (\<lambda>i. (sort_versions versions ! i)
                 \<lparr>fv_electron := Some (last (''13.0.0'' #
                      named_electrons (take (Suc i) (sort_versions versions))))\<rparr>)
            [0..<length versions])
   \<and> sorted (map (\<lambda>x. v_parts (fv_version x)) (sort_versions versions))
   \<and> filter (\<lambda>x. v_parts (fv_version x) = k) (sort_versions versions)
       = filter (\<lambda>x. v_parts (fv_version x) = k) versions
   \<and> finish_versions [(\<lparr>fv_version = ''1.0.0'', fv_type = ''Desktop'', fv_date = ''2022-10-13'',
        fv_electron = Some ''13.0.0'', fv_title = ''Obsidian 1.0.0 Desktop (Public)''\<rparr>), (\<lparr>fv_version = ''1.1.0'', fv_type = ''Desktop'', fv_date = ''2022-12-01'',
        fv_electron = None, fv_title = ''Obsidian 1.1.0 Desktop (Public)''\<rparr>), (\<lparr>fv_version = ''1.2.0'', fv_type = ''Desktop'', fv_date = ''2023-04-01'',
        fv_electron = Some ''20.0.0'', fv_title = ''Obsidian 1.2.0 Desktop (Public)''\<rparr>)] = [(\<lparr>fv_version = ''1.2.0'', fv_type = ''Desktop'', fv_date = ''2023-04-01'',
        fv_electron = Some ''20.0.0'', fv_title = ''Obsidian 1.2.0 Desktop (Public)''\<rparr>), (\<lparr>fv_version = ''1.1.0'', fv_type = ''Desktop'', fv_date = ''2022-12-01'',
        fv_electron = Some ''13.0.0'', fv_title = ''Obsidian 1.1.0 Desktop (Public)''\<rparr>), (\<lparr>fv_version = ''1.0.0'', fv_type = ''Desktop'', fv_date = ''2022-10-13'',
        fv_electron = Some ''13.0.0'', fv_title = ''Obsidian 1.0.0 Desktop (Public)''\<rparr>)]"
proof -
  have len: "length (sort_versions versions) = length versions"
    by (simp add: sort_versions_def)
  have 1: "finish_versions versions =
     rev (map (\<lambda>i. (sort_versions versions ! i)
                 \<lparr>fv_electron := Some (last (''13.0.0'' #
                      named_electrons (take (Suc i) (sort_versions versions))))\<rparr>)
            [0..<length versions])"
    unfolding finish_versions_def
    using fill_electron_nth [of "''13.0.0''" "sort_versions versions"] len by simp
  have 2: "sorted (map (\<lambda>x. v_parts (fv_version x)) (sort_versions versions))"
    by (simp add: sort_versions_def)
  have 3: "filter (\<lambda>x. v_parts (fv_version x) = k) (sort_versions versions)
       = filter (\<lambda>x. v_parts (fv_version x) = k) versions"
    unfolding sort_versions_def by (rule sort_key_stable)
  have 4: "finish_versions [(\<lparr>fv_version = ''1.0.0'', fv_type = ''Desktop'', fv_date = ''2022-10-13'',
        fv_electron = Some ''13.0.0'', fv_title = ''Obsidian 1.0.0 Desktop (Public)''\<rparr>), (\<lparr>fv_version = ''1.1.0'', fv_type = ''Desktop'', fv_date = ''2022-12-01'',
        fv_electron = None, fv_title = ''Obsidian 1.1.0 Desktop (Public)''\<rparr>), (\<lparr>fv_version = ''1.2.0'', fv_type = ''Desktop'', fv_date = ''2023-04-01'',
        fv_electron = Some ''20.0.0'', fv_title = ''Obsidian 1.2.0 Desktop (Public)''\<rparr>)] = [(\<lparr>fv_version = ''1.2.0'', fv_type = ''Desktop'', fv_date = ''2023-04-01'',
        fv_electron = Some ''20.0.0'', fv_title = ''Obsidian 1.2.0 Desktop (Public)''\<rparr>), (\<lparr>fv_version = ''1.1.0'', fv_type = ''Desktop'', fv_date = ''2022-12-01'',
        fv_electron = Some ''13.0.0'', fv_title = ''Obsidian 1.1.0 Desktop (Public)''\<rparr>), (\<lparr>fv_version = ''1.0.0'', fv_type = ''Desktop'', fv_date = ''2022-10-13'',
        fv_electron = Some ''13.0.0'', fv_title = ''Obsidian 1.0.0 Desktop (Public)''\<rparr>)]"
    by (simp add: versions_eval)
  show ?thesis using 1 2 3 4 by blast
qed

theorem backfill_newest_first_witness:
  "finish_versions [(\<lparr>fv_version = ''1.0.0'', fv_type = ''Desktop'', fv_date = ''2022-10-13'',
        fv_electron = Some ''21.0.0'', fv_title = ''Obsidian 1.0.0 Desktop (Public)''\<rparr>), (\<lparr>fv_version = ''0.9.0'', fv_type = ''Desktop'', fv_date = ''2020-10-01'',
        fv_electron = None, fv_title = ''Obsidian 0.9.0 Desktop''\<rparr>), (\<lparr>fv_version = ''0.10.1'', fv_type = ''Mobile'', fv_date = ''2021-02-01'',
        fv_electron = None, fv_title = ''Obsidian 0.10.1 Mobile''\<rparr>), (\<lparr>fv_version = ''0.10.0'', fv_type = ''Desktop'', fv_date = ''2021-01-01'',
        fv_electron = Some ''18.3.5'', fv_title = ''Obsidian 0.10.0 Desktop''\<rparr>)] = [(\<lparr>fv_version = ''1.0.0'', fv_type = ''Desktop'', fv_date = ''2022-10-13'',
        fv_electron = Some ''21.0.0'', fv_title = ''Obsidian 1.0.0 Desktop (Public)''\<rparr>), (\<lparr>fv_version = ''0.10.1'', fv_type = ''Mobile'', fv_date = ''2021-02-01'',
        fv_electron = Some ''18.3.5'', fv_title = ''Obsidian 0.10.1 Mobile''\<rparr>), (\<lparr>fv_version = ''0.10.0'', fv_type = ''Desktop'', fv_date = ''2021-01-01'',
        fv_electron = Some ''18.3.5'', fv_title = ''Obsidian 0.10.0 Desktop''\<rparr>), (\<lparr>fv_version = ''0.9.0'', fv_type = ''Desktop'', fv_date = ''2020-10-01'',
        fv_electron = Some ''13.0.0'', fv_title = ''Obsidian 0.9.0 Desktop''\<rparr>)]"
proof -
  have s: "sort_versions [(\<lparr>fv_version = ''1.0.0'', fv_type = ''Desktop'', fv_date = ''2022-10-13'',
        fv_electron = Some ''21.0.0'', fv_title = ''Obsidian 1.0.0 Desktop (Public)''\<rparr>), (\<lparr>fv_version = ''0.9.0'', fv_type = ''Desktop'', fv_date = ''2020-10-01'',
        fv_electron = None, fv_title = ''Obsidian 0.9.0 Desktop''\<rparr>), (\<lparr>fv_version = ''0.10.1'', fv_type = ''Mobile'', fv_date = ''2021-02-01'',
        fv_electron = None, fv_title = ''Obsidian 0.10.1 Mobile''\<rparr>), (\<lparr>fv_version = ''0.10.0'', fv_type = ''Desktop'', fv_date = ''2021-01-01'',
        fv_electron = Some ''18.3.5'', fv_title = ''Obsidian 0.10.0 Desktop''\<rparr>)] = [(\<lparr>fv_version = ''0.9.0'', fv_type = ''Desktop'', fv_date = ''2020-10-01'',
        fv_electron = None, fv_title = ''Obsidian 0.9.0 Desktop''\<rparr>), (\<lparr>fv_version = ''0.10.0'', fv_type = ''Desktop'', fv_date = ''2021-01-01'',
        fv_electron = Some ''18.3.5'', fv_title = ''Obsidian 0.10.0 Desktop''\<rparr>), (\<lparr>fv_version = ''0.10.1'', fv_type = ''Mobile'', fv_date = ''2021-02-01'',
        fv_electron = None, fv_title = ''Obsidian 0.10.1 Mobile''\<rparr>), (\<lparr>fv_version = ''1.0.0'', fv_type = ''Desktop'', fv_date = ''2022-10-13'',
        fv_electron = Some ''21.0.0'', fv_title = ''Obsidian 1.0.0 Desktop (Public)''\<rparr>)]"
    by (simp add: versions_eval)
  have u: "[0..<length [(\<lparr>fv_version = ''1.0.0'', fv_type = ''Desktop'', fv_date = ''2022-10-13'',
        fv_electron = Some ''21.0.0'', fv_title = ''Obsidian 1.0.0 Desktop (Public)''\<rparr>), (\<lparr>fv_version = ''0.9.0'', fv_type = ''Desktop'', fv_date = ''2020-10-01'',
        fv_electron = None, fv_title = ''Obsidian 0.9.0 Desktop''\<rparr>), (\<lparr>fv_version = ''0.10.1'', fv_type = ''Mobile'', fv_date = ''2021-02-01'',
        fv_electron = None, fv_title = ''Obsidian 0.10.1 Mobile''\<rparr>), (\<lparr>fv_version = ''0.10.0'', fv_type = ''Desktop'', fv_date = ''2021-01-01'',
        fv_electron = Some ''18.3.5'', fv_title = ''Obsidian 0.10.0 Desktop''\<rparr>)]] = [0, 1, 2, 3]"
    by (simp add: upt_rec)
  show ?thesis
    using backfill_newest_first [of "[(\<lparr>fv_version = ''1.0.0'', fv_type = ''Desktop'', fv_date = ''2022-10-13'',
        fv_electron = Some ''21.0.0'', fv_title = ''Obsidian 1.0.0 Desktop (Public)''\<rparr>), (\<lparr>fv_version = ''0.9.0'', fv_type = ''Desktop'', fv_date = ''2020-10-01'',
        fv_electron = None, fv_title = ''Obsidian 0.9.0 Desktop''\<rparr>), (\<lparr>fv_version = ''0.10.1'', fv_type = ''Mobile'', fv_date = ''2021-02-01'',
        fv_electron = None, fv_title = ''Obsidian 0.10.1 Mobile''\<rparr>), (\<lparr>fv_version = ''0.10.0'', fv_type = ''Desktop'', fv_date = ''2021-01-01'',
        fv_electron = Some ''18.3.5'', fv_title = ''Obsidian 0.10.0 Desktop''\<rparr>)]"]
    unfolding s u
    by (simp add: named_electrons_def)
qed

section \<open>Jumping to the next and the previous match\<close>

lemma find_upt_least:
  assumes "1 \<le> i" "i < n" "P i" "\<forall>j. 1 \<le> j \<and> j < i \<longrightarrow> \<not> P j"
  shows "find P [1..<n] = Some i"
proof -
  have "i - 1 < length [1..<n]" using assms(1,2) by simp
  moreover have "[1..<n] ! (i - 1) = i" using assms(1,2) by simp
  moreover have "\<forall>j < i - 1. \<not> P ([1..<n] ! j)" using assms(1,2,4) by simp
  ultimately show ?thesis using assms(3) unfolding find_Some_iff by metis
qed

lemma find_upt_none:
  assumes "\<forall>j. 1 \<le> j \<and> j < n \<longrightarrow> \<not> P j"
  shows "find P [1..<n] = None"
  using assms by (simp add: find_None_iff)

lemma jump_idx_less: "0 < count \<Longrightarrow> jump_idx c d count i < count"
proof -
  assume "0 < count"
  then have "0 \<le> (int c + int i * d) mod int count" "(int c + int i * d) mod int count < int count"
    by simp_all
  then show ?thesis unfolding jump_idx_def by linarith
qed

lemma jump_idx_next: "jump_idx c 1 count i = (c + i) mod count"
  unfolding jump_idx_def by (simp add: nat_mod_as_int)

lemma jump_idx_prev: "i \<le> count \<Longrightarrow> jump_idx c (- 1) count i = (c + (count - i)) mod count"
proof -
  assume h: "i \<le> count"
  have "(int c + int i * (- 1)) mod int count = (int c + int i * (- 1) + int count) mod int count"
    by simp
  also have "int c + int i * (- 1) + int count = int (c + (count - i))" using h by simp
  finally have "(int c + int i * (- 1)) mod int count = int ((c + (count - i)) mod count)"
    by (simp add: zmod_int)
  then show ?thesis unfolding jump_idx_def by simp
qed

lemma row_matches_cursor [simp]: "row_matches (st\<lparr>cursor_row := x\<rparr>) idx = row_matches st idx"
  by (simp add: row_matches_def)

lemma jump_to_match_found:
  assumes "search_query st \<noteq> []" "1 \<le> i" "i < length (table st)"
    "row_matches st (jump_idx (cursor_row st) d (length (table st)) i)"
    "\<forall>j. 1 \<le> j \<and> j < i \<longrightarrow> \<not> row_matches st (jump_idx (cursor_row st) d (length (table st)) j)"
  shows "jump_to_match st d = st\<lparr>cursor_row := jump_idx (cursor_row st) d (length (table st)) i\<rparr>"
proof -
  have "find (\<lambda>i. row_matches st (jump_idx (cursor_row st) d (length (table st)) i))
          [1..<length (table st)] = Some i"
    using assms(2-5) by (intro find_upt_least) simp_all
  then show ?thesis using assms(1) by (simp add: jump_to_match_def Let_def)
qed

lemma jump_to_match_none:
  assumes "\<forall>j. 1 \<le> j \<and> j < length (table st) \<longrightarrow>
             \<not> row_matches st (jump_idx (cursor_row st) d (length (table st)) j)"
  shows "jump_to_match st d = st"
proof -
  have "find (\<lambda>i. row_matches st (jump_idx (cursor_row st) d (length (table st)) i))
          [1..<length (table st)] = None"
    using assms by (intro find_upt_none) simp
  then show ?thesis by (simp add: jump_to_match_def Let_def)
qed

lemma jump_to_match_no_row:
  assumes "\<forall>idx < length (table st). \<not> row_matches st idx"
  shows "jump_to_match st d = st"
proof (rule jump_to_match_none, intro allI impI)
  fix j
  assume "1 \<le> j \<and> j < length (table st)"
  then have "0 < length (table st)" by linarith
  then have "jump_idx (cursor_row st) d (length (table st)) j < length (table st)"
    by (rule jump_idx_less)
  then show "\<not> row_matches st (jump_idx (cursor_row st) d (length (table st)) j)"
    using assms by simp
qed

lemma next_match_three_rows:
  assumes "search_query st \<noteq> []" "length (table st) = 3" "cursor_row st = 0"
    "\<not> row_matches st 0" "\<not> row_matches st 1" "row_matches st 2"
  shows "action_next_match st = st\<lparr>cursor_row := 2\<rparr>"
    and "action_next_match (action_next_match st) = action_next_match st"
proof -
  have j1: "jump_idx 0 1 3 1 = 1" and j2: "jump_idx 0 1 3 2 = 2"
    by (simp_all add: jump_idx_def)
  have "\<forall>j. 1 \<le> j \<and> j < (2::nat) \<longrightarrow>
      \<not> row_matches st (jump_idx (cursor_row st) 1 (length (table st)) j)"
  proof (intro allI impI)
    fix j :: nat
    assume "1 \<le> j \<and> j < 2"
    then have "j = 1" by linarith
    then show "\<not> row_matches st (jump_idx (cursor_row st) 1 (length (table st)) j)"
      using assms(2,3,5) j1 by simp
  qed
  then have "jump_to_match st 1 = st\<lparr>cursor_row := jump_idx (cursor_row st) 1 (length (table st)) 2\<rparr>"
    using assms j2 by (intro jump_to_match_found) simp_all
  then show a: "action_next_match st = st\<lparr>cursor_row := 2\<rparr>"
    using assms(2,3) j2 by (simp add: action_next_match_def)
  let ?st = "st\<lparr>cursor_row := 2\<rparr>"
  have k1: "jump_idx 2 1 3 1 = 0" and k2: "jump_idx 2 1 3 2 = 1"
    by (simp_all add: jump_idx_def)
  have "\<forall>j. 1 \<le> j \<and> j < length (table ?st) \<longrightarrow>
      \<not> row_matches ?st (jump_idx (cursor_row ?st) 1 (length (table ?st)) j)"
  proof (intro allI impI)
    fix j
    assume "1 \<le> j \<and> j < length (table ?st)"
    then have "j = 1 \<or> j = 2" using assms(2) by auto
    then show "\<not> row_matches ?st (jump_idx (cursor_row ?st) 1 (length (table ?st)) j)"
    proof
      assume "j = 1"
      then show ?thesis using assms(2,4) k1 by simp
    next
      assume "j = 2"
      then show ?thesis using assms(2,5) k2 by simp
    qed
  qed
  then have "jump_to_match ?st 1 = ?st" by (rule jump_to_match_none)
  then show "action_next_match (action_next_match st) = action_next_match st"
    using a by (simp add: action_next_match_def)
qed

lemmas match_eval = row_matches_def row_text_def lower_def lower_char_def

text \<open>
  Claim C7. With an empty query, or when no row of the table matches, \<^verbatim>\<open>jump_to_match\<close>
  changes nothing. Otherwise it looks at the rows \<open>c + d\<close>, \<open>c + 2 d\<close>, ... counted
  round the table from the cursor \<open>c\<close> (forwards for next-match, \<open>d = 1\<close>, backwards for
  prev-match, \<open>d = - 1\<close>) and moves the cursor to the first of them whose text, in
  lower case, contains the query in lower case; the row under the cursor is not
  looked at, so when only that row matches the cursor stays. With three rows of which
  only row 2 matches and the cursor on row 0, next-match moves the cursor to row 2 and
  a second next-match leaves it there.
\<close>

theorem jump_to_match_wraps:
  "(search_query st = [] \<longrightarrow> jump_to_match st d = st)
   \<and> ((\<forall>idx < length (table st). \<not> row_matches st idx) \<longrightarrow> jump_to_match st d = st)
   \<and> (search_query st \<noteq> [] \<and> 1 \<le> i \<and> i < length (table st)
        \<and> row_matches st (jump_idx (cursor_row st) d (length (table st)) i)
        \<and> (\<forall>j. 1 \<le> j \<and> j < i \<longrightarrow>
              \<not> row_matches st (jump_idx (cursor_row st) d (length (table st)) j))
      \<longrightarrow> jump_to_match st d = st\<lparr>cursor_row := jump_idx (cursor_row st) d (length (table st)) i\<rparr>)
   \<and> ((\<forall>j. 1 \<le> j \<and> j < length (table st) \<longrightarrow>
           \<not> row_matches st (jump_idx (cursor_row st) d (length (table st)) j))
      \<longrightarrow> jump_to_match st d = st)
   \<and> jump_idx c 1 count i = (c + i) mod count
   \<and> (i \<le> count \<longrightarrow> jump_idx c (- 1) count i = (c + (count - i)) mod count)
   \<and> (search_query st \<noteq> [] \<and> length (table st) = 3 \<and> cursor_row st = 0
        \<and> \<not> row_matches st 0 \<and> \<not> row_matches st 1 \<and> row_matches st 2
      \<longrightarrow> action_next_match st = st\<lparr>cursor_row := 2\<rparr>
          \<and> action_next_match (action_next_match st) = action_next_match st)"
proof -
  have 1: "search_query st = [] \<longrightarrow> jump_to_match st d = st"
    by (simp add: jump_to_match_def)
  show ?thesis
    using 1 jump_to_match_no_row [of st d] jump_to_match_found [of st i d]
      jump_to_match_none [of st d] jump_idx_next [of c count i] jump_idx_prev [of i count c]
      next_match_three_rows [of st]
    by blast
qed

theorem jump_to_match_wraps_witness:
  "search_query (\<lparr>raw = Some \<lparr>rd_rss = [\<lparr>rss_version = Some ''1.5.3'', rss_type = Some ''Desktop'', rss_date = Some ''2024-01-12T10:00:00Z'',
        rss_electron = Some ''25.8.1'', rss_title = Some ''Obsidian 1.5.3 Desktop (Public)''\<rparr>, \<lparr>rss_version = Some ''1.4.16'', rss_type = Some ''Desktop'', rss_date = Some ''2023-10-26T10:00:00Z'',
        rss_electron = Some ''25.8.1'', rss_title = Some ''Obsidian 1.4.16 Desktop (Public)''\<rparr>, \<lparr>rss_version = Some ''1.4.16'', rss_type = Some ''Mobile'', rss_date = Some ''2023-10-27T10:00:00Z'',
        rss_electron = Some ''25.8.1'', rss_title = Some ''Obsidian 1.4.16 Mobile (Public)''\<rparr>],
        rd_docker = [\<lparr>dk_version = Some ''1.4.16'', dk_tag = Some ''1.4.16''\<rparr>], rd_electron = Map.empty\<rparr>, search_query = ''MOBILE'', show_mobile = True,
        show_early_access = True, found_only = False, sort_by_priority = True, table = [\<lparr>c_id = ''0'', c_version = ''1.4.16'', c_type = ''Desktop'', c_released = ''2023-10-26'',
        c_status = ''Found'', c_electron = ''v25.8.1'', c_chromium = ''---''\<rparr>,
        \<lparr>c_id = ''1'', c_version = ''1.5.3'', c_type = ''Desktop'', c_released = ''2024-01-12'',
        c_status = ''Missing'', c_electron = ''v25.8.1'', c_chromium = ''---''\<rparr>,
        \<lparr>c_id = ''2'', c_version = ''1.4.16'', c_type = ''Mobile'', c_released = ''2023-10-27'',
        c_status = ''N/A'', c_electron = ''v25.8.1'', c_chromium = ''---''\<rparr>],
        cursor_row = 0, search_visible = True, screen_stack = [], notices = []\<rparr>) \<noteq> []
   \<and> length (table (\<lparr>raw = Some \<lparr>rd_rss = [\<lparr>rss_version = Some ''1.5.3'', rss_type = Some ''Desktop'', rss_date = Some ''2024-01-12T10:00:00Z'',
        rss_electron = Some ''25.8.1'', rss_title = Some ''Obsidian 1.5.3 Desktop (Public)''\<rparr>, \<lparr>rss_version = Some ''1.4.16'', rss_type = Some ''Desktop'', rss_date = Some ''2023-10-26T10:00:00Z'',
        rss_electron = Some ''25.8.1'', rss_title = Some ''Obsidian 1.4.16 Desktop (Public)''\<rparr>, \<lparr>rss_version = Some ''1.4.16'', rss_type = Some ''Mobile'', rss_date = Some ''2023-10-27T10:00:00Z'',
        rss_electron = Some ''25.8.1'', rss_title = Some ''Obsidian 1.4.16 Mobile (Public)''\<rparr>],
        rd_docker = [\<lparr>dk_version = Some ''1.4.16'', dk_tag = Some ''1.4.16''\<rparr>], rd_electron = Map.empty\<rparr>, search_query = ''MOBILE'', show_mobile = True,
        show_early_access = True, found_only = False, sort_by_priority = True, table = [\<lparr>c_id = ''0'', c_version = ''1.4.16'', c_type = ''Desktop'', c_released = ''2023-10-26'',
        c_status = ''Found'', c_electron = ''v25.8.1'', c_chromium = ''---''\<rparr>,
        \<lparr>c_id = ''1'', c_version = ''1.5.3'', c_type = ''Desktop'', c_released = ''2024-01-12'',
        c_status = ''Missing'', c_electron = ''v25.8.1'', c_chromium = ''---''\<rparr>,
        \<lparr>c_id = ''2'', c_version = ''1.4.16'', c_type = ''Mobile'', c_released = ''2023-10-27'',
        c_status = ''N/A'', c_electron = ''v25.8.1'', c_chromium = ''---''\<rparr>],
        cursor_row = 0, search_visible = True, screen_stack = [], notices = []\<rparr>)) = 3
   \<and> cursor_row (\<lparr>raw = Some \<lparr>rd_rss = [\<lparr>rss_version = Some ''1.5.3'', rss_type = Some ''Desktop'', rss_date = Some ''2024-01-12T10:00:00Z'',
        rss_electron = Some ''25.8.1'', rss_title = Some ''Obsidian 1.5.3 Desktop (Public)''\<rparr>, \<lparr>rss_version = Some ''1.4.16'', rss_type = Some ''Desktop'', rss_date = Some ''2023-10-26T10:00:00Z'',
        rss_electron = Some ''25.8.1'', rss_title = Some ''Obsidian 1.4.16 Desktop (Public)''\<rparr>, \<lparr>rss_version = Some ''1.4.16'', rss_type = Some ''Mobile'', rss_date = Some ''2023-10-27T10:00:00Z'',
        rss_electron = Some ''25.8.1'', rss_title = Some ''Obsidian 1.4.16 Mobile (Public)''\<rparr>],
        rd_docker = [\<lparr>dk_version = Some ''1.4.16'', dk_tag = Some ''1.4.16''\<rparr>], rd_electron = Map.empty\<rparr>, search_query = ''MOBILE'', show_mobile = True,
        show_early_access = True, found_only = False, sort_by_priority = True, table = [\<lparr>c_id = ''0'', c_version = ''1.4.16'', c_type = ''Desktop'', c_released = ''2023-10-26'',
        c_status = ''Found'', c_electron = ''v25.8.1'', c_chromium = ''---''\<rparr>,
        \<lparr>c_id = ''1'', c_version = ''1.5.3'', c_type = ''Desktop'', c_released = ''2024-01-12'',
        c_status = ''Missing'', c_electron = ''v25.8.1'', c_chromium = ''---''\<rparr>,
        \<lparr>c_id = ''2'', c_version = ''1.4.16'', c_type = ''Mobile'', c_released = ''2023-10-27'',
        c_status = ''N/A'', c_electron = ''v25.8.1'', c_chromium = ''---''\<rparr>],
        cursor_row = 0, search_visible = True, screen_stack = [], notices = []\<rparr>) = 0
   \<and> \<not> row_matches (\<lparr>raw = Some \<lparr>rd_rss = [\<lparr>rss_version = Some ''1.5.3'', rss_type = Some ''Desktop'', rss_date = Some ''2024-01-12T10:00:00Z'',
        rss_electron = Some ''25.8.1'', rss_title = Some ''Obsidian 1.5.3 Desktop (Public)''\<rparr>, \<lparr>rss_version = Some ''1.4.16'', rss_type = Some ''Desktop'', rss_date = Some ''2023-10-26T10:00:00Z'',
        rss_electron = Some ''25.8.1'', rss_title = Some ''Obsidian 1.4.16 Desktop (Public)''\<rparr>, \<lparr>rss_version = Some ''1.4.16'', rss_type = Some ''Mobile'', rss_date = Some ''2023-10-27T10:00:00Z'',
        rss_electron = Some ''25.8.1'', rss_title = Some ''Obsidian 1.4.16 Mobile (Public)''\<rparr>],
        rd_docker = [\<lparr>dk_version = Some ''1.4.16'', dk_tag = Some ''1.4.16''\<rparr>], rd_electron = Map.empty\<rparr>, search_query = ''MOBILE'', show_mobile = True,
        show_early_access = True, found_only = False, sort_by_priority = True, table = [\<lparr>c_id = ''0'', c_version = ''1.4.16'', c_type = ''Desktop'', c_released = ''2023-10-26'',
        c_status = ''Found'', c_electron = ''v25.8.1'', c_chromium = ''---''\<rparr>,
        \<lparr>c_id = ''1'', c_version = ''1.5.3'', c_type = ''Desktop'', c_released = ''2024-01-12'',
        c_status = ''Missing'', c_electron = ''v25.8.1'', c_chromium = ''---''\<rparr>,
        \<lparr>c_id = ''2'', c_version = ''1.4.16'', c_type = ''Mobile'', c_released = ''2023-10-27'',
        c_status = ''N/A'', c_electron = ''v25.8.1'', c_chromium = ''---''\<rparr>],
        cursor_row = 0, search_visible = True, screen_stack = [], notices = []\<rparr>) 0
   \<and> \<not> row_matches (\<lparr>raw = Some \<lparr>rd_rss = [\<lparr>rss_version = Some ''1.5.3'', rss_type = Some ''Desktop'', rss_date = Some ''2024-01-12T10:00:00Z'',
        rss_electron = Some ''25.8.1'', rss_title = Some ''Obsidian 1.5.3 Desktop (Public)''\<rparr>, \<lparr>rss_version = Some ''1.4.16'', rss_type = Some ''Desktop'', rss_date = Some ''2023-10-26T10:00:00Z'',
        rss_electron = Some ''25.8.1'', rss_title = Some ''Obsidian 1.4.16 Desktop (Public)''\<rparr>, \<lparr>rss_version = Some ''1.4.16'', rss_type = Some ''Mobile'', rss_date = Some ''2023-10-27T10:00:00Z'',
        rss_electron = Some ''25.8.1'', rss_title = Some ''Obsidian 1.4.16 Mobile (Public)''\<rparr>],
        rd_docker = [\<lparr>dk_version = Some ''1.4.16'', dk_tag = Some ''1.4.16''\<rparr>], rd_electron = Map.empty\<rparr>, search_query = ''MOBILE'', show_mobile = True,
        show_early_access = True, found_only = False, sort_by_priority = True, table = [\<lparr>c_id = ''0'', c_version = ''1.4.16'', c_type = ''Desktop'', c_released = ''2023-10-26'',
        c_status = ''Found'', c_electron = ''v25.8.1'', c_chromium = ''---''\<rparr>,
        \<lparr>c_id = ''1'', c_version = ''1.5.3'', c_type = ''Desktop'', c_released = ''2024-01-12'',
        c_status = ''Missing'', c_electron = ''v25.8.1'', c_chromium = ''---''\<rparr>,
        \<lparr>c_id = ''2'', c_version = ''1.4.16'', c_type = ''Mobile'', c_released = ''2023-10-27'',
        c_status = ''N/A'', c_electron = ''v25.8.1'', c_chromium = ''---''\<rparr>],
        cursor_row = 0, search_visible = True, screen_stack = [], notices = []\<rparr>) 1
   \<and> row_matches (\<lparr>raw = Some \<lparr>rd_rss = [\<lparr>rss_version = Some ''1.5.3'', rss_type = Some ''Desktop'', rss_date = Some ''2024-01-12T10:00:00Z'',
        rss_electron = Some ''25.8.1'', rss_title = Some ''Obsidian 1.5.3 Desktop (Public)''\<rparr>, \<lparr>rss_version = Some ''1.4.16'', rss_type = Some ''Desktop'', rss_date = Some ''2023-10-26T10:00:00Z'',
        rss_electron = Some ''25.8.1'', rss_title = Some ''Obsidian 1.4.16 Desktop (Public)''\<rparr>, \<lparr>rss_version = Some ''1.4.16'', rss_type = Some ''Mobile'', rss_date = Some ''2023-10-27T10:00:00Z'',
        rss_electron = Some ''25.8.1'', rss_title = Some ''Obsidian 1.4.16 Mobile (Public)''\<rparr>],
        rd_docker = [\<lparr>dk_version = Some ''1.4.16'', dk_tag = Some ''1.4.16''\<rparr>], rd_electron = Map.empty\<rparr>, search_query = ''MOBILE'', show_mobile = True,
        show_early_access = True, found_only = False, sort_by_priority = True, table = [\<lparr>c_id = ''0'', c_version = ''1.4.16'', c_type = ''Desktop'', c_released = ''2023-10-26'',
        c_status = ''Found'', c_electron = ''v25.8.1'', c_chromium = ''---''\<rparr>,
        \<lparr>c_id = ''1'', c_version = ''1.5.3'', c_type = ''Desktop'', c_released = ''2024-01-12'',
        c_status = ''Missing'', c_electron = ''v25.8.1'', c_chromium = ''---''\<rparr>,
        \<lparr>c_id = ''2'', c_version = ''1.4.16'', c_type = ''Mobile'', c_released = ''2023-10-27'',
        c_status = ''N/A'', c_electron = ''v25.8.1'', c_chromium = ''---''\<rparr>],
        cursor_row = 0, search_visible = True, screen_stack = [], notices = []\<rparr>) 2
   \<and> action_next_match (\<lparr>raw = Some \<lparr>rd_rss = [\<lparr>rss_version = Some ''1.5.3'', rss_type = Some ''Desktop'', rss_date = Some ''2024-01-12T10:00:00Z'',
        rss_electron = Some ''25.8.1'', rss_title = Some ''Obsidian 1.5.3 Desktop (Public)''\<rparr>, \<lparr>rss_version = Some ''1.4.16'', rss_type = Some ''Desktop'', rss_date = Some ''2023-10-26T10:00:00Z'',
        rss_electron = Some ''25.8.1'', rss_title = Some ''Obsidian 1.4.16 Desktop (Public)''\<rparr>, \<lparr>rss_version = Some ''1.4.16'', rss_type = Some ''Mobile'', rss_date = Some ''2023-10-27T10:00:00Z'',
        rss_electron = Some ''25.8.1'', rss_title = Some ''Obsidian 1.4.16 Mobile (Public)''\<rparr>],
        rd_docker = [\<lparr>dk_version = Some ''1.4.16'', dk_tag = Some ''1.4.16''\<rparr>], rd_electron = Map.empty\<rparr>, search_query = ''MOBILE'', show_mobile = True,
        show_early_access = True, found_only = False, sort_by_priority = True, table = [\<lparr>c_id = ''0'', c_version = ''1.4.16'', c_type = ''Desktop'', c_released = ''2023-10-26'',
        c_status = ''Found'', c_electron = ''v25.8.1'', c_chromium = ''---''\<rparr>,
        \<lparr>c_id = ''1'', c_version = ''1.5.3'', c_type = ''Desktop'', c_released = ''2024-01-12'',
        c_status = ''Missing'', c_electron = ''v25.8.1'', c_chromium = ''---''\<rparr>,
        \<lparr>c_id = ''2'', c_version = ''1.4.16'', c_type = ''Mobile'', c_released = ''2023-10-27'',
        c_status = ''N/A'', c_electron = ''v25.8.1'', c_chromium = ''---''\<rparr>],
        cursor_row = 0, search_visible = True, screen_stack = [], notices = []\<rparr>) = (\<lparr>raw = Some \<lparr>rd_rss = [\<lparr>rss_version = Some ''1.5.3'', rss_type = Some ''Desktop'', rss_date = Some ''2024-01-12T10:00:00Z'',
        rss_electron = Some ''25.8.1'', rss_title = Some ''Obsidian 1.5.3 Desktop (Public)''\<rparr>, \<lparr>rss_version = Some ''1.4.16'', rss_type = Some ''Desktop'', rss_date = Some ''2023-10-26T10:00:00Z'',
        rss_electron = Some ''25.8.1'', rss_title = Some ''Obsidian 1.4.16 Desktop (Public)''\<rparr>, \<lparr>rss_version = Some ''1.4.16'', rss_type = Some ''Mobile'', rss_date = Some ''2023-10-27T10:00:00Z'',
        rss_electron = Some ''25.8.1'', rss_title = Some ''Obsidian 1.4.16 Mobile (Public)''\<rparr>],
        rd_docker = [\<lparr>dk_version = Some ''1.4.16'', dk_tag = Some ''1.4.16''\<rparr>], rd_electron = Map.empty\<rparr>, search_query = ''MOBILE'', show_mobile = True,
        show_early_access = True, found_only = False, sort_by_priority = True, table = [\<lparr>c_id = ''0'', c_version = ''1.4.16'', c_type = ''Desktop'', c_released = ''2023-10-26'',
        c_status = ''Found'', c_electron = ''v25.8.1'', c_chromium = ''---''\<rparr>,
        \<lparr>c_id = ''1'', c_version = ''1.5.3'', c_type = ''Desktop'', c_released = ''2024-01-12'',
        c_status = ''Missing'', c_electron = ''v25.8.1'', c_chromium = ''---''\<rparr>,
        \<lparr>c_id = ''2'', c_version = ''1.4.16'', c_type = ''Mobile'', c_released = ''2023-10-27'',
        c_status = ''N/A'', c_electron = ''v25.8.1'', c_chromium = ''---''\<rparr>],
        cursor_row = 0, search_visible = True, screen_stack = [], notices = []\<rparr>)\<lparr>cursor_row := 2\<rparr>
   \<and> action_next_match (action_next_match (\<lparr>raw = Some \<lparr>rd_rss = [\<lparr>rss_version = Some ''1.5.3'', rss_type = Some ''Desktop'', rss_date = Some ''2024-01-12T10:00:00Z'',
        rss_electron = Some ''25.8.1'', rss_title = Some ''Obsidian 1.5.3 Desktop (Public)''\<rparr>, \<lparr>rss_version = Some ''1.4.16'', rss_type = Some ''Desktop'', rss_date = Some ''2023-10-26T10:00:00Z'',
        rss_electron = Some ''25.8.1'', rss_title = Some ''Obsidian 1.4.16 Desktop (Public)''\<rparr>, \<lparr>rss_version = Some ''1.4.16'', rss_type = Some ''Mobile'', rss_date = Some ''2023-10-27T10:00:00Z'',
        rss_electron = Some ''25.8.1'', rss_title = Some ''Obsidian 1.4.16 Mobile (Public)''\<rparr>],
        rd_docker = [\<lparr>dk_version = Some ''1.4.16'', dk_tag = Some ''1.4.16''\<rparr>], rd_electron = Map.empty\<rparr>, search_query = ''MOBILE'', show_mobile = True,
        show_early_access = True, found_only = False, sort_by_priority = True, table = [\<lparr>c_id = ''0'', c_version = ''1.4.16'', c_type = ''Desktop'', c_released = ''2023-10-26'',
        c_status = ''Found'', c_electron = ''v25.8.1'', c_chromium = ''---''\<rparr>,
        \<lparr>c_id = ''1'', c_version = ''1.5.3'', c_type = ''Desktop'', c_released = ''2024-01-12'',
        c_status = ''Missing'', c_electron = ''v25.8.1'', c_chromium = ''---''\<rparr>,
        \<lparr>c_id = ''2'', c_version = ''1.4.16'', c_type = ''Mobile'', c_released = ''2023-10-27'',
        c_status = ''N/A'', c_electron = ''v25.8.1'', c_chromium = ''---''\<rparr>],
        cursor_row = 0, search_visible = True, screen_stack = [], notices = []\<rparr>)) = action_next_match (\<lparr>raw = Some \<lparr>rd_rss = [\<lparr>rss_version = Some ''1.5.3'', rss_type = Some ''Desktop'', rss_date = Some ''2024-01-12T10:00:00Z'',
        rss_electron = Some ''25.8.1'', rss_title = Some ''Obsidian 1.5.3 Desktop (Public)''\<rparr>, \<lparr>rss_version = Some ''1.4.16'', rss_type = Some ''Desktop'', rss_date = Some ''2023-10-26T10:00:00Z'',
        rss_electron = Some ''25.8.1'', rss_title = Some ''Obsidian 1.4.16 Desktop (Public)''\<rparr>, \<lparr>rss_version = Some ''1.4.16'', rss_type = Some ''Mobile'', rss_date = Some ''2023-10-27T10:00:00Z'',
        rss_electron = Some ''25.8.1'', rss_title = Some ''Obsidian 1.4.16 Mobile (Public)''\<rparr>],
        rd_docker = [\<lparr>dk_version = Some ''1.4.16'', dk_tag = Some ''1.4.16''\<rparr>], rd_electron = Map.empty\<rparr>, search_query = ''MOBILE'', show_mobile = True,
        show_early_access = True, found_only = False, sort_by_priority = True, table = [\<lparr>c_id = ''0'', c_version = ''1.4.16'', c_type = ''Desktop'', c_released = ''2023-10-26'',
        c_status = ''Found'', c_electron = ''v25.8.1'', c_chromium = ''---''\<rparr>,
        \<lparr>c_id = ''1'', c_version = ''1.5.3'', c_type = ''Desktop'', c_released = ''2024-01-12'',
        c_status = ''Missing'', c_electron = ''v25.8.1'', c_chromium = ''---''\<rparr>,
        \<lparr>c_id = ''2'', c_version = ''1.4.16'', c_type = ''Mobile'', c_released = ''2023-10-27'',
        c_status = ''N/A'', c_electron = ''v25.8.1'', c_chromium = ''---''\<rparr>],
        cursor_row = 0, search_visible = True, screen_stack = [], notices = []\<rparr>)
   \<and> cursor_row (action_prev_match (\<lparr>raw = Some \<lparr>rd_rss = [\<lparr>rss_version = Some ''1.5.3'', rss_type = Some ''Desktop'', rss_date = Some ''2024-01-12T10:00:00Z'',
        rss_electron = Some ''25.8.1'', rss_title = Some ''Obsidian 1.5.3 Desktop (Public)''\<rparr>, \<lparr>rss_version = Some ''1.4.16'', rss_type = Some ''Desktop'', rss_date = Some ''2023-10-26T10:00:00Z'',
        rss_electron = Some ''25.8.1'', rss_title = Some ''Obsidian 1.4.16 Desktop (Public)''\<rparr>, \<lparr>rss_version = Some ''1.4.16'', rss_type = Some ''Mobile'', rss_date = Some ''2023-10-27T10:00:00Z'',
        rss_electron = Some ''25.8.1'', rss_title = Some ''Obsidian 1.4.16 Mobile (Public)''\<rparr>],
        rd_docker = [\<lparr>dk_version = Some ''1.4.16'', dk_tag = Some ''1.4.16''\<rparr>], rd_electron = Map.empty\<rparr>, search_query = ''MOBILE'', show_mobile = True,
        show_early_access = True, found_only = False, sort_by_priority = True, table = [\<lparr>c_id = ''0'', c_version = ''1.4.16'', c_type = ''Desktop'', c_released = ''2023-10-26'',
        c_status = ''Found'', c_electron = ''v25.8.1'', c_chromium = ''---''\<rparr>,
        \<lparr>c_id = ''1'', c_version = ''1.5.3'', c_type = ''Desktop'', c_released = ''2024-01-12'',
        c_status = ''Missing'', c_electron = ''v25.8.1'', c_chromium = ''---''\<rparr>,
        \<lparr>c_id = ''2'', c_version = ''1.4.16'', c_type = ''Mobile'', c_released = ''2023-10-27'',
        c_status = ''N/A'', c_electron = ''v25.8.1'', c_chromium = ''---''\<rparr>],
        cursor_row = 0, search_visible = True, screen_stack = [], notices = []\<rparr>)) = 2
   \<and> jump_to_match (\<lparr>raw = Some \<lparr>rd_rss = [\<lparr>rss_version = Some ''1.5.3'', rss_type = Some ''Desktop'', rss_date = Some ''2024-01-12T10:00:00Z'',
        rss_electron = Some ''25.8.1'', rss_title = Some ''Obsidian 1.5.3 Desktop (Public)''\<rparr>, \<lparr>rss_version = Some ''1.4.16'', rss_type = Some ''Desktop'', rss_date = Some ''2023-10-26T10:00:00Z'',
        rss_electron = Some ''25.8.1'', rss_title = Some ''Obsidian 1.4.16 Desktop (Public)''\<rparr>, \<lparr>rss_version = Some ''1.4.16'', rss_type = Some ''Mobile'', rss_date = Some ''2023-10-27T10:00:00Z'',
        rss_electron = Some ''25.8.1'', rss_title = Some ''Obsidian 1.4.16 Mobile (Public)''\<rparr>],
        rd_docker = [\<lparr>dk_version = Some ''1.4.16'', dk_tag = Some ''1.4.16''\<rparr>], rd_electron = Map.empty\<rparr>, search_query = ''MOBILE'', show_mobile = True,
        show_early_access = True, found_only = False, sort_by_priority = True, table = [\<lparr>c_id = ''0'', c_version = ''1.4.16'', c_type = ''Desktop'', c_released = ''2023-10-26'',
        c_status = ''Found'', c_electron = ''v25.8.1'', c_chromium = ''---''\<rparr>,
        \<lparr>c_id = ''1'', c_version = ''1.5.3'', c_type = ''Desktop'', c_released = ''2024-01-12'',
        c_status = ''Missing'', c_electron = ''v25.8.1'', c_chromium = ''---''\<rparr>,
        \<lparr>c_id = ''2'', c_version = ''1.4.16'', c_type = ''Mobile'', c_released = ''2023-10-27'',
        c_status = ''N/A'', c_electron = ''v25.8.1'', c_chromium = ''---''\<rparr>],
        cursor_row = 0, search_visible = True, screen_stack = [], notices = []\<rparr>) 1
       = (\<lparr>raw = Some \<lparr>rd_rss = [\<lparr>rss_version = Some ''1.5.3'', rss_type = Some ''Desktop'', rss_date = Some ''2024-01-12T10:00:00Z'',
        rss_electron = Some ''25.8.1'', rss_title = Some ''Obsidian 1.5.3 Desktop (Public)''\<rparr>, \<lparr>rss_version = Some ''1.4.16'', rss_type = Some ''Desktop'', rss_date = Some ''2023-10-26T10:00:00Z'',
        rss_electron = Some ''25.8.1'', rss_title = Some ''Obsidian 1.4.16 Desktop (Public)''\<rparr>, \<lparr>rss_version = Some ''1.4.16'', rss_type = Some ''Mobile'', rss_date = Some ''2023-10-27T10:00:00Z'',
        rss_electron = Some ''25.8.1'', rss_title = Some ''Obsidian 1.4.16 Mobile (Public)''\<rparr>],
        rd_docker = [\<lparr>dk_version = Some ''1.4.16'', dk_tag = Some ''1.4.16''\<rparr>], rd_electron = Map.empty\<rparr>, search_query = ''MOBILE'', show_mobile = True,
        show_early_access = True, found_only = False, sort_by_priority = True, table = [\<lparr>c_id = ''0'', c_version = ''1.4.16'', c_type = ''Desktop'', c_released = ''2023-10-26'',
        c_status = ''Found'', c_electron = ''v25.8.1'', c_chromium = ''---''\<rparr>,
        \<lparr>c_id = ''1'', c_version = ''1.5.3'', c_type = ''Desktop'', c_released = ''2024-01-12'',
        c_status = ''Missing'', c_electron = ''v25.8.1'', c_chromium = ''---''\<rparr>,
        \<lparr>c_id = ''2'', c_version = ''1.4.16'', c_type = ''Mobile'', c_released = ''2023-10-27'',
        c_status = ''N/A'', c_electron = ''v25.8.1'', c_chromium = ''---''\<rparr>],
        cursor_row = 0, search_visible = True, screen_stack = [], notices = []\<rparr>)\<lparr>cursor_row := jump_idx (cursor_row (\<lparr>raw = Some \<lparr>rd_rss = [\<lparr>rss_version = Some ''1.5.3'', rss_type = Some ''Desktop'', rss_date = Some ''2024-01-12T10:00:00Z'',
        rss_electron = Some ''25.8.1'', rss_title = Some ''Obsidian 1.5.3 Desktop (Public)''\<rparr>, \<lparr>rss_version = Some ''1.4.16'', rss_type = Some ''Desktop'', rss_date = Some ''2023-10-26T10:00:00Z'',
        rss_electron = Some ''25.8.1'', rss_title = Some ''Obsidian 1.4.16 Desktop (Public)''\<rparr>, \<lparr>rss_version = Some ''1.4.16'', rss_type = Some ''Mobile'', rss_date = Some ''2023-10-27T10:00:00Z'',
        rss_electron = Some ''25.8.1'', rss_title = Some ''Obsidian 1.4.16 Mobile (Public)''\<rparr>],
        rd_docker = [\<lparr>dk_version = Some ''1.4.16'', dk_tag = Some ''1.4.16''\<rparr>], rd_electron = Map.empty\<rparr>, search_query = ''MOBILE'', show_mobile = True,
        show_early_access = True, found_only = False, sort_by_priority = True, table = [\<lparr>c_id = ''0'', c_version = ''1.4.16'', c_type = ''Desktop'', c_released = ''2023-10-26'',
        c_status = ''Found'', c_electron = ''v25.8.1'', c_chromium = ''---''\<rparr>,
        \<lparr>c_id = ''1'', c_version = ''1.5.3'', c_type = ''Desktop'', c_released = ''2024-01-12'',
        c_status = ''Missing'', c_electron = ''v25.8.1'', c_chromium = ''---''\<rparr>,
        \<lparr>c_id = ''2'', c_version = ''1.4.16'', c_type = ''Mobile'', c_released = ''2023-10-27'',
        c_status = ''N/A'', c_electron = ''v25.8.1'', c_chromium = ''---''\<rparr>],
        cursor_row = 0, search_visible = True, screen_stack = [], notices = []\<rparr>)) 1 (length (table (\<lparr>raw = Some \<lparr>rd_rss = [\<lparr>rss_version = Some ''1.5.3'', rss_type = Some ''Desktop'', rss_date = Some ''2024-01-12T10:00:00Z'',
        rss_electron = Some ''25.8.1'', rss_title = Some ''Obsidian 1.5.3 Desktop (Public)''\<rparr>, \<lparr>rss_version = Some ''1.4.16'', rss_type = Some ''Desktop'', rss_date = Some ''2023-10-26T10:00:00Z'',
        rss_electron = Some ''25.8.1'', rss_title = Some ''Obsidian 1.4.16 Desktop (Public)''\<rparr>, \<lparr>rss_version = Some ''1.4.16'', rss_type = Some ''Mobile'', rss_date = Some ''2023-10-27T10:00:00Z'',
        rss_electron = Some ''25.8.1'', rss_title = Some ''Obsidian 1.4.16 Mobile (Public)''\<rparr>],
        rd_docker = [\<lparr>dk_version = Some ''1.4.16'', dk_tag = Some ''1.4.16''\<rparr>], rd_electron = Map.empty\<rparr>, search_query = ''MOBILE'', show_mobile = True,
        show_early_access = True, found_only = False, sort_by_priority = True, table = [\<lparr>c_id = ''0'', c_version = ''1.4.16'', c_type = ''Desktop'', c_released = ''2023-10-26'',
        c_status = ''Found'', c_electron = ''v25.8.1'', c_chromium = ''---''\<rparr>,
        \<lparr>c_id = ''1'', c_version = ''1.5.3'', c_type = ''Desktop'', c_released = ''2024-01-12'',
        c_status = ''Missing'', c_electron = ''v25.8.1'', c_chromium = ''---''\<rparr>,
        \<lparr>c_id = ''2'', c_version = ''1.4.16'', c_type = ''Mobile'', c_released = ''2023-10-27'',
        c_status = ''N/A'', c_electron = ''v25.8.1'', c_chromium = ''---''\<rparr>],
        cursor_row = 0, search_visible = True, screen_stack = [], notices = []\<rparr>))) 2\<rparr>
   \<and> search_query (\<lparr>raw = Some \<lparr>rd_rss = [\<lparr>rss_version = Some ''1.5.3'', rss_type = Some ''Desktop'', rss_date = Some ''2024-01-12T10:00:00Z'',
        rss_electron = Some ''25.8.1'', rss_title = Some ''Obsidian 1.5.3 Desktop (Public)''\<rparr>, \<lparr>rss_version = Some ''1.4.16'', rss_type = Some ''Desktop'', rss_date = Some ''2023-10-26T10:00:00Z'',
        rss_electron = Some ''25.8.1'', rss_title = Some ''Obsidian 1.4.16 Desktop (Public)''\<rparr>, \<lparr>rss_version = Some ''1.4.16'', rss_type = Some ''Mobile'', rss_date = Some ''2023-10-27T10:00:00Z'',
        rss_electron = Some ''25.8.1'', rss_title = Some ''Obsidian 1.4.16 Mobile (Public)''\<rparr>],
        rd_docker = [\<lparr>dk_version = Some ''1.4.16'', dk_tag = Some ''1.4.16''\<rparr>], rd_electron = Map.empty\<rparr>, search_query = '''', show_mobile = True,
        show_early_access = True, found_only = False, sort_by_priority = True, table = [\<lparr>c_id = ''0'', c_version = ''1.4.16'', c_type = ''Desktop'', c_released = ''2023-10-26'',
        c_status = ''Found'', c_electron = ''v25.8.1'', c_chromium = ''---''\<rparr>,
        \<lparr>c_id = ''1'', c_version = ''1.5.3'', c_type = ''Desktop'', c_released = ''2024-01-12'',
        c_status = ''Missing'', c_electron = ''v25.8.1'', c_chromium = ''---''\<rparr>,
        \<lparr>c_id = ''2'', c_version = ''1.4.16'', c_type = ''Mobile'', c_released = ''2023-10-27'',
        c_status = ''N/A'', c_electron = ''v25.8.1'', c_chromium = ''---''\<rparr>],
        cursor_row = 0, search_visible = False, screen_stack = [], notices = []\<rparr>) = []
   \<and> jump_to_match (\<lparr>raw = Some \<lparr>rd_rss = [\<lparr>rss_version = Some ''1.5.3'', rss_type = Some ''Desktop'', rss_date = Some ''2024-01-12T10:00:00Z'',
        rss_electron = Some ''25.8.1'', rss_title = Some ''Obsidian 1.5.3 Desktop (Public)''\<rparr>, \<lparr>rss_version = Some ''1.4.16'', rss_type = Some ''Desktop'', rss_date = Some ''2023-10-26T10:00:00Z'',
        rss_electron = Some ''25.8.1'', rss_title = Some ''Obsidian 1.4.16 Desktop (Public)''\<rparr>, \<lparr>rss_version = Some ''1.4.16'', rss_type = Some ''Mobile'', rss_date = Some ''2023-10-27T10:00:00Z'',
        rss_electron = Some ''25.8.1'', rss_title = Some ''Obsidian 1.4.16 Mobile (Public)''\<rparr>],
        rd_docker = [\<lparr>dk_version = Some ''1.4.16'', dk_tag = Some ''1.4.16''\<rparr>], rd_electron = Map.empty\<rparr>, search_query = '''', show_mobile = True,
        show_early_access = True, found_only = False, sort_by_priority = True, table = [\<lparr>c_id = ''0'', c_version = ''1.4.16'', c_type = ''Desktop'', c_released = ''2023-10-26'',
        c_status = ''Found'', c_electron = ''v25.8.1'', c_chromium = ''---''\<rparr>,
        \<lparr>c_id = ''1'', c_version = ''1.5.3'', c_type = ''Desktop'', c_released = ''2024-01-12'',
        c_status = ''Missing'', c_electron = ''v25.8.1'', c_chromium = ''---''\<rparr>,
        \<lparr>c_id = ''2'', c_version = ''1.4.16'', c_type = ''Mobile'', c_released = ''2023-10-27'',
        c_status = ''N/A'', c_electron = ''v25.8.1'', c_chromium = ''---''\<rparr>],
        cursor_row = 0, search_visible = False, screen_stack = [], notices = []\<rparr>) 1 = (\<lparr>raw = Some \<lparr>rd_rss = [\<lparr>rss_version = Some ''1.5.3'', rss_type = Some ''Desktop'', rss_date = Some ''2024-01-12T10:00:00Z'',
        rss_electron = Some ''25.8.1'', rss_title = Some ''Obsidian 1.5.3 Desktop (Public)''\<rparr>, \<lparr>rss_version = Some ''1.4.16'', rss_type = Some ''Desktop'', rss_date = Some ''2023-10-26T10:00:00Z'',
        rss_electron = Some ''25.8.1'', rss_title = Some ''Obsidian 1.4.16 Desktop (Public)''\<rparr>, \<lparr>rss_version = Some ''1.4.16'', rss_type = Some ''Mobile'', rss_date = Some ''2023-10-27T10:00:00Z'',
        rss_electron = Some ''25.8.1'', rss_title = Some ''Obsidian 1.4.16 Mobile (Public)''\<rparr>],
        rd_docker = [\<lparr>dk_version = Some ''1.4.16'', dk_tag = Some ''1.4.16''\<rparr>], rd_electron = Map.empty\<rparr>, search_query = '''', show_mobile = True,
        show_early_access = True, found_only = False, sort_by_priority = True, table = [\<lparr>c_id = ''0'', c_version = ''1.4.16'', c_type = ''Desktop'', c_released = ''2023-10-26'',
        c_status = ''Found'', c_electron = ''v25.8.1'', c_chromium = ''---''\<rparr>,
        \<lparr>c_id = ''1'', c_version = ''1.5.3'', c_type = ''Desktop'', c_released = ''2024-01-12'',
        c_status = ''Missing'', c_electron = ''v25.8.1'', c_chromium = ''---''\<rparr>,
        \<lparr>c_id = ''2'', c_version = ''1.4.16'', c_type = ''Mobile'', c_released = ''2023-10-27'',
        c_status = ''N/A'', c_electron = ''v25.8.1'', c_chromium = ''---''\<rparr>],
        cursor_row = 0, search_visible = False, screen_stack = [], notices = []\<rparr>)
   \<and> jump_to_match (\<lparr>raw = Some \<lparr>rd_rss = [\<lparr>rss_version = Some ''1.5.3'', rss_type = Some ''Desktop'', rss_date = Some ''2024-01-12T10:00:00Z'',
        rss_electron = Some ''25.8.1'', rss_title = Some ''Obsidian 1.5.3 Desktop (Public)''\<rparr>, \<lparr>rss_version = Some ''1.4.16'', rss_type = Some ''Desktop'', rss_date = Some ''2023-10-26T10:00:00Z'',
        rss_electron = Some ''25.8.1'', rss_title = Some ''Obsidian 1.4.16 Desktop (Public)''\<rparr>, \<lparr>rss_version = Some ''1.4.16'', rss_type = Some ''Mobile'', rss_date = Some ''2023-10-27T10:00:00Z'',
        rss_electron = Some ''25.8.1'', rss_title = Some ''Obsidian 1.4.16 Mobile (Public)''\<rparr>],
        rd_docker = [\<lparr>dk_version = Some ''1.4.16'', dk_tag = Some ''1.4.16''\<rparr>], rd_electron = Map.empty\<rparr>, search_query = ''zzz'', show_mobile = True,
        show_early_access = True, found_only = False, sort_by_priority = True, table = [\<lparr>c_id = ''0'', c_version = ''1.4.16'', c_type = ''Desktop'', c_released = ''2023-10-26'',
        c_status = ''Found'', c_electron = ''v25.8.1'', c_chromium = ''---''\<rparr>,
        \<lparr>c_id = ''1'', c_version = ''1.5.3'', c_type = ''Desktop'', c_released = ''2024-01-12'',
        c_status = ''Missing'', c_electron = ''v25.8.1'', c_chromium = ''---''\<rparr>,
        \<lparr>c_id = ''2'', c_version = ''1.4.16'', c_type = ''Mobile'', c_released = ''2023-10-27'',
        c_status = ''N/A'', c_electron = ''v25.8.1'', c_chromium = ''---''\<rparr>],
        cursor_row = 0, search_visible = True, screen_stack = [], notices = []\<rparr>) (- 1) = (\<lparr>raw = Some \<lparr>rd_rss = [\<lparr>rss_version = Some ''1.5.3'', rss_type = Some ''Desktop'', rss_date = Some ''2024-01-12T10:00:00Z'',
        rss_electron = Some ''25.8.1'', rss_title = Some ''Obsidian 1.5.3 Desktop (Public)''\<rparr>, \<lparr>rss_version = Some ''1.4.16'', rss_type = Some ''Desktop'', rss_date = Some ''2023-10-26T10:00:00Z'',
        rss_electron = Some ''25.8.1'', rss_title = Some ''Obsidian 1.4.16 Desktop (Public)''\<rparr>, \<lparr>rss_version = Some ''1.4.16'', rss_type = Some ''Mobile'', rss_date = Some ''2023-10-27T10:00:00Z'',
        rss_electron = Some ''25.8.1'', rss_title = Some ''Obsidian 1.4.16 Mobile (Public)''\<rparr>],
        rd_docker = [\<lparr>dk_version = Some ''1.4.16'', dk_tag = Some ''1.4.16''\<rparr>], rd_electron = Map.empty\<rparr>, search_query = ''zzz'', show_mobile = True,
        show_early_access = True, found_only = False, sort_by_priority = True, table = [\<lparr>c_id = ''0'', c_version = ''1.4.16'', c_type = ''Desktop'', c_released = ''2023-10-26'',
        c_status = ''Found'', c_electron = ''v25.8.1'', c_chromium = ''---''\<rparr>,
        \<lparr>c_id = ''1'', c_version = ''1.5.3'', c_type = ''Desktop'', c_released = ''2024-01-12'',
        c_status = ''Missing'', c_electron = ''v25.8.1'', c_chromium = ''---''\<rparr>,
        \<lparr>c_id = ''2'', c_version = ''1.4.16'', c_type = ''Mobile'', c_released = ''2023-10-27'',
        c_status = ''N/A'', c_electron = ''v25.8.1'', c_chromium = ''---''\<rparr>],
        cursor_row = 0, search_visible = True, screen_stack = [], notices = []\<rparr>)"
proof -
  have c: "search_query (\<lparr>raw = Some \<lparr>rd_rss = [\<lparr>rss_version = Some ''1.5.3'', rss_type = Some ''Desktop'', rss_date = Some ''2024-01-12T10:00:00Z'',
        rss_electron = Some ''25.8.1'', rss_title = Some ''Obsidian 1.5.3 Desktop (Public)''\<rparr>, \<lparr>rss_version = Some ''1.4.16'', rss_type = Some ''Desktop'', rss_date = Some ''2023-10-26T10:00:00Z'',
        rss_electron = Some ''25.8.1'', rss_title = Some ''Obsidian 1.4.16 Desktop (Public)''\<rparr>, \<lparr>rss_version = Some ''1.4.16'', rss_type = Some ''Mobile'', rss_date = Some ''2023-10-27T10:00:00Z'',
        rss_electron = Some ''25.8.1'', rss_title = Some ''Obsidian 1.4.16 Mobile (Public)''\<rparr>],
        rd_docker = [\<lparr>dk_version = Some ''1.4.16'', dk_tag = Some ''1.4.16''\<rparr>], rd_electron = Map.empty\<rparr>, search_query = ''MOBILE'', show_mobile = True,
        show_early_access = True, found_only = False, sort_by_priority = True, table = [\<lparr>c_id = ''0'', c_version = ''1.4.16'', c_type = ''Desktop'', c_released = ''2023-10-26'',
        c_status = ''Found'', c_electron = ''v25.8.1'', c_chromium = ''---''\<rparr>,
        \<lparr>c_id = ''1'', c_version = ''1.5.3'', c_type = ''Desktop'', c_released = ''2024-01-12'',
        c_status = ''Missing'', c_electron = ''v25.8.1'', c_chromium = ''---''\<rparr>,
        \<lparr>c_id = ''2'', c_version = ''1.4.16'', c_type = ''Mobile'', c_released = ''2023-10-27'',
        c_status = ''N/A'', c_electron = ''v25.8.1'', c_chromium = ''---''\<rparr>],
        cursor_row = 0, search_visible = True, screen_stack = [], notices = []\<rparr>) \<noteq> []
      \<and> length (table (\<lparr>raw = Some \<lparr>rd_rss = [\<lparr>rss_version = Some ''1.5.3'', rss_type = Some ''Desktop'', rss_date = Some ''2024-01-12T10:00:00Z'',
        rss_electron = Some ''25.8.1'', rss_title = Some ''Obsidian 1.5.3 Desktop (Public)''\<rparr>, \<lparr>rss_version = Some ''1.4.16'', rss_type = Some ''Desktop'', rss_date = Some ''2023-10-26T10:00:00Z'',
        rss_electron = Some ''25.8.1'', rss_title = Some ''Obsidian 1.4.16 Desktop (Public)''\<rparr>, \<lparr>rss_version = Some ''1.4.16'', rss_type = Some ''Mobile'', rss_date = Some ''2023-10-27T10:00:00Z'',
        rss_electron = Some ''25.8.1'', rss_title = Some ''Obsidian 1.4.16 Mobile (Public)''\<rparr>],
        rd_docker = [\<lparr>dk_version = Some ''1.4.16'', dk_tag = Some ''1.4.16''\<rparr>], rd_electron = Map.empty\<rparr>, search_query = ''MOBILE'', show_mobile = True,
        show_early_access = True, found_only = False, sort_by_priority = True, table = [\<lparr>c_id = ''0'', c_version = ''1.4.16'', c_type = ''Desktop'', c_released = ''2023-10-26'',
        c_status = ''Found'', c_electron = ''v25.8.1'', c_chromium = ''---''\<rparr>,
        \<lparr>c_id = ''1'', c_version = ''1.5.3'', c_type = ''Desktop'', c_released = ''2024-01-12'',
        c_status = ''Missing'', c_electron = ''v25.8.1'', c_chromium = ''---''\<rparr>,
        \<lparr>c_id = ''2'', c_version = ''1.4.16'', c_type = ''Mobile'', c_released = ''2023-10-27'',
        c_status = ''N/A'', c_electron = ''v25.8.1'', c_chromium = ''---''\<rparr>],
        cursor_row = 0, search_visible = True, screen_stack = [], notices = []\<rparr>)) = 3
      \<and> cursor_row (\<lparr>raw = Some \<lparr>rd_rss = [\<lparr>rss_version = Some ''1.5.3'', rss_type = Some ''Desktop'', rss_date = Some ''2024-01-12T10:00:00Z'',
        rss_electron = Some ''25.8.1'', rss_title = Some ''Obsidian 1.5.3 Desktop (Public)''\<rparr>, \<lparr>rss_version = Some ''1.4.16'', rss_type = Some ''Desktop'', rss_date = Some ''2023-10-26T10:00:00Z'',
        rss_electron = Some ''25.8.1'', rss_title = Some ''Obsidian 1.4.16 Desktop (Public)''\<rparr>, \<lparr>rss_version = Some ''1.4.16'', rss_type = Some ''Mobile'', rss_date = Some ''2023-10-27T10:00:00Z'',
        rss_electron = Some ''25.8.1'', rss_title = Some ''Obsidian 1.4.16 Mobile (Public)''\<rparr>],
        rd_docker = [\<lparr>dk_version = Some ''1.4.16'', dk_tag = Some ''1.4.16''\<rparr>], rd_electron = Map.empty\<rparr>, search_query = ''MOBILE'', show_mobile = True,
        show_early_access = True, found_only = False, sort_by_priority = True, table = [\<lparr>c_id = ''0'', c_version = ''1.4.16'', c_type = ''Desktop'', c_released = ''2023-10-26'',
        c_status = ''Found'', c_electron = ''v25.8.1'', c_chromium = ''---''\<rparr>,
        \<lparr>c_id = ''1'', c_version = ''1.5.3'', c_type = ''Desktop'', c_released = ''2024-01-12'',
        c_status = ''Missing'', c_electron = ''v25.8.1'', c_chromium = ''---''\<rparr>,
        \<lparr>c_id = ''2'', c_version = ''1.4.16'', c_type = ''Mobile'', c_released = ''2023-10-27'',
        c_status = ''N/A'', c_electron = ''v25.8.1'', c_chromium = ''---''\<rparr>],
        cursor_row = 0, search_visible = True, screen_stack = [], notices = []\<rparr>) = 0
      \<and> \<not> row_matches (\<lparr>raw = Some \<lparr>rd_rss = [\<lparr>rss_version = Some ''1.5.3'', rss_type = Some ''Desktop'', rss_date = Some ''2024-01-12T10:00:00Z'',
        rss_electron = Some ''25.8.1'', rss_title = Some ''Obsidian 1.5.3 Desktop (Public)''\<rparr>, \<lparr>rss_version = Some ''1.4.16'', rss_type = Some ''Desktop'', rss_date = Some ''2023-10-26T10:00:00Z'',
        rss_electron = Some ''25.8.1'', rss_title = Some ''Obsidian 1.4.16 Desktop (Public)''\<rparr>, \<lparr>rss_version = Some ''1.4.16'', rss_type = Some ''Mobile'', rss_date = Some ''2023-10-27T10:00:00Z'',
        rss_electron = Some ''25.8.1'', rss_title = Some ''Obsidian 1.4.16 Mobile (Public)''\<rparr>],
        rd_docker = [\<lparr>dk_version = Some ''1.4.16'', dk_tag = Some ''1.4.16''\<rparr>], rd_electron = Map.empty\<rparr>, search_query = ''MOBILE'', show_mobile = True,
        show_early_access = True, found_only = False, sort_by_priority = True, table = [\<lparr>c_id = ''0'', c_version = ''1.4.16'', c_type = ''Desktop'', c_released = ''2023-10-26'',
        c_status = ''Found'', c_electron = ''v25.8.1'', c_chromium = ''---''\<rparr>,
        \<lparr>c_id = ''1'', c_version = ''1.5.3'', c_type = ''Desktop'', c_released = ''2024-01-12'',
        c_status = ''Missing'', c_electron = ''v25.8.1'', c_chromium = ''---''\<rparr>,
        \<lparr>c_id = ''2'', c_version = ''1.4.16'', c_type = ''Mobile'', c_released = ''2023-10-27'',
        c_status = ''N/A'', c_electron = ''v25.8.1'', c_chromium = ''---''\<rparr>],
        cursor_row = 0, search_visible = True, screen_stack = [], notices = []\<rparr>) 0
      \<and> \<not> row_matches (\<lparr>raw = Some \<lparr>rd_rss = [\<lparr>rss_version = Some ''1.5.3'', rss_type = Some ''Desktop'', rss_date = Some ''2024-01-12T10:00:00Z'',
        rss_electron = Some ''25.8.1'', rss_title = Some ''Obsidian 1.5.3 Desktop (Public)''\<rparr>, \<lparr>rss_version = Some ''1.4.16'', rss_type = Some ''Desktop'', rss_date = Some ''2023-10-26T10:00:00Z'',
        rss_electron = Some ''25.8.1'', rss_title = Some ''Obsidian 1.4.16 Desktop (Public)''\<rparr>, \<lparr>rss_version = Some ''1.4.16'', rss_type = Some ''Mobile'', rss_date = Some ''2023-10-27T10:00:00Z'',
        rss_electron = Some ''25.8.1'', rss_title = Some ''Obsidian 1.4.16 Mobile (Public)''\<rparr>],
        rd_docker = [\<lparr>dk_version = Some ''1.4.16'', dk_tag = Some ''1.4.16''\<rparr>], rd_electron = Map.empty\<rparr>, search_query = ''MOBILE'', show_mobile = True,
        show_early_access = True, found_only = False, sort_by_priority = True, table = [\<lparr>c_id = ''0'', c_version = ''1.4.16'', c_type = ''Desktop'', c_released = ''2023-10-26'',
        c_status = ''Found'', c_electron = ''v25.8.1'', c_chromium = ''---''\<rparr>,
        \<lparr>c_id = ''1'', c_version = ''1.5.3'', c_type = ''Desktop'', c_released = ''2024-01-12'',
        c_status = ''Missing'', c_electron = ''v25.8.1'', c_chromium = ''---''\<rparr>,
        \<lparr>c_id = ''2'', c_version = ''1.4.16'', c_type = ''Mobile'', c_released = ''2023-10-27'',
        c_status = ''N/A'', c_electron = ''v25.8.1'', c_chromium = ''---''\<rparr>],
        cursor_row = 0, search_visible = True, screen_stack = [], notices = []\<rparr>) 1
      \<and> row_matches (\<lparr>raw = Some \<lparr>rd_rss = [\<lparr>rss_version = Some ''1.5.3'', rss_type = Some ''Desktop'', rss_date = Some ''2024-01-12T10:00:00Z'',
        rss_electron = Some ''25.8.1'', rss_title = Some ''Obsidian 1.5.3 Desktop (Public)''\<rparr>, \<lparr>rss_version = Some ''1.4.16'', rss_type = Some ''Desktop'', rss_date = Some ''2023-10-26T10:00:00Z'',
        rss_electron = Some ''25.8.1'', rss_title = Some ''Obsidian 1.4.16 Desktop (Public)''\<rparr>, \<lparr>rss_version = Some ''1.4.16'', rss_type = Some ''Mobile'', rss_date = Some ''2023-10-27T10:00:00Z'',
        rss_electron = Some ''25.8.1'', rss_title = Some ''Obsidian 1.4.16 Mobile (Public)''\<rparr>],
        rd_docker = [\<lparr>dk_version = Some ''1.4.16'', dk_tag = Some ''1.4.16''\<rparr>], rd_electron = Map.empty\<rparr>, search_query = ''MOBILE'', show_mobile = True,
        show_early_access = True, found_only = False, sort_by_priority = True, table = [\<lparr>c_id = ''0'', c_version = ''1.4.16'', c_type = ''Desktop'', c_released = ''2023-10-26'',
        c_status = ''Found'', c_electron = ''v25.8.1'', c_chromium = ''---''\<rparr>,
        \<lparr>c_id = ''1'', c_version = ''1.5.3'', c_type = ''Desktop'', c_released = ''2024-01-12'',
        c_status = ''Missing'', c_electron = ''v25.8.1'', c_chromium = ''---''\<rparr>,
        \<lparr>c_id = ''2'', c_version = ''1.4.16'', c_type = ''Mobile'', c_released = ''2023-10-27'',
        c_status = ''N/A'', c_electron = ''v25.8.1'', c_chromium = ''---''\<rparr>],
        cursor_row = 0, search_visible = True, screen_stack = [], notices = []\<rparr>) 2"
    by (simp add: match_eval)
  have p: "cursor_row (action_prev_match (\<lparr>raw = Some \<lparr>rd_rss = [\<lparr>rss_version = Some ''1.5.3'', rss_type = Some ''Desktop'', rss_date = Some ''2024-01-12T10:00:00Z'',
        rss_electron = Some ''25.8.1'', rss_title = Some ''Obsidian 1.5.3 Desktop (Public)''\<rparr>, \<lparr>rss_version = Some ''1.4.16'', rss_type = Some ''Desktop'', rss_date = Some ''2023-10-26T10:00:00Z'',
        rss_electron = Some ''25.8.1'', rss_title = Some ''Obsidian 1.4.16 Desktop (Public)''\<rparr>, \<lparr>rss_version = Some ''1.4.16'', rss_type = Some ''Mobile'', rss_date = Some ''2023-10-27T10:00:00Z'',
        rss_electron = Some ''25.8.1'', rss_title = Some ''Obsidian 1.4.16 Mobile (Public)''\<rparr>],
        rd_docker = [\<lparr>dk_version = Some ''1.4.16'', dk_tag = Some ''1.4.16''\<rparr>], rd_electron = Map.empty\<rparr>, search_query = ''MOBILE'', show_mobile = True,
        show_early_access = True, found_only = False, sort_by_priority = True, table = [\<lparr>c_id = ''0'', c_version = ''1.4.16'', c_type = ''Desktop'', c_released = ''2023-10-26'',
        c_status = ''Found'', c_electron = ''v25.8.1'', c_chromium = ''---''\<rparr>,
        \<lparr>c_id = ''1'', c_version = ''1.5.3'', c_type = ''Desktop'', c_released = ''2024-01-12'',
        c_status = ''Missing'', c_electron = ''v25.8.1'', c_chromium = ''---''\<rparr>,
        \<lparr>c_id = ''2'', c_version = ''1.4.16'', c_type = ''Mobile'', c_released = ''2023-10-27'',
        c_status = ''N/A'', c_electron = ''v25.8.1'', c_chromium = ''---''\<rparr>],
        cursor_row = 0, search_visible = True, screen_stack = [], notices = []\<rparr>)) = 2"
    by (simp add: action_prev_match_def jump_to_match_def jump_idx_def Let_def match_eval)
  have j: "\<forall>j. 1 \<le> j \<and> j < 2 \<longrightarrow>
      \<not> row_matches (\<lparr>raw = Some \<lparr>rd_rss = [\<lparr>rss_version = Some ''1.5.3'', rss_type = Some ''Desktop'', rss_date = Some ''2024-01-12T10:00:00Z'',
        rss_electron = Some ''25.8.1'', rss_title = Some ''Obsidian 1.5.3 Desktop (Public)''\<rparr>, \<lparr>rss_version = Some ''1.4.16'', rss_type = Some ''Desktop'', rss_date = Some ''2023-10-26T10:00:00Z'',
        rss_electron = Some ''25.8.1'', rss_title = Some ''Obsidian 1.4.16 Desktop (Public)''\<rparr>, \<lparr>rss_version = Some ''1.4.16'', rss_type = Some ''Mobile'', rss_date = Some ''2023-10-27T10:00:00Z'',
        rss_electron = Some ''25.8.1'', rss_title = Some ''Obsidian 1.4.16 Mobile (Public)''\<rparr>],
        rd_docker = [\<lparr>dk_version = Some ''1.4.16'', dk_tag = Some ''1.4.16''\<rparr>], rd_electron = Map.empty\<rparr>, search_query = ''MOBILE'', show_mobile = True,
        show_early_access = True, found_only = False, sort_by_priority = True, table = [\<lparr>c_id = ''0'', c_version = ''1.4.16'', c_type = ''Desktop'', c_released = ''2023-10-26'',
        c_status = ''Found'', c_electron = ''v25.8.1'', c_chromium = ''---''\<rparr>,
        \<lparr>c_id = ''1'', c_version = ''1.5.3'', c_type = ''Desktop'', c_released = ''2024-01-12'',
        c_status = ''Missing'', c_electron = ''v25.8.1'', c_chromium = ''---''\<rparr>,
        \<lparr>c_id = ''2'', c_version = ''1.4.16'', c_type = ''Mobile'', c_released = ''2023-10-27'',
        c_status = ''N/A'', c_electron = ''v25.8.1'', c_chromium = ''---''\<rparr>],
        cursor_row = 0, search_visible = True, screen_stack = [], notices = []\<rparr>) (jump_idx (cursor_row (\<lparr>raw = Some \<lparr>rd_rss = [\<lparr>rss_version = Some ''1.5.3'', rss_type = Some ''Desktop'', rss_date = Some ''2024-01-12T10:00:00Z'',
        rss_electron = Some ''25.8.1'', rss_title = Some ''Obsidian 1.5.3 Desktop (Public)''\<rparr>, \<lparr>rss_version = Some ''1.4.16'', rss_type = Some ''Desktop'', rss_date = Some ''2023-10-26T10:00:00Z'',
        rss_electron = Some ''25.8.1'', rss_title = Some ''Obsidian 1.4.16 Desktop (Public)''\<rparr>, \<lparr>rss_version = Some ''1.4.16'', rss_type = Some ''Mobile'', rss_date = Some ''2023-10-27T10:00:00Z'',
        rss_electron = Some ''25.8.1'', rss_title = Some ''Obsidian 1.4.16 Mobile (Public)''\<rparr>],
        rd_docker = [\<lparr>dk_version = Some ''1.4.16'', dk_tag = Some ''1.4.16''\<rparr>], rd_electron = Map.empty\<rparr>, search_query = ''MOBILE'', show_mobile = True,
        show_early_access = True, found_only = False, sort_by_priority = True, table = [\<lparr>c_id = ''0'', c_version = ''1.4.16'', c_type = ''Desktop'', c_released = ''2023-10-26'',
        c_status = ''Found'', c_electron = ''v25.8.1'', c_chromium = ''---''\<rparr>,
        \<lparr>c_id = ''1'', c_version = ''1.5.3'', c_type = ''Desktop'', c_released = ''2024-01-12'',
        c_status = ''Missing'', c_electron = ''v25.8.1'', c_chromium = ''---''\<rparr>,
        \<lparr>c_id = ''2'', c_version = ''1.4.16'', c_type = ''Mobile'', c_released = ''2023-10-27'',
        c_status = ''N/A'', c_electron = ''v25.8.1'', c_chromium = ''---''\<rparr>],
        cursor_row = 0, search_visible = True, screen_stack = [], notices = []\<rparr>)) 1 (length (table (\<lparr>raw = Some \<lparr>rd_rss = [\<lparr>rss_version = Some ''1.5.3'', rss_type = Some ''Desktop'', rss_date = Some ''2024-01-12T10:00:00Z'',
        rss_electron = Some ''25.8.1'', rss_title = Some ''Obsidian 1.5.3 Desktop (Public)''\<rparr>, \<lparr>rss_version = Some ''1.4.16'', rss_type = Some ''Desktop'', rss_date = Some ''2023-10-26T10:00:00Z'',
        rss_electron = Some ''25.8.1'', rss_title = Some ''Obsidian 1.4.16 Desktop (Public)''\<rparr>, \<lparr>rss_version = Some ''1.4.16'', rss_type = Some ''Mobile'', rss_date = Some ''2023-10-27T10:00:00Z'',
        rss_electron = Some ''25.8.1'', rss_title = Some ''Obsidian 1.4.16 Mobile (Public)''\<rparr>],
        rd_docker = [\<lparr>dk_version = Some ''1.4.16'', dk_tag = Some ''1.4.16''\<rparr>], rd_electron = Map.empty\<rparr>, search_query = ''MOBILE'', show_mobile = True,
        show_early_access = True, found_only = False, sort_by_priority = True, table = [\<lparr>c_id = ''0'', c_version = ''1.4.16'', c_type = ''Desktop'', c_released = ''2023-10-26'',
        c_status = ''Found'', c_electron = ''v25.8.1'', c_chromium = ''---''\<rparr>,
        \<lparr>c_id = ''1'', c_version = ''1.5.3'', c_type = ''Desktop'', c_released = ''2024-01-12'',
        c_status = ''Missing'', c_electron = ''v25.8.1'', c_chromium = ''---''\<rparr>,
        \<lparr>c_id = ''2'', c_version = ''1.4.16'', c_type = ''Mobile'', c_released = ''2023-10-27'',
        c_status = ''N/A'', c_electron = ''v25.8.1'', c_chromium = ''---''\<rparr>],
        cursor_row = 0, search_visible = True, screen_stack = [], notices = []\<rparr>))) j)"
  proof (intro allI impI)
    fix j :: nat
    assume "1 \<le> j \<and> j < 2"
    then have "j = 1" by linarith
    then show "\<not> row_matches (\<lparr>raw = Some \<lparr>rd_rss = [\<lparr>rss_version = Some ''1.5.3'', rss_type = Some ''Desktop'', rss_date = Some ''2024-01-12T10:00:00Z'',
        rss_electron = Some ''25.8.1'', rss_title = Some ''Obsidian 1.5.3 Desktop (Public)''\<rparr>, \<lparr>rss_version = Some ''1.4.16'', rss_type = Some ''Desktop'', rss_date = Some ''2023-10-26T10:00:00Z'',
        rss_electron = Some ''25.8.1'', rss_title = Some ''Obsidian 1.4.16 Desktop (Public)''\<rparr>, \<lparr>rss_version = Some ''1.4.16'', rss_type = Some ''Mobile'', rss_date = Some ''2023-10-27T10:00:00Z'',
        rss_electron = Some ''25.8.1'', rss_title = Some ''Obsidian 1.4.16 Mobile (Public)''\<rparr>],
        rd_docker = [\<lparr>dk_version = Some ''1.4.16'', dk_tag = Some ''1.4.16''\<rparr>], rd_electron = Map.empty\<rparr>, search_query = ''MOBILE'', show_mobile = True,
        show_early_access = True, found_only = False, sort_by_priority = True, table = [\<lparr>c_id = ''0'', c_version = ''1.4.16'', c_type = ''Desktop'', c_released = ''2023-10-26'',
        c_status = ''Found'', c_electron = ''v25.8.1'', c_chromium = ''---''\<rparr>,
        \<lparr>c_id = ''1'', c_version = ''1.5.3'', c_type = ''Desktop'', c_released = ''2024-01-12'',
        c_status = ''Missing'', c_electron = ''v25.8.1'', c_chromium = ''---''\<rparr>,
        \<lparr>c_id = ''2'', c_version = ''1.4.16'', c_type = ''Mobile'', c_released = ''2023-10-27'',
        c_status = ''N/A'', c_electron = ''v25.8.1'', c_chromium = ''---''\<rparr>],
        cursor_row = 0, search_visible = True, screen_stack = [], notices = []\<rparr>) (jump_idx (cursor_row (\<lparr>raw = Some \<lparr>rd_rss = [\<lparr>rss_version = Some ''1.5.3'', rss_type = Some ''Desktop'', rss_date = Some ''2024-01-12T10:00:00Z'',
        rss_electron = Some ''25.8.1'', rss_title = Some ''Obsidian 1.5.3 Desktop (Public)''\<rparr>, \<lparr>rss_version = Some ''1.4.16'', rss_type = Some ''Desktop'', rss_date = Some ''2023-10-26T10:00:00Z'',
        rss_electron = Some ''25.8.1'', rss_title = Some ''Obsidian 1.4.16 Desktop (Public)''\<rparr>, \<lparr>rss_version = Some ''1.4.16'', rss_type = Some ''Mobile'', rss_date = Some ''2023-10-27T10:00:00Z'',
        rss_electron = Some ''25.8.1'', rss_title = Some ''Obsidian 1.4.16 Mobile (Public)''\<rparr>],
        rd_docker = [\<lparr>dk_version = Some ''1.4.16'', dk_tag = Some ''1.4.16''\<rparr>], rd_electron = Map.empty\<rparr>, search_query = ''MOBILE'', show_mobile = True,
        show_early_access = True, found_only = False, sort_by_priority = True, table = [\<lparr>c_id = ''0'', c_version = ''1.4.16'', c_type = ''Desktop'', c_released = ''2023-10-26'',
        c_status = ''Found'', c_electron = ''v25.8.1'', c_chromium = ''---''\<rparr>,
        \<lparr>c_id = ''1'', c_version = ''1.5.3'', c_type = ''Desktop'', c_released = ''2024-01-12'',
        c_status = ''Missing'', c_electron = ''v25.8.1'', c_chromium = ''---''\<rparr>,
        \<lparr>c_id = ''2'', c_version = ''1.4.16'', c_type = ''Mobile'', c_released = ''2023-10-27'',
        c_status = ''N/A'', c_electron = ''v25.8.1'', c_chromium = ''---''\<rparr>],
        cursor_row = 0, search_visible = True, screen_stack = [], notices = []\<rparr>)) 1 (length (table (\<lparr>raw = Some \<lparr>rd_rss = [\<lparr>rss_version = Some ''1.5.3'', rss_type = Some ''Desktop'', rss_date = Some ''2024-01-12T10:00:00Z'',
        rss_electron = Some ''25.8.1'', rss_title = Some ''Obsidian 1.5.3 Desktop (Public)''\<rparr>, \<lparr>rss_version = Some ''1.4.16'', rss_type = Some ''Desktop'', rss_date = Some ''2023-10-26T10:00:00Z'',
        rss_electron = Some ''25.8.1'', rss_title = Some ''Obsidian 1.4.16 Desktop (Public)''\<rparr>, \<lparr>rss_version = Some ''1.4.16'', rss_type = Some ''Mobile'', rss_date = Some ''2023-10-27T10:00:00Z'',
        rss_electron = Some ''25.8.1'', rss_title = Some ''Obsidian 1.4.16 Mobile (Public)''\<rparr>],
        rd_docker = [\<lparr>dk_version = Some ''1.4.16'', dk_tag = Some ''1.4.16''\<rparr>], rd_electron = Map.empty\<rparr>, search_query = ''MOBILE'', show_mobile = True,
        show_early_access = True, found_only = False, sort_by_priority = True, table = [\<lparr>c_id = ''0'', c_version = ''1.4.16'', c_type = ''Desktop'', c_released = ''2023-10-26'',
        c_status = ''Found'', c_electron = ''v25.8.1'', c_chromium = ''---''\<rparr>,
        \<lparr>c_id = ''1'', c_version = ''1.5.3'', c_type = ''Desktop'', c_released = ''2024-01-12'',
        c_status = ''Missing'', c_electron = ''v25.8.1'', c_chromium = ''---''\<rparr>,
        \<lparr>c_id = ''2'', c_version = ''1.4.16'', c_type = ''Mobile'', c_released = ''2023-10-27'',
        c_status = ''N/A'', c_electron = ''v25.8.1'', c_chromium = ''---''\<rparr>],
        cursor_row = 0, search_visible = True, screen_stack = [], notices = []\<rparr>))) j)"
      by (simp add: match_eval jump_idx_def)
  qed
  have i: "search_query (\<lparr>raw = Some \<lparr>rd_rss = [\<lparr>rss_version = Some ''1.5.3'', rss_type = Some ''Desktop'', rss_date = Some ''2024-01-12T10:00:00Z'',
        rss_electron = Some ''25.8.1'', rss_title = Some ''Obsidian 1.5.3 Desktop (Public)''\<rparr>, \<lparr>rss_version = Some ''1.4.16'', rss_type = Some ''Desktop'', rss_date = Some ''2023-10-26T10:00:00Z'',
        rss_electron = Some ''25.8.1'', rss_title = Some ''Obsidian 1.4.16 Desktop (Public)''\<rparr>, \<lparr>rss_version = Some ''1.4.16'', rss_type = Some ''Mobile'', rss_date = Some ''2023-10-27T10:00:00Z'',
        rss_electron = Some ''25.8.1'', rss_title = Some ''Obsidian 1.4.16 Mobile (Public)''\<rparr>],
        rd_docker = [\<lparr>dk_version = Some ''1.4.16'', dk_tag = Some ''1.4.16''\<rparr>], rd_electron = Map.empty\<rparr>, search_query = ''MOBILE'', show_mobile = True,
        show_early_access = True, found_only = False, sort_by_priority = True, table = [\<lparr>c_id = ''0'', c_version = ''1.4.16'', c_type = ''Desktop'', c_released = ''2023-10-26'',
        c_status = ''Found'', c_electron = ''v25.8.1'', c_chromium = ''---''\<rparr>,
        \<lparr>c_id = ''1'', c_version = ''1.5.3'', c_type = ''Desktop'', c_released = ''2024-01-12'',
        c_status = ''Missing'', c_electron = ''v25.8.1'', c_chromium = ''---''\<rparr>,
        \<lparr>c_id = ''2'', c_version = ''1.4.16'', c_type = ''Mobile'', c_released = ''2023-10-27'',
        c_status = ''N/A'', c_electron = ''v25.8.1'', c_chromium = ''---''\<rparr>],
        cursor_row = 0, search_visible = True, screen_stack = [], notices = []\<rparr>) \<noteq> [] \<and> 1 \<le> (2::nat) \<and> 2 < length (table (\<lparr>raw = Some \<lparr>rd_rss = [\<lparr>rss_version = Some ''1.5.3'', rss_type = Some ''Desktop'', rss_date = Some ''2024-01-12T10:00:00Z'',
        rss_electron = Some ''25.8.1'', rss_title = Some ''Obsidian 1.5.3 Desktop (Public)''\<rparr>, \<lparr>rss_version = Some ''1.4.16'', rss_type = Some ''Desktop'', rss_date = Some ''2023-10-26T10:00:00Z'',
        rss_electron = Some ''25.8.1'', rss_title = Some ''Obsidian 1.4.16 Desktop (Public)''\<rparr>, \<lparr>rss_version = Some ''1.4.16'', rss_type = Some ''Mobile'', rss_date = Some ''2023-10-27T10:00:00Z'',
        rss_electron = Some ''25.8.1'', rss_title = Some ''Obsidian 1.4.16 Mobile (Public)''\<rparr>],
        rd_docker = [\<lparr>dk_version = Some ''1.4.16'', dk_tag = Some ''1.4.16''\<rparr>], rd_electron = Map.empty\<rparr>, search_query = ''MOBILE'', show_mobile = True,
        show_early_access = True, found_only = False, sort_by_priority = True, table = [\<lparr>c_id = ''0'', c_version = ''1.4.16'', c_type = ''Desktop'', c_released = ''2023-10-26'',
        c_status = ''Found'', c_electron = ''v25.8.1'', c_chromium = ''---''\<rparr>,
        \<lparr>c_id = ''1'', c_version = ''1.5.3'', c_type = ''Desktop'', c_released = ''2024-01-12'',
        c_status = ''Missing'', c_electron = ''v25.8.1'', c_chromium = ''---''\<rparr>,
        \<lparr>c_id = ''2'', c_version = ''1.4.16'', c_type = ''Mobile'', c_released = ''2023-10-27'',
        c_status = ''N/A'', c_electron = ''v25.8.1'', c_chromium = ''---''\<rparr>],
        cursor_row = 0, search_visible = True, screen_stack = [], notices = []\<rparr>))
      \<and> row_matches (\<lparr>raw = Some \<lparr>rd_rss = [\<lparr>rss_version = Some ''1.5.3'', rss_type = Some ''Desktop'', rss_date = Some ''2024-01-12T10:00:00Z'',
        rss_electron = Some ''25.8.1'', rss_title = Some ''Obsidian 1.5.3 Desktop (Public)''\<rparr>, \<lparr>rss_version = Some ''1.4.16'', rss_type = Some ''Desktop'', rss_date = Some ''2023-10-26T10:00:00Z'',
        rss_electron = Some ''25.8.1'', rss_title = Some ''Obsidian 1.4.16 Desktop (Public)''\<rparr>, \<lparr>rss_version = Some ''1.4.16'', rss_type = Some ''Mobile'', rss_date = Some ''2023-10-27T10:00:00Z'',
        rss_electron = Some ''25.8.1'', rss_title = Some ''Obsidian 1.4.16 Mobile (Public)''\<rparr>],
        rd_docker = [\<lparr>dk_version = Some ''1.4.16'', dk_tag = Some ''1.4.16''\<rparr>], rd_electron = Map.empty\<rparr>, search_query = ''MOBILE'', show_mobile = True,
        show_early_access = True, found_only = False, sort_by_priority = True, table = [\<lparr>c_id = ''0'', c_version = ''1.4.16'', c_type = ''Desktop'', c_released = ''2023-10-26'',
        c_status = ''Found'', c_electron = ''v25.8.1'', c_chromium = ''---''\<rparr>,
        \<lparr>c_id = ''1'', c_version = ''1.5.3'', c_type = ''Desktop'', c_released = ''2024-01-12'',
        c_status = ''Missing'', c_electron = ''v25.8.1'', c_chromium = ''---''\<rparr>,
        \<lparr>c_id = ''2'', c_version = ''1.4.16'', c_type = ''Mobile'', c_released = ''2023-10-27'',
        c_status = ''N/A'', c_electron = ''v25.8.1'', c_chromium = ''---''\<rparr>],
        cursor_row = 0, search_visible = True, screen_stack = [], notices = []\<rparr>) (jump_idx (cursor_row (\<lparr>raw = Some \<lparr>rd_rss = [\<lparr>rss_version = Some ''1.5.3'', rss_type = Some ''Desktop'', rss_date = Some ''2024-01-12T10:00:00Z'',
        rss_electron = Some ''25.8.1'', rss_title = Some ''Obsidian 1.5.3 Desktop (Public)''\<rparr>, \<lparr>rss_version = Some ''1.4.16'', rss_type = Some ''Desktop'', rss_date = Some ''2023-10-26T10:00:00Z'',
        rss_electron = Some ''25.8.1'', rss_title = Some ''Obsidian 1.4.16 Desktop (Public)''\<rparr>, \<lparr>rss_version = Some ''1.4.16'', rss_type = Some ''Mobile'', rss_date = Some ''2023-10-27T10:00:00Z'',
        rss_electron = Some ''25.8.1'', rss_title = Some ''Obsidian 1.4.16 Mobile (Public)''\<rparr>],
        rd_docker = [\<lparr>dk_version = Some ''1.4.16'', dk_tag = Some ''1.4.16''\<rparr>], rd_electron = Map.empty\<rparr>, search_query = ''MOBILE'', show_mobile = True,
        show_early_access = True, found_only = False, sort_by_priority = True, table = [\<lparr>c_id = ''0'', c_version = ''1.4.16'', c_type = ''Desktop'', c_released = ''2023-10-26'',
        c_status = ''Found'', c_electron = ''v25.8.1'', c_chromium = ''---''\<rparr>,
        \<lparr>c_id = ''1'', c_version = ''1.5.3'', c_type = ''Desktop'', c_released = ''2024-01-12'',
        c_status = ''Missing'', c_electron = ''v25.8.1'', c_chromium = ''---''\<rparr>,
        \<lparr>c_id = ''2'', c_version = ''1.4.16'', c_type = ''Mobile'', c_released = ''2023-10-27'',
        c_status = ''N/A'', c_electron = ''v25.8.1'', c_chromium = ''---''\<rparr>],
        cursor_row = 0, search_visible = True, screen_stack = [], notices = []\<rparr>)) 1 (length (table (\<lparr>raw = Some \<lparr>rd_rss = [\<lparr>rss_version = Some ''1.5.3'', rss_type = Some ''Desktop'', rss_date = Some ''2024-01-12T10:00:00Z'',
        rss_electron = Some ''25.8.1'', rss_title = Some ''Obsidian 1.5.3 Desktop (Public)''\<rparr>, \<lparr>rss_version = Some ''1.4.16'', rss_type = Some ''Desktop'', rss_date = Some ''2023-10-26T10:00:00Z'',
        rss_electron = Some ''25.8.1'', rss_title = Some ''Obsidian 1.4.16 Desktop (Public)''\<rparr>, \<lparr>rss_version = Some ''1.4.16'', rss_type = Some ''Mobile'', rss_date = Some ''2023-10-27T10:00:00Z'',
        rss_electron = Some ''25.8.1'', rss_title = Some ''Obsidian 1.4.16 Mobile (Public)''\<rparr>],
        rd_docker = [\<lparr>dk_version = Some ''1.4.16'', dk_tag = Some ''1.4.16''\<rparr>], rd_electron = Map.empty\<rparr>, search_query = ''MOBILE'', show_mobile = True,
        show_early_access = True, found_only = False, sort_by_priority = True, table = [\<lparr>c_id = ''0'', c_version = ''1.4.16'', c_type = ''Desktop'', c_released = ''2023-10-26'',
        c_status = ''Found'', c_electron = ''v25.8.1'', c_chromium = ''---''\<rparr>,
        \<lparr>c_id = ''1'', c_version = ''1.5.3'', c_type = ''Desktop'', c_released = ''2024-01-12'',
        c_status = ''Missing'', c_electron = ''v25.8.1'', c_chromium = ''---''\<rparr>,
        \<lparr>c_id = ''2'', c_version = ''1.4.16'', c_type = ''Mobile'', c_released = ''2023-10-27'',
        c_status = ''N/A'', c_electron = ''v25.8.1'', c_chromium = ''---''\<rparr>],
        cursor_row = 0, search_visible = True, screen_stack = [], notices = []\<rparr>))) 2)
      \<and> (\<forall>j. 1 \<le> j \<and> j < 2 \<longrightarrow>
            \<not> row_matches (\<lparr>raw = Some \<lparr>rd_rss = [\<lparr>rss_version = Some ''1.5.3'', rss_type = Some ''Desktop'', rss_date = Some ''2024-01-12T10:00:00Z'',
        rss_electron = Some ''25.8.1'', rss_title = Some ''Obsidian 1.5.3 Desktop (Public)''\<rparr>, \<lparr>rss_version = Some ''1.4.16'', rss_type = Some ''Desktop'', rss_date = Some ''2023-10-26T10:00:00Z'',
        rss_electron = Some ''25.8.1'', rss_title = Some ''Obsidian 1.4.16 Desktop (Public)''\<rparr>, \<lparr>rss_version = Some ''1.4.16'', rss_type = Some ''Mobile'', rss_date = Some ''2023-10-27T10:00:00Z'',
        rss_electron = Some ''25.8.1'', rss_title = Some ''Obsidian 1.4.16 Mobile (Public)''\<rparr>],
        rd_docker = [\<lparr>dk_version = Some ''1.4.16'', dk_tag = Some ''1.4.16''\<rparr>], rd_electron = Map.empty\<rparr>, search_query = ''MOBILE'', show_mobile = True,
        show_early_access = True, found_only = False, sort_by_priority = True, table = [\<lparr>c_id = ''0'', c_version = ''1.4.16'', c_type = ''Desktop'', c_released = ''2023-10-26'',
        c_status = ''Found'', c_electron = ''v25.8.1'', c_chromium = ''---''\<rparr>,
        \<lparr>c_id = ''1'', c_version = ''1.5.3'', c_type = ''Desktop'', c_released = ''2024-01-12'',
        c_status = ''Missing'', c_electron = ''v25.8.1'', c_chromium = ''---''\<rparr>,
        \<lparr>c_id = ''2'', c_version = ''1.4.16'', c_type = ''Mobile'', c_released = ''2023-10-27'',
        c_status = ''N/A'', c_electron = ''v25.8.1'', c_chromium = ''---''\<rparr>],
        cursor_row = 0, search_visible = True, screen_stack = [], notices = []\<rparr>) (jump_idx (cursor_row (\<lparr>raw = Some \<lparr>rd_rss = [\<lparr>rss_version = Some ''1.5.3'', rss_type = Some ''Desktop'', rss_date = Some ''2024-01-12T10:00:00Z'',
        rss_electron = Some ''25.8.1'', rss_title = Some ''Obsidian 1.5.3 Desktop (Public)''\<rparr>, \<lparr>rss_version = Some ''1.4.16'', rss_type = Some ''Desktop'', rss_date = Some ''2023-10-26T10:00:00Z'',
        rss_electron = Some ''25.8.1'', rss_title = Some ''Obsidian 1.4.16 Desktop (Public)''\<rparr>, \<lparr>rss_version = Some ''1.4.16'', rss_type = Some ''Mobile'', rss_date = Some ''2023-10-27T10:00:00Z'',
        rss_electron = Some ''25.8.1'', rss_title = Some ''Obsidian 1.4.16 Mobile (Public)''\<rparr>],
        rd_docker = [\<lparr>dk_version = Some ''1.4.16'', dk_tag = Some ''1.4.16''\<rparr>], rd_electron = Map.empty\<rparr>, search_query = ''MOBILE'', show_mobile = True,
        show_early_access = True, found_only = False, sort_by_priority = True, table = [\<lparr>c_id = ''0'', c_version = ''1.4.16'', c_type = ''Desktop'', c_released = ''2023-10-26'',
        c_status = ''Found'', c_electron = ''v25.8.1'', c_chromium = ''---''\<rparr>,
        \<lparr>c_id = ''1'', c_version = ''1.5.3'', c_type = ''Desktop'', c_released = ''2024-01-12'',
        c_status = ''Missing'', c_electron = ''v25.8.1'', c_chromium = ''---''\<rparr>,
        \<lparr>c_id = ''2'', c_version = ''1.4.16'', c_type = ''Mobile'', c_released = ''2023-10-27'',
        c_status = ''N/A'', c_electron = ''v25.8.1'', c_chromium = ''---''\<rparr>],
        cursor_row = 0, search_visible = True, screen_stack = [], notices = []\<rparr>)) 1 (length (table (\<lparr>raw = Some \<lparr>rd_rss = [\<lparr>rss_version = Some ''1.5.3'', rss_type = Some ''Desktop'', rss_date = Some ''2024-01-12T10:00:00Z'',
        rss_electron = Some ''25.8.1'', rss_title = Some ''Obsidian 1.5.3 Desktop (Public)''\<rparr>, \<lparr>rss_version = Some ''1.4.16'', rss_type = Some ''Desktop'', rss_date = Some ''2023-10-26T10:00:00Z'',
        rss_electron = Some ''25.8.1'', rss_title = Some ''Obsidian 1.4.16 Desktop (Public)''\<rparr>, \<lparr>rss_version = Some ''1.4.16'', rss_type = Some ''Mobile'', rss_date = Some ''2023-10-27T10:00:00Z'',
        rss_electron = Some ''25.8.1'', rss_title = Some ''Obsidian 1.4.16 Mobile (Public)''\<rparr>],
        rd_docker = [\<lparr>dk_version = Some ''1.4.16'', dk_tag = Some ''1.4.16''\<rparr>], rd_electron = Map.empty\<rparr>, search_query = ''MOBILE'', show_mobile = True,
        show_early_access = True, found_only = False, sort_by_priority = True, table = [\<lparr>c_id = ''0'', c_version = ''1.4.16'', c_type = ''Desktop'', c_released = ''2023-10-26'',
        c_status = ''Found'', c_electron = ''v25.8.1'', c_chromium = ''---''\<rparr>,
        \<lparr>c_id = ''1'', c_version = ''1.5.3'', c_type = ''Desktop'', c_released = ''2024-01-12'',
        c_status = ''Missing'', c_electron = ''v25.8.1'', c_chromium = ''---''\<rparr>,
        \<lparr>c_id = ''2'', c_version = ''1.4.16'', c_type = ''Mobile'', c_released = ''2023-10-27'',
        c_status = ''N/A'', c_electron = ''v25.8.1'', c_chromium = ''---''\<rparr>],
        cursor_row = 0, search_visible = True, screen_stack = [], notices = []\<rparr>))) j))"
    using j by (simp add: match_eval jump_idx_def)
  have e: "search_query (\<lparr>raw = Some \<lparr>rd_rss = [\<lparr>rss_version = Some ''1.5.3'', rss_type = Some ''Desktop'', rss_date = Some ''2024-01-12T10:00:00Z'',
        rss_electron = Some ''25.8.1'', rss_title = Some ''Obsidian 1.5.3 Desktop (Public)''\<rparr>, \<lparr>rss_version = Some ''1.4.16'', rss_type = Some ''Desktop'', rss_date = Some ''2023-10-26T10:00:00Z'',
        rss_electron = Some ''25.8.1'', rss_title = Some ''Obsidian 1.4.16 Desktop (Public)''\<rparr>, \<lparr>rss_version = Some ''1.4.16'', rss_type = Some ''Mobile'', rss_date = Some ''2023-10-27T10:00:00Z'',
        rss_electron = Some ''25.8.1'', rss_title = Some ''Obsidian 1.4.16 Mobile (Public)''\<rparr>],
        rd_docker = [\<lparr>dk_version = Some ''1.4.16'', dk_tag = Some ''1.4.16''\<rparr>], rd_electron = Map.empty\<rparr>, search_query = '''', show_mobile = True,
        show_early_access = True, found_only = False, sort_by_priority = True, table = [\<lparr>c_id = ''0'', c_version = ''1.4.16'', c_type = ''Desktop'', c_released = ''2023-10-26'',
        c_status = ''Found'', c_electron = ''v25.8.1'', c_chromium = ''---''\<rparr>,
        \<lparr>c_id = ''1'', c_version = ''1.5.3'', c_type = ''Desktop'', c_released = ''2024-01-12'',
        c_status = ''Missing'', c_electron = ''v25.8.1'', c_chromium = ''---''\<rparr>,
        \<lparr>c_id = ''2'', c_version = ''1.4.16'', c_type = ''Mobile'', c_released = ''2023-10-27'',
        c_status = ''N/A'', c_electron = ''v25.8.1'', c_chromium = ''---''\<rparr>],
        cursor_row = 0, search_visible = False, screen_stack = [], notices = []\<rparr>) = []" by simp
  have z: "\<forall>idx < length (table (\<lparr>raw = Some \<lparr>rd_rss = [\<lparr>rss_version = Some ''1.5.3'', rss_type = Some ''Desktop'', rss_date = Some ''2024-01-12T10:00:00Z'',
        rss_electron = Some ''25.8.1'', rss_title = Some ''Obsidian 1.5.3 Desktop (Public)''\<rparr>, \<lparr>rss_version = Some ''1.4.16'', rss_type = Some ''Desktop'', rss_date = Some ''2023-10-26T10:00:00Z'',
        rss_electron = Some ''25.8.1'', rss_title = Some ''Obsidian 1.4.16 Desktop (Public)''\<rparr>, \<lparr>rss_version = Some ''1.4.16'', rss_type = Some ''Mobile'', rss_date = Some ''2023-10-27T10:00:00Z'',
        rss_electron = Some ''25.8.1'', rss_title = Some ''Obsidian 1.4.16 Mobile (Public)''\<rparr>],
        rd_docker = [\<lparr>dk_version = Some ''1.4.16'', dk_tag = Some ''1.4.16''\<rparr>], rd_electron = Map.empty\<rparr>, search_query = ''zzz'', show_mobile = True,
        show_early_access = True, found_only = False, sort_by_priority = True, table = [\<lparr>c_id = ''0'', c_version = ''1.4.16'', c_type = ''Desktop'', c_released = ''2023-10-26'',
        c_status = ''Found'', c_electron = ''v25.8.1'', c_chromium = ''---''\<rparr>,
        \<lparr>c_id = ''1'', c_version = ''1.5.3'', c_type = ''Desktop'', c_released = ''2024-01-12'',
        c_status = ''Missing'', c_electron = ''v25.8.1'', c_chromium = ''---''\<rparr>,
        \<lparr>c_id = ''2'', c_version = ''1.4.16'', c_type = ''Mobile'', c_released = ''2023-10-27'',
        c_status = ''N/A'', c_electron = ''v25.8.1'', c_chromium = ''---''\<rparr>],
        cursor_row = 0, search_visible = True, screen_stack = [], notices = []\<rparr>)). \<not> row_matches (\<lparr>raw = Some \<lparr>rd_rss = [\<lparr>rss_version = Some ''1.5.3'', rss_type = Some ''Desktop'', rss_date = Some ''2024-01-12T10:00:00Z'',
        rss_electron = Some ''25.8.1'', rss_title = Some ''Obsidian 1.5.3 Desktop (Public)''\<rparr>, \<lparr>rss_version = Some ''1.4.16'', rss_type = Some ''Desktop'', rss_date = Some ''2023-10-26T10:00:00Z'',
        rss_electron = Some ''25.8.1'', rss_title = Some ''Obsidian 1.4.16 Desktop (Public)''\<rparr>, \<lparr>rss_version = Some ''1.4.16'', rss_type = Some ''Mobile'', rss_date = Some ''2023-10-27T10:00:00Z'',
        rss_electron = Some ''25.8.1'', rss_title = Some ''Obsidian 1.4.16 Mobile (Public)''\<rparr>],
        rd_docker = [\<lparr>dk_version = Some ''1.4.16'', dk_tag = Some ''1.4.16''\<rparr>], rd_electron = Map.empty\<rparr>, search_query = ''zzz'', show_mobile = True,
        show_early_access = True, found_only = False, sort_by_priority = True, table = [\<lparr>c_id = ''0'', c_version = ''1.4.16'', c_type = ''Desktop'', c_released = ''2023-10-26'',
        c_status = ''Found'', c_electron = ''v25.8.1'', c_chromium = ''---''\<rparr>,
        \<lparr>c_id = ''1'', c_version = ''1.5.3'', c_type = ''Desktop'', c_released = ''2024-01-12'',
        c_status = ''Missing'', c_electron = ''v25.8.1'', c_chromium = ''---''\<rparr>,
        \<lparr>c_id = ''2'', c_version = ''1.4.16'', c_type = ''Mobile'', c_released = ''2023-10-27'',
        c_status = ''N/A'', c_electron = ''v25.8.1'', c_chromium = ''---''\<rparr>],
        cursor_row = 0, search_visible = True, screen_stack = [], notices = []\<rparr>) idx"
  proof (intro allI impI)
    fix idx
    assume "idx < length (table (\<lparr>raw = Some \<lparr>rd_rss = [\<lparr>rss_version = Some ''1.5.3'', rss_type = Some ''Desktop'', rss_date = Some ''2024-01-12T10:00:00Z'',
        rss_electron = Some ''25.8.1'', rss_title = Some ''Obsidian 1.5.3 Desktop (Public)''\<rparr>, \<lparr>rss_version = Some ''1.4.16'', rss_type = Some ''Desktop'', rss_date = Some ''2023-10-26T10:00:00Z'',
        rss_electron = Some ''25.8.1'', rss_title = Some ''Obsidian 1.4.16 Desktop (Public)''\<rparr>, \<lparr>rss_version = Some ''1.4.16'', rss_type = Some ''Mobile'', rss_date = Some ''2023-10-27T10:00:00Z'',
        rss_electron = Some ''25.8.1'', rss_title = Some ''Obsidian 1.4.16 Mobile (Public)''\<rparr>],
        rd_docker = [\<lparr>dk_version = Some ''1.4.16'', dk_tag = Some ''1.4.16''\<rparr>], rd_electron = Map.empty\<rparr>, search_query = ''zzz'', show_mobile = True,
        show_early_access = True, found_only = False, sort_by_priority = True, table = [\<lparr>c_id = ''0'', c_version = ''1.4.16'', c_type = ''Desktop'', c_released = ''2023-10-26'',
        c_status = ''Found'', c_electron = ''v25.8.1'', c_chromium = ''---''\<rparr>,
        \<lparr>c_id = ''1'', c_version = ''1.5.3'', c_type = ''Desktop'', c_released = ''2024-01-12'',
        c_status = ''Missing'', c_electron = ''v25.8.1'', c_chromium = ''---''\<rparr>,
        \<lparr>c_id = ''2'', c_version = ''1.4.16'', c_type = ''Mobile'', c_released = ''2023-10-27'',
        c_status = ''N/A'', c_electron = ''v25.8.1'', c_chromium = ''---''\<rparr>],
        cursor_row = 0, search_visible = True, screen_stack = [], notices = []\<rparr>))"
    then have "idx = 0 \<or> idx = 1 \<or> idx = 2" by auto
    then show "\<not> row_matches (\<lparr>raw = Some \<lparr>rd_rss = [\<lparr>rss_version = Some ''1.5.3'', rss_type = Some ''Desktop'', rss_date = Some ''2024-01-12T10:00:00Z'',
        rss_electron = Some ''25.8.1'', rss_title = Some ''Obsidian 1.5.3 Desktop (Public)''\<rparr>, \<lparr>rss_version = Some ''1.4.16'', rss_type = Some ''Desktop'', rss_date = Some ''2023-10-26T10:00:00Z'',
        rss_electron = Some ''25.8.1'', rss_title = Some ''Obsidian 1.4.16 Desktop (Public)''\<rparr>, \<lparr>rss_version = Some ''1.4.16'', rss_type = Some ''Mobile'', rss_date = Some ''2023-10-27T10:00:00Z'',
        rss_electron = Some ''25.8.1'', rss_title = Some ''Obsidian 1.4.16 Mobile (Public)''\<rparr>],
        rd_docker = [\<lparr>dk_version = Some ''1.4.16'', dk_tag = Some ''1.4.16''\<rparr>], rd_electron = Map.empty\<rparr>, search_query = ''zzz'', show_mobile = True,
        show_early_access = True, found_only = False, sort_by_priority = True, table = [\<lparr>c_id = ''0'', c_version = ''1.4.16'', c_type = ''Desktop'', c_released = ''2023-10-26'',
        c_status = ''Found'', c_electron = ''v25.8.1'', c_chromium = ''---''\<rparr>,
        \<lparr>c_id = ''1'', c_version = ''1.5.3'', c_type = ''Desktop'', c_released = ''2024-01-12'',
        c_status = ''Missing'', c_electron = ''v25.8.1'', c_chromium = ''---''\<rparr>,
        \<lparr>c_id = ''2'', c_version = ''1.4.16'', c_type = ''Mobile'', c_released = ''2023-10-27'',
        c_status = ''N/A'', c_electron = ''v25.8.1'', c_chromium = ''---''\<rparr>],
        cursor_row = 0, search_visible = True, screen_stack = [], notices = []\<rparr>) idx"
      by (elim disjE) (simp_all add: match_eval)
  qed
  note t = jump_to_match_wraps [of "(\<lparr>raw = Some \<lparr>rd_rss = [\<lparr>rss_version = Some ''1.5.3'', rss_type = Some ''Desktop'', rss_date = Some ''2024-01-12T10:00:00Z'',
        rss_electron = Some ''25.8.1'', rss_title = Some ''Obsidian 1.5.3 Desktop (Public)''\<rparr>, \<lparr>rss_version = Some ''1.4.16'', rss_type = Some ''Desktop'', rss_date = Some ''2023-10-26T10:00:00Z'',
        rss_electron = Some ''25.8.1'', rss_title = Some ''Obsidian 1.4.16 Desktop (Public)''\<rparr>, \<lparr>rss_version = Some ''1.4.16'', rss_type = Some ''Mobile'', rss_date = Some ''2023-10-27T10:00:00Z'',
        rss_electron = Some ''25.8.1'', rss_title = Some ''Obsidian 1.4.16 Mobile (Public)''\<rparr>],
        rd_docker = [\<lparr>dk_version = Some ''1.4.16'', dk_tag = Some ''1.4.16''\<rparr>], rd_electron = Map.empty\<rparr>, search_query = ''MOBILE'', show_mobile = True,
        show_early_access = True, found_only = False, sort_by_priority = True, table = [\<lparr>c_id = ''0'', c_version = ''1.4.16'', c_type = ''Desktop'', c_released = ''2023-10-26'',
        c_status = ''Found'', c_electron = ''v25.8.1'', c_chromium = ''---''\<rparr>,
        \<lparr>c_id = ''1'', c_version = ''1.5.3'', c_type = ''Desktop'', c_released = ''2024-01-12'',
        c_status = ''Missing'', c_electron = ''v25.8.1'', c_chromium = ''---''\<rparr>,
        \<lparr>c_id = ''2'', c_version = ''1.4.16'', c_type = ''Mobile'', c_released = ''2023-10-27'',
        c_status = ''N/A'', c_electron = ''v25.8.1'', c_chromium = ''---''\<rparr>],
        cursor_row = 0, search_visible = True, screen_stack = [], notices = []\<rparr>)" 1 2 0 3]
  note t3 = t [THEN conjunct2, THEN conjunct2, THEN conjunct1, THEN mp, OF i]
  note t7 = t [THEN conjunct2, THEN conjunct2, THEN conjunct2, THEN conjunct2, THEN conjunct2,
      THEN conjunct2, THEN mp, OF c]
  note te = jump_to_match_wraps [of "(\<lparr>raw = Some \<lparr>rd_rss = [\<lparr>rss_version = Some ''1.5.3'', rss_type = Some ''Desktop'', rss_date = Some ''2024-01-12T10:00:00Z'',
        rss_electron = Some ''25.8.1'', rss_title = Some ''Obsidian 1.5.3 Desktop (Public)''\<rparr>, \<lparr>rss_version = Some ''1.4.16'', rss_type = Some ''Desktop'', rss_date = Some ''2023-10-26T10:00:00Z'',
        rss_electron = Some ''25.8.1'', rss_title = Some ''Obsidian 1.4.16 Desktop (Public)''\<rparr>, \<lparr>rss_version = Some ''1.4.16'', rss_type = Some ''Mobile'', rss_date = Some ''2023-10-27T10:00:00Z'',
        rss_electron = Some ''25.8.1'', rss_title = Some ''Obsidian 1.4.16 Mobile (Public)''\<rparr>],
        rd_docker = [\<lparr>dk_version = Some ''1.4.16'', dk_tag = Some ''1.4.16''\<rparr>], rd_electron = Map.empty\<rparr>, search_query = '''', show_mobile = True,
        show_early_access = True, found_only = False, sort_by_priority = True, table = [\<lparr>c_id = ''0'', c_version = ''1.4.16'', c_type = ''Desktop'', c_released = ''2023-10-26'',
        c_status = ''Found'', c_electron = ''v25.8.1'', c_chromium = ''---''\<rparr>,
        \<lparr>c_id = ''1'', c_version = ''1.5.3'', c_type = ''Desktop'', c_released = ''2024-01-12'',
        c_status = ''Missing'', c_electron = ''v25.8.1'', c_chromium = ''---''\<rparr>,
        \<lparr>c_id = ''2'', c_version = ''1.4.16'', c_type = ''Mobile'', c_released = ''2023-10-27'',
        c_status = ''N/A'', c_electron = ''v25.8.1'', c_chromium = ''---''\<rparr>],
        cursor_row = 0, search_visible = False, screen_stack = [], notices = []\<rparr>)" 1 2 0 3, THEN conjunct1, THEN mp, OF e]
  note tz = jump_to_match_wraps [of "(\<lparr>raw = Some \<lparr>rd_rss = [\<lparr>rss_version = Some ''1.5.3'', rss_type = Some ''Desktop'', rss_date = Some ''2024-01-12T10:00:00Z'',
        rss_electron = Some ''25.8.1'', rss_title = Some ''Obsidian 1.5.3 Desktop (Public)''\<rparr>, \<lparr>rss_version = Some ''1.4.16'', rss_type = Some ''Desktop'', rss_date = Some ''2023-10-26T10:00:00Z'',
        rss_electron = Some ''25.8.1'', rss_title = Some ''Obsidian 1.4.16 Desktop (Public)''\<rparr>, \<lparr>rss_version = Some ''1.4.16'', rss_type = Some ''Mobile'', rss_date = Some ''2023-10-27T10:00:00Z'',
        rss_electron = Some ''25.8.1'', rss_title = Some ''Obsidian 1.4.16 Mobile (Public)''\<rparr>],
        rd_docker = [\<lparr>dk_version = Some ''1.4.16'', dk_tag = Some ''1.4.16''\<rparr>], rd_electron = Map.empty\<rparr>, search_query = ''zzz'', show_mobile = True,
        show_early_access = True, found_only = False, sort_by_priority = True, table = [\<lparr>c_id = ''0'', c_version = ''1.4.16'', c_type = ''Desktop'', c_released = ''2023-10-26'',
        c_status = ''Found'', c_electron = ''v25.8.1'', c_chromium = ''---''\<rparr>,
        \<lparr>c_id = ''1'', c_version = ''1.5.3'', c_type = ''Desktop'', c_released = ''2024-01-12'',
        c_status = ''Missing'', c_electron = ''v25.8.1'', c_chromium = ''---''\<rparr>,
        \<lparr>c_id = ''2'', c_version = ''1.4.16'', c_type = ''Mobile'', c_released = ''2023-10-27'',
        c_status = ''N/A'', c_electron = ''v25.8.1'', c_chromium = ''---''\<rparr>],
        cursor_row = 0, search_visible = True, screen_stack = [], notices = []\<rparr>)" "- 1" 2 0 3, THEN conjunct2, THEN conjunct1, THEN mp, OF z]
  show ?thesis
    using c p t3 t7 te tz e by (intro conjI) (elim conjE, assumption)+
qed

section \<open>Submitting the row under the cursor\<close>















section \<open>Writing the cache snapshots\<close>

lemma write_text_states_prefix:
  assumes "s \<in> set (write_text_states path txt fs)"
  shows "(\<exists>k \<le> length txt. s path = Some (take k txt)) \<and> (\<forall>p. p \<noteq> path \<longrightarrow> s p = fs p)"
proof -
  from assms obtain k where k: "k < Suc (length txt)" "s = fs(path \<mapsto> take k txt)"
    unfolding write_text_states_def by (auto simp del: upt_Suc)
  then have "k \<le> length txt \<and> s path = Some (take k txt)" by simp
  moreover have "\<forall>p. p \<noteq> path \<longrightarrow> s p = fs p" using k(2) by simp
  ultimately show ?thesis by blast
qed

lemma write_text_states_hd: "hd (write_text_states path txt fs) = fs(path \<mapsto> '''')"
  unfolding write_text_states_def by (simp add: upt_conv_Cons del: upt_Suc)

lemma write_text_states_last: "last (write_text_states path txt fs) = write_text path txt fs"
  unfolding write_text_states_def write_text_def by (simp add: last_map)

lemma write_text_states_nth:
  "k \<le> length txt \<Longrightarrow> write_text_states path txt fs ! k = fs(path \<mapsto> take k txt)"
  unfolding write_text_states_def by (simp add: nth_map_upt del: upt_Suc)

text \<open>
  Claim C8, as the code has it. Each source saves its snapshot with one
  \<^verbatim>\<open>write_text\<close> on the cache file itself (the Docker source only a list that is not
  empty); there is no temporary file and no rename. While the text is written the
  cache file holds a part of the new text, from the empty text on, and the other
  files are untouched; the file holds the whole new snapshot only in the last state,
  when the write has completed.
\<close>

theorem snapshot_written_in_place:
  "(\<forall>s \<in> set (write_text_states path txt fs).
       (\<exists>k \<le> length txt. s path = Some (take k txt)) \<and> (\<forall>p. p \<noteq> path \<longrightarrow> s p = fs p))
   \<and> hd (write_text_states path txt fs) = fs(path \<mapsto> '''')
   \<and> last (write_text_states path txt fs) = write_text path txt fs
   \<and> (k \<le> length txt \<longrightarrow> write_text_states path txt fs ! k = fs(path \<mapsto> take k txt))
   \<and> rss_save_states dumps_r versions_r fs
       = write_text_states rss_cache_file (dumps_r versions_r) fs
   \<and> (versions_d \<noteq> [] \<longrightarrow>
        docker_save_states dumps_d versions_d fs
          = write_text_states docker_cache_file (dumps_d versions_d) fs)
   \<and> (versions_d = [] \<longrightarrow> docker_save_states dumps_d versions_d fs = [fs])
   \<and> electron_save_states dumps_e data_e fs
       = write_text_states electron_cache_file (dumps_e data_e) fs"
proof -
  have 1: "\<forall>s \<in> set (write_text_states path txt fs).
       (\<exists>k \<le> length txt. s path = Some (take k txt)) \<and> (\<forall>p. p \<noteq> path \<longrightarrow> s p = fs p)"
    using write_text_states_prefix by blast
  have 2: "k \<le> length txt \<longrightarrow> write_text_states path txt fs ! k = fs(path \<mapsto> take k txt)"
    using write_text_states_nth by blast
  have 3: "rss_save_states dumps_r versions_r fs
       = write_text_states rss_cache_file (dumps_r versions_r) fs"
    by (simp add: rss_save_states_def)
  have 4: "versions_d \<noteq> [] \<longrightarrow>
        docker_save_states dumps_d versions_d fs
          = write_text_states docker_cache_file (dumps_d versions_d) fs"
    by (simp add: docker_save_states_def)
  have 5: "versions_d = [] \<longrightarrow> docker_save_states dumps_d versions_d fs = [fs]"
    by (simp add: docker_save_states_def)
  have 6: "electron_save_states dumps_e data_e fs
       = write_text_states electron_cache_file (dumps_e data_e) fs"
    by (simp add: electron_save_states_def)
  show ?thesis
    using 1 2 3 4 5 6 write_text_states_hd write_text_states_last by blast
qed

theorem snapshot_written_in_place_witness:
  "(1::nat) \<le> length ''[]''
   \<and> write_text_states rss_cache_file ''[]'' [rss_cache_file \<mapsto> ''[1]''] ! 1
       = [rss_cache_file \<mapsto> ''[1]''](rss_cache_file \<mapsto> take 1 ''[]'')
   \<and> take 1 ''[]'' = ''[''
   \<and> hd (write_text_states rss_cache_file ''[]'' [rss_cache_file \<mapsto> ''[1]''])
       = [rss_cache_file \<mapsto> ''[1]''](rss_cache_file \<mapsto> '''')
   \<and> last (write_text_states rss_cache_file ''[]'' [rss_cache_file \<mapsto> ''[1]''])
       = write_text rss_cache_file ''[]'' [rss_cache_file \<mapsto> ''[1]'']"
proof -
  note t = snapshot_written_in_place
      [of rss_cache_file "''[]''" "[rss_cache_file \<mapsto> ''[1]'']" 1]
  have c: "(1::nat) \<le> length ''[]''" by simp
  have d: "take 1 ''[]'' = ''[''" by simp
  note h = t [THEN conjunct2, THEN conjunct1]
  note l = t [THEN conjunct2, THEN conjunct2, THEN conjunct1]
  note n = t [THEN conjunct2, THEN conjunct2, THEN conjunct2, THEN conjunct1, THEN mp, OF c]
  show ?thesis
    by (intro conjI) (rule c n d h l)+
qed

text \<open>An interruption right after the file is opened leaves each of the three cache
  files empty: neither the previous snapshot nor the new one.\<close>

theorem snapshot_atomic_counterexample:
  "(rss_save_states (\<lambda>vs. ''[]'') ([] :: feed_version list) [rss_cache_file \<mapsto> ''[1]''] ! 0)
       rss_cache_file = Some ''''
   \<and> (docker_save_states (\<lambda>vs. ''[2]'') [\<lparr>dk_version = Some ''1.4.16'', dk_tag = Some ''1.4.16''\<rparr>]
         [docker_cache_file \<mapsto> ''[1]''] ! 0) docker_cache_file = Some ''''
   \<and> (electron_save_states (\<lambda>m. ''{}'') (Map.empty :: string \<rightharpoonup> string)
         [electron_cache_file \<mapsto> ''[1]''] ! 0) electron_cache_file = Some ''''
   \<and> '''' \<noteq> ''[1]'' \<and> '''' \<noteq> ''[]'' \<and> '''' \<noteq> ''[2]'' \<and> '''' \<noteq> ''{}''"
  by (simp add: rss_save_states_def docker_save_states_def electron_save_states_def
      write_text_states_def)

end
